theory Spec2Isabelle
  imports Main "HOL-Library.Word"
begin

unbundle bit_operations_syntax

section \<open>Machine types and on-disk helpers\<close>

text \<open>
  The library is C for 32-bit targets: \<open>uint8_t\<close>, \<open>uint16_t\<close> and \<open>uint32_t\<close> are words
  whose arithmetic wraps, \<open>int\<close> is 32 bits wide.  A 512-byte buffer (\<open>uint8_t buf[512]\<close>) is a
  function from the byte offset to the byte; the code only touches offsets below 512.
\<close>

type_synonym u8 = "8 word"
type_synonym u16 = "16 word"
type_synonym u32 = "32 word"
type_synonym u64 = "64 word"
type_synonym sector = "nat \<Rightarrow> u8"

text \<open>libresd\_types.h: \<open>libresd_err_t\<close>.\<close>

datatype libresd_err_t =
    LIBRESD_OK
  | LIBRESD_ERR_NO_CARD | LIBRESD_ERR_SPI | LIBRESD_ERR_TIMEOUT | LIBRESD_ERR_CRC
  | LIBRESD_ERR_VOLTAGE | LIBRESD_ERR_INIT | LIBRESD_ERR_CMD | LIBRESD_ERR_WRITE_PROTECT
  | LIBRESD_ERR_BUSY | LIBRESD_ERR_READ | LIBRESD_ERR_WRITE | LIBRESD_ERR_ERASE
  | LIBRESD_ERR_NO_FS | LIBRESD_ERR_INVALID_FS | LIBRESD_ERR_NOT_FAT | LIBRESD_ERR_FAT_CORRUPT
  | LIBRESD_ERR_FULL | LIBRESD_ERR_ROOT_FULL
  | LIBRESD_ERR_NOT_FOUND | LIBRESD_ERR_EXISTS | LIBRESD_ERR_NOT_FILE | LIBRESD_ERR_NOT_DIR
  | LIBRESD_ERR_DIR_NOT_EMPTY | LIBRESD_ERR_INVALID_NAME | LIBRESD_ERR_PATH_TOO_LONG
  | LIBRESD_ERR_TOO_MANY_OPEN | LIBRESD_ERR_INVALID_HANDLE | LIBRESD_ERR_EOF
  | LIBRESD_ERR_READ_ONLY | LIBRESD_ERR_SEEK | LIBRESD_ERR_LOCKED
  | LIBRESD_ERR_INVALID_PARAM | LIBRESD_ERR_NO_MEM | LIBRESD_ERR_NOT_MOUNTED
  | LIBRESD_ERR_ALREADY_MOUNTED | LIBRESD_ERR_NOT_SUPPORTED | LIBRESD_ERR_GENERAL
  | LIBRESD_ERR_INTERNAL

datatype libresd_card_type_t =
    LIBRESD_CARD_NONE | LIBRESD_CARD_MMC | LIBRESD_CARD_SD_V1 | LIBRESD_CARD_SD_V2
  | LIBRESD_CARD_SDHC | LIBRESD_CARD_SDXC

datatype libresd_fs_type_t =
    LIBRESD_FS_NONE | LIBRESD_FS_FAT12 | LIBRESD_FS_FAT16 | LIBRESD_FS_FAT32 | LIBRESD_FS_EXFAT

datatype libresd_seek_t = LIBRESD_SEEK_SET | LIBRESD_SEEK_CUR | LIBRESD_SEEK_END

text \<open>The \<open>READ16\<close>, \<open>READ32\<close>, \<open>WRITE16\<close> and \<open>WRITE32\<close> macros of libresd\_fat.c.\<close>

definition READ16 :: "sector \<Rightarrow> nat \<Rightarrow> u16" where
  "READ16 buf off = ucast (buf off) OR push_bit 8 (ucast (buf (off + 1)))"

definition READ32 :: "sector \<Rightarrow> nat \<Rightarrow> u32" where
  "READ32 buf off = ucast (buf off) OR push_bit 8 (ucast (buf (off + 1)))
     OR push_bit 16 (ucast (buf (off + 2))) OR push_bit 24 (ucast (buf (off + 3)))"

definition WRITE16 :: "sector \<Rightarrow> nat \<Rightarrow> u32 \<Rightarrow> sector" where
  "WRITE16 buf off v =
     (buf(off := ucast (v AND 0xFF)))(off + 1 := ucast (drop_bit 8 v AND 0xFF))"

definition WRITE32 :: "sector \<Rightarrow> nat \<Rightarrow> u32 \<Rightarrow> sector" where
  "WRITE32 buf off v =
     ((((buf(off := ucast (v AND 0xFF)))
        (off + 1 := ucast (drop_bit 8 v AND 0xFF)))
        (off + 2 := ucast (drop_bit 16 v AND 0xFF)))
        (off + 3 := ucast (drop_bit 24 v AND 0xFF)))"

section \<open>SD command layer (libresd\_sd.c)\<close>

text \<open>
  \<open>sd_crc7\<close>: the inner loop body works on the pair (crc, d); the byte loop runs it eight
  times; the outer loop folds over the \<open>len\<close> bytes of \<open>data\<close> (here the whole list).
\<close>

definition sd_crc7_bit :: "u8 \<times> u8 \<Rightarrow> u8 \<times> u8" where
  "sd_crc7_bit p = (case p of (crc, d) \<Rightarrow>
     (let crc1 = push_bit 1 crc;
          crc2 = (if (d AND 0x80) XOR (crc1 AND 0x80) \<noteq> 0 then crc1 XOR 0x09 else crc1)
      in (crc2, push_bit 1 d)))"

definition sd_crc7_byte :: "u8 \<Rightarrow> u8 \<Rightarrow> u8" where
  "sd_crc7_byte crc d = fst ((sd_crc7_bit ^^ 8) (crc, d))"

definition sd_crc7 :: "u8 list \<Rightarrow> u8" where
  "sd_crc7 data = push_bit 1 (foldl sd_crc7_byte 0 data) OR 1"

text \<open>
  The card and the SPI link behind the HAL are outside the library.  They are a record of
  what the driver observes: the R1 byte that the polling loop of \<open>libresd_sd_cmd\<close> ends
  with for a transmitted frame, the data token after a read command, the data-response byte
  and the busy release after a block write, the write-protect switch, and the stored blocks,
  indexed by the 32-bit command argument.
\<close>

record sd_card =
  write_protect :: bool
  r1_reply :: "u8 list \<Rightarrow> u8"
  read_token :: "u32 \<Rightarrow> u8"
  data_response :: "u32 \<Rightarrow> u8"
  write_ready :: "u32 \<Rightarrow> bool"
  blocks :: "u32 \<Rightarrow> sector"

record libresd_sd_t =
  initialized :: bool
  card_type :: libresd_card_type_t
  spi_speed :: u32
  capacity :: u64
  sector_count :: u32
  block_size :: u16
  block_addr :: bool
  read_count :: u32
  write_count :: u32
  error_count :: u32
  hal :: sd_card

definition SD_CMD17 :: u8 where "SD_CMD17 = 17"
definition SD_CMD24 :: u8 where "SD_CMD24 = 24"
definition SD_TOKEN_SINGLE :: u8 where "SD_TOKEN_SINGLE = 0xFE"

text \<open>The six bytes \<open>libresd_sd_cmd\<close> builds and transmits, and the R1 byte it returns.\<close>

definition cmd_frame :: "u8 \<Rightarrow> u32 \<Rightarrow> u8 list" where
  "cmd_frame cmd arg =
     (let frame5 = [0x40 OR cmd,
                    ucast (drop_bit 24 arg AND 0xFF),
                    ucast (drop_bit 16 arg AND 0xFF),
                    ucast (drop_bit 8 arg AND 0xFF),
                    ucast (arg AND 0xFF)]
      in frame5 @ [sd_crc7 frame5])"

definition libresd_sd_cmd :: "sd_card \<Rightarrow> u8 \<Rightarrow> u32 \<Rightarrow> u8" where
  "libresd_sd_cmd c cmd arg = r1_reply c (cmd_frame cmd arg)"

text \<open>
  \<open>libresd_sd_read_sector\<close>: the caller's buffer is passed in and comes back unchanged on
  every error path (all of them return before the bulk transfer).
\<close>

definition libresd_sd_read_sector ::
  "libresd_sd_t \<Rightarrow> u32 \<Rightarrow> sector \<Rightarrow> libresd_err_t \<times> libresd_sd_t \<times> sector" where
  "libresd_sd_read_sector sd sec buffer =
     (if \<not> initialized sd then (LIBRESD_ERR_NOT_MOUNTED, sd, buffer)
      else
        let addr = (if block_addr sd then sec else sec * 512);
            r1 = libresd_sd_cmd (hal sd) SD_CMD17 addr
        in if r1 \<noteq> 0 then
             (LIBRESD_ERR_CMD, sd\<lparr>error_count := error_count sd + 1\<rparr>, buffer)
           else
             let token = read_token (hal sd) addr
             in if token \<noteq> SD_TOKEN_SINGLE then
                  (if token = 0xFF then LIBRESD_ERR_TIMEOUT else LIBRESD_ERR_SPI,
                   sd\<lparr>error_count := error_count sd + 1\<rparr>, buffer)
                else
                  (LIBRESD_OK, sd\<lparr>read_count := read_count sd + 1\<rparr>,
                   blocks (hal sd) addr))"

text \<open>
  \<open>libresd_sd_write_sector\<close>: the block is stored once the card accepts the data
  (data response \<open>0x05\<close>), also when the busy wait then times out.
\<close>

definition libresd_sd_write_sector ::
  "libresd_sd_t \<Rightarrow> u32 \<Rightarrow> sector \<Rightarrow> libresd_err_t \<times> libresd_sd_t" where
  "libresd_sd_write_sector sd sec buffer =
     (if \<not> initialized sd then (LIBRESD_ERR_NOT_MOUNTED, sd)
      else if write_protect (hal sd) then (LIBRESD_ERR_WRITE_PROTECT, sd)
      else
        let addr = (if block_addr sd then sec else sec * 512);
            r1 = libresd_sd_cmd (hal sd) SD_CMD24 addr
        in if r1 \<noteq> 0 then
             (LIBRESD_ERR_CMD, sd\<lparr>error_count := error_count sd + 1\<rparr>)
           else
             let response = data_response (hal sd) addr
             in if response AND 0x1F \<noteq> 0x05 then
                  (LIBRESD_ERR_SPI, sd\<lparr>error_count := error_count sd + 1\<rparr>)
                else
                  let stored = (hal sd)\<lparr>blocks := (blocks (hal sd))(addr := buffer)\<rparr>
                  in if \<not> write_ready (hal sd) addr then
                       (LIBRESD_ERR_TIMEOUT,
                        sd\<lparr>error_count := error_count sd + 1, hal := stored\<rparr>)
                     else
                       (LIBRESD_OK,
                        sd\<lparr>write_count := write_count sd + 1, hal := stored\<rparr>))"

section \<open>FAT volume state (libresd\_fat.h)\<close>

text \<open>
  \<open>libresd_fat_t\<close>.  The volume holds a pointer to the one card structure of its caller;
  the structure is carried by value since nothing else touches it during a call.
\<close>

record libresd_fat_t =
  sd :: libresd_sd_t
  mounted :: bool
  fs_type :: libresd_fs_type_t
  bytes_per_sector :: u16
  sectors_per_cluster :: u8
  reserved_sectors :: u16
  num_fats :: u8
  root_entry_count :: u16
  total_sectors :: u32
  sectors_per_fat :: u32
  root_cluster :: u32
  fat_start_sector :: u32
  root_start_sector :: u32
  data_start_sector :: u32
  cluster_count :: u32
  cluster_size :: u32
  volume_label :: "u8 list"
  volume_serial :: u32
  cwd_cluster :: u32
  cwd_path :: string
  free_clusters :: u32
  last_alloc_cluster :: u32
  fat_buffer :: sector
  fat_buffer_sector :: u32
  fat_buffer_dirty :: bool

definition FAT12_EOC :: u32 where "FAT12_EOC = 0x0FF8"
definition FAT16_EOC :: u32 where "FAT16_EOC = 0xFFF8"
definition FAT32_EOC :: u32 where "FAT32_EOC = 0x0FFFFFF8"
definition FAT_FREE :: u32 where "FAT_FREE = 0"

section \<open>Cluster operations (libresd\_fat.c)\<close>

definition libresd_fat_cluster_to_sector :: "libresd_fat_t \<Rightarrow> u32 \<Rightarrow> u32" where
  "libresd_fat_cluster_to_sector fat cluster =
     (if cluster < 2 then 0
      else data_start_sector fat + (cluster - 2) * ucast (sectors_per_cluster fat))"

definition libresd_fat_is_eoc :: "libresd_fat_t \<Rightarrow> u32 \<Rightarrow> bool" where
  "libresd_fat_is_eoc fat cluster =
     (case fs_type fat of
        LIBRESD_FS_FAT12 \<Rightarrow> cluster \<ge> FAT12_EOC
      | LIBRESD_FS_FAT16 \<Rightarrow> cluster \<ge> FAT16_EOC
      | LIBRESD_FS_FAT32 \<Rightarrow> cluster \<ge> FAT32_EOC
      | _ \<Rightarrow> True)"

text \<open>
  The block every case of \<open>libresd_fat_read_entry\<close> starts with: on a buffer miss the
  sector is read over the buffer (without writing a dirty buffer back); a failed read makes
  the function return 0.  The flag says whether the buffer now holds the sector.
\<close>

definition read_entry_load :: "libresd_fat_t \<Rightarrow> u32 \<Rightarrow> bool \<times> libresd_fat_t" where
  "read_entry_load fat fat_sector =
     (if fat_buffer_sector fat \<noteq> fat_sector then
        (case libresd_sd_read_sector (sd fat) fat_sector (fat_buffer fat) of
           (err, sd1, buf) \<Rightarrow>
             if err \<noteq> LIBRESD_OK then (False, fat\<lparr>sd := sd1\<rparr>)
             else (True, fat\<lparr>sd := sd1, fat_buffer := buf, fat_buffer_sector := fat_sector\<rparr>))
      else (True, fat))"

definition libresd_fat_read_entry :: "libresd_fat_t \<Rightarrow> u32 \<Rightarrow> u32 \<times> libresd_fat_t" where
  "libresd_fat_read_entry fat cluster =
     (case fs_type fat of
        LIBRESD_FS_FAT12 \<Rightarrow>
          (let fat_offset = cluster + (cluster div 2);
               fat_sector = fat_start_sector fat + (fat_offset div 512);
               offset = unat (fat_offset mod 512)
           in case read_entry_load fat fat_sector of
                (ok, fat1) \<Rightarrow>
                  if \<not> ok then (0, fat1)
                  else
                    let value0 = (ucast (fat_buffer fat1 offset) :: u32)
                    in if offset = 511 then
                         (case libresd_sd_read_sector (sd fat1) (fat_sector + 1) (\<lambda>_. 0) of
                            (err, sd2, tmp) \<Rightarrow>
                              if err \<noteq> LIBRESD_OK then (0, fat1\<lparr>sd := sd2\<rparr>)
                              else
                                let value = value0 OR push_bit 8 (ucast (tmp 0))
                                in (if cluster AND 1 \<noteq> 0 then drop_bit 4 value
                                    else value AND 0x0FFF,
                                    fat1\<lparr>sd := sd2\<rparr>))
                       else
                         let value = value0 OR push_bit 8 (ucast (fat_buffer fat1 (offset + 1)))
                         in (if cluster AND 1 \<noteq> 0 then drop_bit 4 value
                             else value AND 0x0FFF,
                             fat1))
      | LIBRESD_FS_FAT16 \<Rightarrow>
          (let fat_offset = cluster * 2;
               fat_sector = fat_start_sector fat + (fat_offset div 512);
               offset = unat (fat_offset mod 512)
           in case read_entry_load fat fat_sector of
                (ok, fat1) \<Rightarrow>
                  if \<not> ok then (0, fat1)
                  else (ucast (READ16 (fat_buffer fat1) offset), fat1))
      | LIBRESD_FS_FAT32 \<Rightarrow>
          (let fat_offset = cluster * 4;
               fat_sector = fat_start_sector fat + (fat_offset div 512);
               offset = unat (fat_offset mod 512)
           in case read_entry_load fat fat_sector of
                (ok, fat1) \<Rightarrow>
                  if \<not> ok then (0, fat1)
                  else (READ32 (fat_buffer fat1) offset AND 0x0FFFFFFF, fat1))
      | _ \<Rightarrow> (0, fat))"

definition libresd_fat_next_cluster :: "libresd_fat_t \<Rightarrow> u32 \<Rightarrow> u32 \<times> libresd_fat_t" where
  "libresd_fat_next_cluster fat cluster =
     (case libresd_fat_read_entry fat cluster of
        (next, fat1) \<Rightarrow> if libresd_fat_is_eoc fat1 next then (0, fat1) else (next, fat1))"

text \<open>
  The block every case of \<open>libresd_fat_write_entry\<close> starts with: on a buffer miss a dirty
  buffer is written back to its own sector (primary FAT only), then the wanted sector is
  read.  \<open>Some err\<close> is the early return.
\<close>

definition write_entry_load ::
  "libresd_fat_t \<Rightarrow> u32 \<Rightarrow> libresd_err_t option \<times> libresd_fat_t" where
  "write_entry_load fat fat_sector =
     (if fat_buffer_sector fat \<noteq> fat_sector then
        (case (if fat_buffer_dirty fat
               then libresd_sd_write_sector (sd fat) (fat_buffer_sector fat) (fat_buffer fat)
               else (LIBRESD_OK, sd fat)) of
           (err, sd1) \<Rightarrow>
             if err \<noteq> LIBRESD_OK then (Some err, fat\<lparr>sd := sd1\<rparr>)
             else
               (case libresd_sd_read_sector sd1 fat_sector (fat_buffer fat) of
                  (err2, sd2, buf) \<Rightarrow>
                    if err2 \<noteq> LIBRESD_OK then (Some LIBRESD_ERR_SPI, fat\<lparr>sd := sd2\<rparr>)
                    else (None, fat\<lparr>sd := sd2, fat_buffer := buf,
                                     fat_buffer_sector := fat_sector\<rparr>)))
      else (None, fat))"

definition libresd_fat_write_entry ::
  "libresd_fat_t \<Rightarrow> u32 \<Rightarrow> u32 \<Rightarrow> libresd_err_t \<times> libresd_fat_t" where
  "libresd_fat_write_entry fat cluster val =
     (case fs_type fat of
        LIBRESD_FS_FAT12 \<Rightarrow>
          (let fat_offset = cluster + (cluster div 2);
               fat_sector = fat_start_sector fat + (fat_offset div 512);
               offset = unat (fat_offset mod 512)
           in case write_entry_load fat fat_sector of
                (Some err, fat1) \<Rightarrow> (err, fat1)
              | (None, fat1) \<Rightarrow>
                  let b = fat_buffer fat1;
                      b' =
                        (if cluster AND 1 \<noteq> 0 then
                           (let b1 = b(offset := ucast ((ucast (b offset) AND 0x0F)
                                                  OR (push_bit 4 val AND 0xF0)))
                            in if offset < 511
                               then b1(offset + 1 := ucast (drop_bit 4 val AND 0xFF))
                               else b1)
                         else
                           (let b1 = b(offset := ucast (val AND 0xFF))
                            in if offset < 511
                               then b1(offset + 1 := ucast ((ucast (b1 (offset + 1)) AND 0xF0)
                                                  OR (drop_bit 8 val AND 0x0F)))
                               else b1))
                  in (LIBRESD_OK, fat1\<lparr>fat_buffer := b', fat_buffer_dirty := True\<rparr>))
      | LIBRESD_FS_FAT16 \<Rightarrow>
          (let fat_offset = cluster * 2;
               fat_sector = fat_start_sector fat + (fat_offset div 512);
               offset = unat (fat_offset mod 512)
           in case write_entry_load fat fat_sector of
                (Some err, fat1) \<Rightarrow> (err, fat1)
              | (None, fat1) \<Rightarrow>
                  (LIBRESD_OK, fat1\<lparr>fat_buffer := WRITE16 (fat_buffer fat1) offset val,
                                     fat_buffer_dirty := True\<rparr>))
      | LIBRESD_FS_FAT32 \<Rightarrow>
          (let fat_offset = cluster * 4;
               fat_sector = fat_start_sector fat + (fat_offset div 512);
               offset = unat (fat_offset mod 512)
           in case write_entry_load fat fat_sector of
                (Some err, fat1) \<Rightarrow> (err, fat1)
              | (None, fat1) \<Rightarrow>
                  let val' = (READ32 (fat_buffer fat1) offset AND 0xF0000000)
                               OR (val AND 0x0FFFFFFF)
                  in (LIBRESD_OK, fat1\<lparr>fat_buffer := WRITE32 (fat_buffer fat1) offset val',
                                        fat_buffer_dirty := True\<rparr>))
      | _ \<Rightarrow> (LIBRESD_ERR_NOT_SUPPORTED, fat))"

text \<open>
  \<open>libresd_fat_alloc_cluster\<close>.  The do-while scan has no bound of its own: it stops at
  a free entry or when the cursor comes back to \<open>start\<close>, so it is a partial function and
  \<open>None\<close> means that it does not return.  \<open>Some (None, _)\<close> is the \<open>return 0\<close> inside
  the loop (disk full).
\<close>

partial_function (option) alloc_scan ::
  "libresd_fat_t \<Rightarrow> u32 \<Rightarrow> u32 \<Rightarrow> (u32 option \<times> libresd_fat_t) option" where
  "alloc_scan fat start cluster =
     (let cluster1 = cluster + 1;
          cluster2 = (if cluster1 \<ge> cluster_count fat + 2 then 2 else cluster1)
      in if cluster2 = start then Some (None, fat)
         else
           (case libresd_fat_read_entry fat cluster2 of
              (v, fat1) \<Rightarrow>
                if v \<noteq> FAT_FREE then alloc_scan fat1 start cluster2
                else Some (Some cluster2, fat1)))"

definition alloc_eoc :: "libresd_fs_type_t \<Rightarrow> u32 option" where
  "alloc_eoc t =
     (case t of
        LIBRESD_FS_FAT12 \<Rightarrow> Some 0x0FFF
      | LIBRESD_FS_FAT16 \<Rightarrow> Some 0xFFFF
      | LIBRESD_FS_FAT32 \<Rightarrow> Some 0x0FFFFFFF
      | _ \<Rightarrow> None)"

definition libresd_fat_alloc_cluster ::
  "libresd_fat_t \<Rightarrow> u32 \<Rightarrow> (u32 \<times> libresd_fat_t) option" where
  "libresd_fat_alloc_cluster fat prev_cluster =
     (case alloc_eoc (fs_type fat) of
        None \<Rightarrow> Some (0, fat)
      | Some eoc \<Rightarrow>
          (case alloc_scan fat (last_alloc_cluster fat) (last_alloc_cluster fat) of
             None \<Rightarrow> None
           | Some (None, fat1) \<Rightarrow> Some (0, fat1)
           | Some (Some cluster, fat1) \<Rightarrow>
               (case libresd_fat_write_entry fat1 cluster eoc of
                  (err, fat2) \<Rightarrow>
                    if err \<noteq> LIBRESD_OK then Some (0, fat2)
                    else
                      (case (if prev_cluster \<ge> 2
                             then libresd_fat_write_entry fat2 prev_cluster cluster
                             else (LIBRESD_OK, fat2)) of
                         (err2, fat3) \<Rightarrow>
                           if err2 \<noteq> LIBRESD_OK then Some (0, fat3)
                           else
                             Some (cluster,
                                   fat3\<lparr>last_alloc_cluster := cluster,
                                        free_clusters :=
                                          (if free_clusters fat3 \<noteq> 0xFFFFFFFF
                                           then free_clusters fat3 - 1
                                           else free_clusters fat3)\<rparr>)))))"


section \<open>Mount, unmount, sync (libresd\_fat.c)\<close>

text \<open>The structure after \<open>memset(fat, 0, sizeof ...)\<close> and the three assignments.\<close>

definition mount_init :: "libresd_sd_t \<Rightarrow> libresd_fat_t" where
  "mount_init s =
     \<lparr>sd = s, mounted = False, fs_type = LIBRESD_FS_NONE, bytes_per_sector = 0,
      sectors_per_cluster = 0, reserved_sectors = 0, num_fats = 0, root_entry_count = 0,
      total_sectors = 0, sectors_per_fat = 0, root_cluster = 0, fat_start_sector = 0,
      root_start_sector = 0, data_start_sector = 0, cluster_count = 0, cluster_size = 0,
      volume_label = replicate 12 0, volume_serial = 0, cwd_cluster = 0, cwd_path = [],
      free_clusters = 0xFFFFFFFF, last_alloc_cluster = 0, fat_buffer = (\<lambda>_. 0),
      fat_buffer_sector = 0xFFFFFFFF, fat_buffer_dirty = False\<rparr>"

text \<open>The loop that replaces trailing spaces of the label by NUL, from index \<open>i\<close> down.\<close>

fun trim_label :: "u8 list \<Rightarrow> nat \<Rightarrow> u8 list" where
  "trim_label l 0 = (if l ! 0 = 0x20 then l[0 := 0] else l)"
| "trim_label l (Suc i) = (if l ! Suc i = 0x20 then trim_label (l[Suc i := 0]) i else l)"

text \<open>
  The MBR probe: with the \<open>55 AA\<close> signature and a FAT type byte in the first partition
  entry, the boot sector is re-read from the partition start.  \<open>Inl\<close> is the early return.
\<close>

definition mount_boot_sector ::
  "libresd_sd_t \<Rightarrow> sector \<Rightarrow> libresd_sd_t + (libresd_sd_t \<times> u32 \<times> sector)" where
  "mount_boot_sector sd1 buffer =
     (if buffer 510 = 0x55 \<and> buffer 511 = 0xAA \<and>
         (buffer (446 + 4) = 0x01 \<or> buffer (446 + 4) = 0x04 \<or>
          buffer (446 + 4) = 0x06 \<or> buffer (446 + 4) = 0x0B \<or>
          buffer (446 + 4) = 0x0C \<or> buffer (446 + 4) = 0x0E)
      then
        (let partition_start = READ32 buffer (446 + 8)
         in case libresd_sd_read_sector sd1 partition_start buffer of
              (err, sd2, buffer2) \<Rightarrow>
                if err \<noteq> LIBRESD_OK then Inl sd2 else Inr (sd2, partition_start, buffer2))
      else Inr (sd1, 0, buffer))"

text \<open>
  \<open>libresd_fat_mount\<close>, in the blocks its comments name: "Parse BPB", then (after
  "Validate BPB") "Calculate layout", "Determine FAT type", the volume label and serial and
  the current directory.
\<close>

definition mount_parse_bpb :: "libresd_sd_t \<Rightarrow> sector \<Rightarrow> libresd_fat_t" where
  "mount_parse_bpb sd2 buffer =
     (let ts16 = (ucast (READ16 buffer 19) :: u32);
          spf16 = (ucast (READ16 buffer 22) :: u32)
      in (mount_init sd2)
           \<lparr>bytes_per_sector := READ16 buffer 11,
            sectors_per_cluster := buffer 13,
            reserved_sectors := READ16 buffer 14,
            num_fats := buffer 16,
            root_entry_count := READ16 buffer 17,
            total_sectors := (if ts16 = 0 then READ32 buffer 32 else ts16),
            sectors_per_fat := (if spf16 = 0 then READ32 buffer 36 else spf16)\<rparr>)"

definition mount_layout :: "u32 \<Rightarrow> sector \<Rightarrow> libresd_fat_t \<Rightarrow> libresd_fat_t" where
  "mount_layout partition_start buffer fat1 =
     (let fat_start = partition_start + ucast (reserved_sectors fat1);
          root_sectors = ((ucast (root_entry_count fat1) * 32) + 511) div (512 :: u32);
          root_start = fat_start + (ucast (num_fats fat1) * sectors_per_fat fat1);
          data_start = root_start + root_sectors;
          data_sectors = total_sectors fat1 - data_start + partition_start;
          count = data_sectors div ucast (sectors_per_cluster fat1);
          fat2 = fat1
            \<lparr>fat_start_sector := fat_start,
             root_start_sector := root_start,
             data_start_sector := data_start,
             cluster_count := count,
             cluster_size := ucast (sectors_per_cluster fat1) * 512\<rparr>;
          fat3 =
            (if count < 4085 then fat2\<lparr>fs_type := LIBRESD_FS_FAT12\<rparr>
             else if count < 65525 then fat2\<lparr>fs_type := LIBRESD_FS_FAT16\<rparr>
             else fat2\<lparr>fs_type := LIBRESD_FS_FAT32,
                       root_cluster := READ32 buffer 44,
                       data_start_sector := root_start\<rparr>);
          is32 = (fs_type fat3 = LIBRESD_FS_FAT32);
          label_offset = (if is32 then 71 else 43 :: nat);
          label = map (\<lambda>i. buffer (label_offset + i)) [0..<11] @ [0]
      in fat3\<lparr>volume_label := trim_label label 10,
              volume_serial := READ32 buffer (if is32 then 67 else 39),
              cwd_cluster := (if is32 then root_cluster fat3 else 0),
              cwd_path := ''/'',
              mounted := True\<rparr>)"

definition libresd_fat_mount ::
  "libresd_fat_t \<Rightarrow> libresd_sd_t \<Rightarrow> libresd_err_t \<times> libresd_fat_t" where
  "libresd_fat_mount fat0 sd0 =
     (if \<not> initialized sd0 then (LIBRESD_ERR_NOT_MOUNTED, fat0)
      else
        case libresd_sd_read_sector sd0 0 (\<lambda>_. 0) of
          (err, sd1, buffer0) \<Rightarrow>
            if err \<noteq> LIBRESD_OK then (LIBRESD_ERR_SPI, mount_init sd1)
            else
              (case mount_boot_sector sd1 buffer0 of
                 Inl sd2 \<Rightarrow> (LIBRESD_ERR_SPI, mount_init sd2)
               | Inr (sd2, partition_start, buffer) \<Rightarrow>
                   if buffer 510 \<noteq> 0x55 \<or> buffer 511 \<noteq> 0xAA
                   then (LIBRESD_ERR_NO_FS, mount_init sd2)
                   else
                     let fat1 = mount_parse_bpb sd2 buffer
                     in if bytes_per_sector fat1 \<noteq> 512 \<or> sectors_per_cluster fat1 = 0 \<or>
                           num_fats fat1 = 0 \<or> reserved_sectors fat1 = 0
                        then (LIBRESD_ERR_INVALID_FS, fat1)
                        else (LIBRESD_OK, mount_layout partition_start buffer fat1)))"

text \<open>\<open>libresd_fat_unmount\<close> ignores the results of its writes.\<close>

definition libresd_fat_unmount :: "libresd_fat_t \<Rightarrow> libresd_err_t \<times> libresd_fat_t" where
  "libresd_fat_unmount fat =
     (let fat1 =
        (if fat_buffer_dirty fat \<and> fat_buffer_sector fat \<noteq> 0xFFFFFFFF then
           (case libresd_sd_write_sector (sd fat) (fat_buffer_sector fat) (fat_buffer fat) of
              (e1, sd1) \<Rightarrow>
                if num_fats fat > 1 then
                  (case libresd_sd_write_sector sd1
                          (fat_buffer_sector fat + sectors_per_fat fat) (fat_buffer fat) of
                     (e2, sd2) \<Rightarrow> fat\<lparr>sd := sd2\<rparr>)
                else fat\<lparr>sd := sd1\<rparr>)
         else fat)
      in (LIBRESD_OK, fat1\<lparr>mounted := False\<rparr>))"

definition libresd_fat_sync :: "libresd_fat_t \<Rightarrow> libresd_err_t \<times> libresd_fat_t" where
  "libresd_fat_sync fat =
     (if \<not> mounted fat then (LIBRESD_ERR_NOT_MOUNTED, fat)
      else if fat_buffer_dirty fat \<and> fat_buffer_sector fat \<noteq> 0xFFFFFFFF then
        (case libresd_sd_write_sector (sd fat) (fat_buffer_sector fat) (fat_buffer fat) of
           (err, sd1) \<Rightarrow>
             if err \<noteq> LIBRESD_OK then (err, fat\<lparr>sd := sd1\<rparr>)
             else if num_fats fat > 1 then
               (case libresd_sd_write_sector sd1
                       (fat_buffer_sector fat + sectors_per_fat fat) (fat_buffer fat) of
                  (err2, sd2) \<Rightarrow>
                    if err2 \<noteq> LIBRESD_OK then (err2, fat\<lparr>sd := sd2\<rparr>)
                    else (LIBRESD_OK, fat\<lparr>sd := sd2, fat_buffer_dirty := False\<rparr>))
             else (LIBRESD_OK, fat\<lparr>sd := sd1, fat_buffer_dirty := False\<rparr>))
      else (LIBRESD_OK, fat))"

section \<open>File handles (libresd\_types.h) and file operations (libresd\_file.c)\<close>

record libresd_file_t =
  is_open :: bool
  mode :: u8
  first_cluster :: u32
  current_cluster :: u32
  file_size :: u32
  position :: u32
  cluster_offset :: u32
  dir_sector :: u32
  dir_offset :: u16
  buffer :: sector
  buffer_sector :: u32
  buffer_dirty :: bool

definition LIBRESD_READ :: u8 where "LIBRESD_READ = 0x01"
definition LIBRESD_WRITE :: u8 where "LIBRESD_WRITE = 0x02"
definition LIBRESD_APPEND :: u8 where "LIBRESD_APPEND = 0x04"
definition LIBRESD_CREATE :: u8 where "LIBRESD_CREATE = 0x08"
definition LIBRESD_TRUNCATE :: u8 where "LIBRESD_TRUNCATE = 0x10"
definition LIBRESD_EXCL :: u8 where "LIBRESD_EXCL = 0x20"

text \<open>
  \<open>to_read = 512 - offset_in_sector; if (to_read > size) to_read = size;\<close> (the same
  two lines compute \<open>to_write\<close>).
\<close>

definition sector_chunk :: "u32 \<Rightarrow> u32 \<Rightarrow> u32" where
  "sector_chunk offset_in_sector sz =
     (let n = 512 - offset_in_sector in if n > sz then sz else n)"

lemma sector_chunk_bounds:
  "0 < sz \<Longrightarrow> 0 < unat (sector_chunk (off mod 512) sz)
     \<and> unat (sector_chunk (off mod 512) sz) \<le> unat sz"
proof -
  assume s: "0 < sz"
  have u: "unat (off mod 512) < 512"
    by (simp add: unat_mod) 
  then have "unat (512 - off mod 512) = 512 - unat (off mod 512)"
    by (simp add: unat_sub word_le_nat_alt)
  then have p: "0 < unat (512 - off mod 512)"
    using u by simp
  show ?thesis
    using p s by (auto simp add: sector_chunk_def Let_def word_less_nat_alt)
qed

lemma sector_chunk_less:
  "0 < sz \<Longrightarrow> unat (sz - sector_chunk (off mod 512) sz) < unat sz"
  using sector_chunk_bounds [of sz off] by (simp add: unat_sub word_le_nat_alt)

text \<open>
  The buffer block of \<open>libresd_fat_read\<close>: on a miss a dirty buffer is written back
  first, then the sector is read.  \<open>Some err\<close> is the early \<open>return err\<close>.
\<close>

definition read_load_sector ::
  "libresd_fat_t \<Rightarrow> libresd_file_t \<Rightarrow> u32
     \<Rightarrow> libresd_err_t option \<times> libresd_fat_t \<times> libresd_file_t" where
  "read_load_sector fat file sec =
     (if buffer_sector file \<noteq> sec then
        (case (if buffer_dirty file
               then libresd_sd_write_sector (sd fat) (buffer_sector file) (buffer file)
               else (LIBRESD_OK, sd fat)) of
           (err, sd1) \<Rightarrow>
             if err \<noteq> LIBRESD_OK then (Some err, fat\<lparr>sd := sd1\<rparr>, file)
             else
               (case libresd_sd_read_sector sd1 sec (buffer file) of
                  (err2, sd2, buf) \<Rightarrow>
                    if err2 \<noteq> LIBRESD_OK
                    then (Some err2, fat\<lparr>sd := sd2\<rparr>, file\<lparr>buffer_dirty := False\<rparr>)
                    else (None, fat\<lparr>sd := sd2\<rparr>,
                          file\<lparr>buffer_dirty := False, buffer := buf, buffer_sector := sec\<rparr>)))
      else (None, fat, file))"

text \<open>
  One pass of the copy in \<open>libresd_fat_read\<close>: \<open>memcpy\<close> out of the buffer, then the
  four counters.  The bytes copied to the caller's buffer are collected in \<open>dst\<close>.
\<close>

definition read_copy ::
  "libresd_file_t \<Rightarrow> u32 \<Rightarrow> u32 \<Rightarrow> libresd_file_t \<times> u8 list" where
  "read_copy file offset_in_sector to_read =
     (file\<lparr>position := position file + to_read,
           cluster_offset := cluster_offset file + to_read\<rparr>,
      map (\<lambda>i. buffer file (unat offset_in_sector + i)) [0..<unat to_read])"

text \<open>
  The loop of \<open>libresd_fat_read\<close>; \<open>Some err\<close> in the result is a \<open>return err\<close> from
  inside the loop, \<open>None\<close> the normal exit (loop condition or \<open>break\<close>).
\<close>

function read_loop ::
  "libresd_fat_t \<Rightarrow> libresd_file_t \<Rightarrow> u32 \<Rightarrow> u32 \<Rightarrow> u8 list
     \<Rightarrow> libresd_err_t option \<times> libresd_fat_t \<times> libresd_file_t \<times> u32 \<times> u8 list" where
  "read_loop fat file sz total_read dst =
     (if 0 < sz then
        (if current_cluster file < 2 then (None, fat, file, total_read, dst)
         else
           (case read_load_sector fat file
                   (libresd_fat_cluster_to_sector fat (current_cluster file)
                      + cluster_offset file div 512) of
              (Some err, fat1, file1) \<Rightarrow> (Some err, fat1, file1, total_read, dst)
            | (None, fat1, file1) \<Rightarrow>
                (case read_copy file1 (cluster_offset file mod 512)
                        (sector_chunk (cluster_offset file mod 512) sz) of
                   (file2, chunk) \<Rightarrow>
                     if cluster_offset file2 \<ge> cluster_size fat1 then
                       (case libresd_fat_next_cluster fat1 (current_cluster file2) of
                          (next, fat2) \<Rightarrow>
                            if next = 0 then
                              (None, fat2, file2,
                               total_read + sector_chunk (cluster_offset file mod 512) sz,
                               dst @ chunk)
                            else
                              read_loop fat2
                                (file2\<lparr>current_cluster := next, cluster_offset := 0\<rparr>)
                                (sz - sector_chunk (cluster_offset file mod 512) sz)
                                (total_read + sector_chunk (cluster_offset file mod 512) sz)
                                (dst @ chunk))
                     else
                       read_loop fat1 file2
                         (sz - sector_chunk (cluster_offset file mod 512) sz)
                         (total_read + sector_chunk (cluster_offset file mod 512) sz)
                         (dst @ chunk))))
      else (None, fat, file, total_read, dst))"
  by pat_completeness auto
termination
  by (relation "measure (\<lambda>(fat, file, sz, total_read, dst). unat sz)")
    (auto simp add: sector_chunk_less)

text \<open>
  \<open>libresd_fat_read\<close>.  The result carries the status, \<open>*bytes_read\<close> (\<open>None\<close> where
  the function returns without storing it), the bytes delivered, and the new states.
\<close>

definition libresd_fat_read ::
  "libresd_fat_t \<Rightarrow> libresd_file_t \<Rightarrow> u32
     \<Rightarrow> libresd_err_t \<times> u32 option \<times> u8 list \<times> libresd_fat_t \<times> libresd_file_t" where
  "libresd_fat_read fat file sz =
     (if \<not> is_open file then (LIBRESD_ERR_INVALID_HANDLE, None, [], fat, file)
      else if mode file AND LIBRESD_READ = 0 then (LIBRESD_ERR_READ_ONLY, None, [], fat, file)
      else if position file \<ge> file_size file then (LIBRESD_ERR_EOF, Some 0, [], fat, file)
      else
        (case read_loop fat file
                (if position file + sz > file_size file
                 then file_size file - position file else sz) 0 [] of
           (Some err, fat1, file1, total_read, dst) \<Rightarrow> (err, None, dst, fat1, file1)
         | (None, fat1, file1, total_read, dst) \<Rightarrow>
             (if total_read > 0 then LIBRESD_OK else LIBRESD_ERR_EOF,
              Some total_read, dst, fat1, file1)))"

text \<open>
  The \<open>for\<close> loop that writes one buffer to the \<open>n\<close> sectors from \<open>sec\<close> on and ignores
  the results (zeroing a new cluster).
\<close>

definition write_sectors_unchecked ::
  "libresd_sd_t \<Rightarrow> u32 \<Rightarrow> sector \<Rightarrow> nat \<Rightarrow> libresd_sd_t" where
  "write_sectors_unchecked s sec buf n =
     foldl (\<lambda>s' i. snd (libresd_sd_write_sector s' (sec + of_nat i) buf)) s [0..<n]"

text \<open>
  The blocks of the loop of \<open>libresd_fat_write\<close>.  In the first two, \<open>None\<close> means that
  the allocator does not return, and the flag is \<open>True\<close> for
  \<open>err = LIBRESD_ERR_FULL; break;\<close>.
\<close>

definition write_first_cluster ::
  "libresd_fat_t \<Rightarrow> libresd_file_t \<Rightarrow> (bool \<times> libresd_fat_t \<times> libresd_file_t) option" where
  "write_first_cluster fat file =
     (if current_cluster file < 2 then
        (case libresd_fat_alloc_cluster fat 0 of
           None \<Rightarrow> None
         | Some (new_cluster, fat1) \<Rightarrow>
             if new_cluster = 0 then Some (True, fat1, file)
             else
               let file1 = file
                     \<lparr>first_cluster :=
                        (if first_cluster file < 2 then new_cluster else first_cluster file),
                      current_cluster := new_cluster,
                      cluster_offset := 0,
                      buffer := (\<lambda>_. 0)\<rparr>;
                   sd1 = write_sectors_unchecked (sd fat1)
                           (libresd_fat_cluster_to_sector fat1 new_cluster) (buffer file1)
                           (unat (sectors_per_cluster fat1))
               in Some (False, fat1\<lparr>sd := sd1\<rparr>, file1))
      else Some (False, fat, file))"

definition write_next_cluster ::
  "libresd_fat_t \<Rightarrow> libresd_file_t \<Rightarrow> (bool \<times> libresd_fat_t \<times> libresd_file_t) option" where
  "write_next_cluster fat file =
     (if cluster_offset file \<ge> cluster_size fat then
        (case libresd_fat_next_cluster fat (current_cluster file) of
           (next, fat1) \<Rightarrow>
             if next = 0 then
               (case libresd_fat_alloc_cluster fat1 (current_cluster file) of
                  None \<Rightarrow> None
                | Some (next2, fat2) \<Rightarrow>
                    if next2 = 0 then Some (True, fat2, file)
                    else Some (False, fat2,
                               file\<lparr>current_cluster := next2, cluster_offset := 0\<rparr>))
             else Some (False, fat1, file\<lparr>current_cluster := next, cluster_offset := 0\<rparr>))
      else Some (False, fat, file))"

definition write_load_sector ::
  "libresd_fat_t \<Rightarrow> libresd_file_t \<Rightarrow> u32 \<Rightarrow> u32 \<Rightarrow> u32
     \<Rightarrow> libresd_err_t option \<times> libresd_fat_t \<times> libresd_file_t" where
  "write_load_sector fat file sec offset_in_sector sz =
     (if buffer_sector file \<noteq> sec then
        (case (if buffer_dirty file
               then libresd_sd_write_sector (sd fat) (buffer_sector file) (buffer file)
               else (LIBRESD_OK, sd fat)) of
           (err, sd1) \<Rightarrow>
             if err \<noteq> LIBRESD_OK then (Some err, fat\<lparr>sd := sd1\<rparr>, file)
             else if offset_in_sector \<noteq> 0 \<or> sz < 512 then
               (case libresd_sd_read_sector sd1 sec (buffer file) of
                  (err2, sd2, buf) \<Rightarrow>
                    if err2 \<noteq> LIBRESD_OK
                    then (Some err2, fat\<lparr>sd := sd2\<rparr>, file\<lparr>buffer_dirty := False\<rparr>)
                    else (None, fat\<lparr>sd := sd2\<rparr>,
                          file\<lparr>buffer_dirty := False, buffer := buf, buffer_sector := sec\<rparr>))
             else (None, fat\<lparr>sd := sd1\<rparr>,
                   file\<lparr>buffer_dirty := False, buffer_sector := sec\<rparr>))
      else (None, fat, file))"

text \<open>
  \<open>memcpy\<close> of \<open>to_write\<close> bytes from the caller's memory \<open>src\<close> into the buffer, the
  counters, and the file-size update that closes the loop body.
\<close>

definition write_copy ::
  "libresd_file_t \<Rightarrow> (nat \<Rightarrow> u8) \<Rightarrow> u32 \<Rightarrow> u32 \<Rightarrow> libresd_file_t" where
  "write_copy file src offset_in_sector to_write =
     (let file1 = file
            \<lparr>buffer := (\<lambda>i. if unat offset_in_sector \<le> i
                               \<and> i < unat offset_in_sector + unat to_write
                            then src (i - unat offset_in_sector) else buffer file i),
             buffer_dirty := True,
             position := position file + to_write,
             cluster_offset := cluster_offset file + to_write\<rparr>
      in if position file1 > file_size file1
         then file1\<lparr>file_size := position file1\<rparr> else file1)"

function write_loop ::
  "libresd_fat_t \<Rightarrow> libresd_file_t \<Rightarrow> (nat \<Rightarrow> u8) \<Rightarrow> u32 \<Rightarrow> u32
     \<Rightarrow> (libresd_err_t option \<times> libresd_fat_t \<times> libresd_file_t \<times> u32) option" where
  "write_loop fat file src sz total_written =
     (if 0 < sz then
        (case write_first_cluster fat file of
           None \<Rightarrow> None
         | Some (True, fat1, file1) \<Rightarrow> Some (None, fat1, file1, total_written)
         | Some (False, fat1, file1) \<Rightarrow>
             (case write_next_cluster fat1 file1 of
                None \<Rightarrow> None
              | Some (True, fat2, file2) \<Rightarrow> Some (None, fat2, file2, total_written)
              | Some (False, fat2, file2) \<Rightarrow>
                  (case write_load_sector fat2 file2
                          (libresd_fat_cluster_to_sector fat2 (current_cluster file2)
                             + cluster_offset file2 div 512)
                          (cluster_offset file2 mod 512) sz of
                     (Some err, fat3, file3) \<Rightarrow> Some (Some err, fat3, file3, total_written)
                   | (None, fat3, file3) \<Rightarrow>
                       write_loop fat3
                         (write_copy file3 src (cluster_offset file2 mod 512)
                            (sector_chunk (cluster_offset file2 mod 512) sz))
                         (\<lambda>i. src (i + unat (sector_chunk (cluster_offset file2 mod 512) sz)))
                         (sz - sector_chunk (cluster_offset file2 mod 512) sz)
                         (total_written + sector_chunk (cluster_offset file2 mod 512) sz))))
      else Some (None, fat, file, total_written))"
  by pat_completeness auto
termination
  by (relation "measure (\<lambda>(fat, file, src, sz, total_written). unat sz)")
    (auto simp add: sector_chunk_less)

text \<open>
  \<open>libresd_fat_write\<close>: status, \<open>*bytes_written\<close> (\<open>None\<close> where it is not stored) and
  the new states; \<open>None\<close> as a whole when the allocator does not return.
\<close>

definition libresd_fat_write ::
  "libresd_fat_t \<Rightarrow> libresd_file_t \<Rightarrow> (nat \<Rightarrow> u8) \<Rightarrow> u32
     \<Rightarrow> (libresd_err_t \<times> u32 option \<times> libresd_fat_t \<times> libresd_file_t) option" where
  "libresd_fat_write fat file src sz =
     (if \<not> is_open file then Some (LIBRESD_ERR_INVALID_HANDLE, None, fat, file)
      else if mode file AND LIBRESD_WRITE = 0 \<and> mode file AND LIBRESD_APPEND = 0
      then Some (LIBRESD_ERR_READ_ONLY, None, fat, file)
      else
        (case write_loop fat file src sz 0 of
           None \<Rightarrow> None
         | Some (Some err, fat1, file1, total_written) \<Rightarrow> Some (err, None, fat1, file1)
         | Some (None, fat1, file1, total_written) \<Rightarrow>
             Some (LIBRESD_OK, Some total_written, fat1, file1)))"

text \<open>
  The cluster walk of \<open>libresd_fat_seek\<close>.  Nothing bounds it on a cyclic chain of a
  volume with cluster size 0, so it is a partial function.
\<close>

partial_function (option) seek_walk ::
  "libresd_fat_t \<Rightarrow> libresd_file_t \<Rightarrow> u32 \<Rightarrow> (libresd_fat_t \<times> libresd_file_t) option" where
  "seek_walk fat file new_pos =
     (if position file < new_pos \<and> current_cluster file \<ge> 2 then
        (let remaining_in_cluster = cluster_size fat - cluster_offset file;
             to_advance = new_pos - position file
         in if to_advance \<ge> remaining_in_cluster then
              (case libresd_fat_next_cluster fat (current_cluster file) of
                 (next, fat1) \<Rightarrow>
                   if next = 0 then
                     Some (fat1, file\<lparr>position := position file + remaining_in_cluster,
                                      cluster_offset := 0\<rparr>)
                   else
                     seek_walk fat1
                       (file\<lparr>current_cluster := next,
                             position := position file + remaining_in_cluster,
                             cluster_offset := 0\<rparr>)
                       new_pos)
            else
              seek_walk fat
                (file\<lparr>position := new_pos,
                      cluster_offset := cluster_offset file + to_advance\<rparr>)
                new_pos)
      else Some (fat, file))"

text \<open>\<open>libresd_fat_seek\<close>; the offset is an \<open>int32_t\<close>, read through \<open>sint\<close>.\<close>

definition seek_target :: "libresd_file_t \<Rightarrow> u32 \<Rightarrow> libresd_seek_t \<Rightarrow> libresd_err_t + u32" where
  "seek_target file offset whence =
     (case whence of
        LIBRESD_SEEK_SET \<Rightarrow>
          if sint offset < 0 then Inl LIBRESD_ERR_SEEK else Inr offset
      | LIBRESD_SEEK_CUR \<Rightarrow>
          if sint offset < 0 \<and> - offset > position file then Inl LIBRESD_ERR_SEEK
          else Inr (position file + offset)
      | LIBRESD_SEEK_END \<Rightarrow>
          if sint offset < 0 \<and> - offset > file_size file then Inl LIBRESD_ERR_SEEK
          else Inr (file_size file + offset))"

definition libresd_fat_seek ::
  "libresd_fat_t \<Rightarrow> libresd_file_t \<Rightarrow> u32 \<Rightarrow> libresd_seek_t
     \<Rightarrow> (libresd_err_t \<times> libresd_fat_t \<times> libresd_file_t) option" where
  "libresd_fat_seek fat file offset whence =
     (if \<not> is_open file then Some (LIBRESD_ERR_INVALID_HANDLE, fat, file)
      else
        (case seek_target file offset whence of
           Inl err \<Rightarrow> Some (err, fat, file)
         | Inr new_pos0 \<Rightarrow>
             let new_pos =
                   (if mode file AND LIBRESD_WRITE = 0 \<and> new_pos0 > file_size file
                    then file_size file else new_pos0);
                 file1 =
                   (if new_pos < position file \<or> new_pos = 0
                    then file\<lparr>current_cluster := first_cluster file,
                              cluster_offset := 0, position := 0\<rparr>
                    else file)
             in (case seek_walk fat file1 new_pos of
                   None \<Rightarrow> None
                 | Some (fat1, file2) \<Rightarrow> Some (LIBRESD_OK, fat1, file2))))"

definition libresd_fat_tell :: "libresd_file_t \<Rightarrow> u32" where
  "libresd_fat_tell file = position file"

section \<open>Directories and paths (libresd\_fat.c)\<close>

text \<open>
  C strings are lists of bytes without the terminating NUL.  The fields of
  \<open>libresd_fileinfo_t\<close> and \<open>libresd_dir_t\<close> that share a name with a field of
  \<open>libresd_file_t\<close> carry the prefix \<open>info_\<close> or \<open>dir_\<close>.
\<close>

type_synonym cstring = "u8 list"

definition cstr :: "string \<Rightarrow> cstring" where
  "cstr s = map of_char s"

record libresd_datetime_t =
  year :: u16
  month :: u8
  day :: u8
  hour :: u8
  minute :: u8
  second :: u8

record libresd_fileinfo_t =
  info_name :: cstring
  info_size :: u32
  info_attr :: u8
  created :: libresd_datetime_t
  modified :: libresd_datetime_t
  accessed :: libresd_datetime_t
  info_first_cluster :: u32
  info_dir_sector :: u32
  info_dir_offset :: u16

record libresd_dir_t =
  dir_is_open :: bool
  dir_first_cluster :: u32
  dir_current_cluster :: u32
  current_sector :: u32
  entry_offset :: u16
  dir_buffer :: sector

definition LIBRESD_ATTR_VOLUME_ID :: u8 where "LIBRESD_ATTR_VOLUME_ID = 0x08"
definition LIBRESD_ATTR_DIRECTORY :: u8 where "LIBRESD_ATTR_DIRECTORY = 0x10"
definition LIBRESD_ATTR_ARCHIVE :: u8 where "LIBRESD_ATTR_ARCHIVE = 0x20"
definition LIBRESD_ATTR_LFN :: u8 where "LIBRESD_ATTR_LFN = 0x0F"

definition DIRENT_FREE :: u8 where "DIRENT_FREE = 0xE5"
definition DIRENT_END :: u8 where "DIRENT_END = 0x00"
definition DIRENT_KANJI :: u8 where "DIRENT_KANJI = 0x05"
definition FAT_DIRENT_SIZE :: nat where "FAT_DIRENT_SIZE = 32"
definition LIBRESD_MAX_FILENAME :: nat where "LIBRESD_MAX_FILENAME = 128"

definition LIBRESD_FAT_DATE :: "u16 \<Rightarrow> u8 \<Rightarrow> u8 \<Rightarrow> u16" where
  "LIBRESD_FAT_DATE y m d =
     push_bit 9 ((y - 1980) AND 0x7F) OR push_bit 5 (ucast m AND 0x0F) OR (ucast d AND 0x1F)"

definition LIBRESD_FAT_TIME :: "u8 \<Rightarrow> u8 \<Rightarrow> u8 \<Rightarrow> u16" where
  "LIBRESD_FAT_TIME h m s =
     push_bit 11 (ucast h AND 0x1F) OR push_bit 5 (ucast m AND 0x3F)
       OR (ucast (s div 2) AND 0x1F)"

definition fat_datetime :: "u16 \<Rightarrow> u16 \<Rightarrow> libresd_datetime_t" where
  "fat_datetime d t =
     \<lparr>year = (drop_bit 9 d AND 0x7F) + 1980, month = ucast (drop_bit 5 d AND 0x0F),
      day = ucast (d AND 0x1F), hour = ucast (drop_bit 11 t AND 0x1F),
      minute = ucast (drop_bit 5 t AND 0x3F), second = ucast ((t AND 0x1F) * 2)\<rparr>"

definition zero_datetime :: libresd_datetime_t where
  "zero_datetime = \<lparr>year = 0, month = 0, day = 0, hour = 0, minute = 0, second = 0\<rparr>"

definition zero_fileinfo :: libresd_fileinfo_t where
  "zero_fileinfo =
     \<lparr>info_name = [], info_size = 0, info_attr = 0, created = zero_datetime,
      modified = zero_datetime, accessed = zero_datetime, info_first_cluster = 0,
      info_dir_sector = 0, info_dir_offset = 0\<rparr>"

text \<open>The C library on ASCII letters, and \<open>strcasecmp(a, b) == 0\<close>.\<close>

definition tolower_c :: "u8 \<Rightarrow> u8" where
  "tolower_c c = (if 0x41 \<le> c \<and> c \<le> 0x5A then c + 32 else c)"

definition toupper_c :: "u8 \<Rightarrow> u8" where
  "toupper_c c = (if 0x61 \<le> c \<and> c \<le> 0x7A then c - 32 else c)"

definition strcasecmp_eq :: "cstring \<Rightarrow> cstring \<Rightarrow> bool" where
  "strcasecmp_eq a b = (map tolower_c a = map tolower_c b)"

text \<open>
  \<open>fat_name_to_str\<close> on the 11 name bytes of an entry: the name part up to the first
  space, a dot and the extension if the extension is not blank, cut at the first NUL as
  any C string, in lower case.
\<close>

definition fat_name_to_str :: "u8 list \<Rightarrow> cstring" where
  "fat_name_to_str name =
     (let base = map (\<lambda>c. if c = DIRENT_KANJI then 0xE5 else c)
                   (takeWhile (\<lambda>c. c \<noteq> 0x20) (take 8 name));
          ext = (if name ! 8 \<noteq> 0x20
                 then 0x2E # takeWhile (\<lambda>c. c \<noteq> 0x20) (drop 8 name) else [])
      in map tolower_c (takeWhile (\<lambda>c. c \<noteq> 0) (base @ ext)))"

text \<open>
  \<open>str_to_fat_name\<close>: leading dots and spaces are skipped (nothing left: invalid), the
  part before the last dot gives up to 8 upper-case name bytes without spaces and dots,
  the part after it up to 3 extension bytes; a first byte \<open>0xE5\<close> is stored as \<open>0x05\<close>.
\<close>

definition last_index :: "u8 \<Rightarrow> cstring \<Rightarrow> nat option" where
  "last_index c s =
     (if c \<in> set s then Some (length s - 1 - length (takeWhile (\<lambda>x. x \<noteq> c) (rev s)))
      else None)"

definition str_to_fat_name :: "cstring \<Rightarrow> u8 list option" where
  "str_to_fat_name str0 =
     (let str = dropWhile (\<lambda>c. c = 0x20 \<or> c = 0x2E) str0
      in if str = [] then None
         else
           let dot = last_index 0x2E str;
               stem = (case dot of None \<Rightarrow> str | Some d \<Rightarrow> take d str);
               base = take 8 (map toupper_c (filter (\<lambda>c. c \<noteq> 0x20 \<and> c \<noteq> 0x2E) stem));
               ext = (case dot of None \<Rightarrow> [] | Some d \<Rightarrow> take 3 (map toupper_c (drop (d + 1) str)));
               name = base @ replicate (8 - length base) 0x20
                        @ ext @ replicate (3 - length ext) 0x20
           in Some (if name ! 0 = 0xE5 then name[0 := DIRENT_KANJI] else name))"

text \<open>
  One long-name entry at \<open>off\<close> in the sector: the three copy loops of \<open>libresd_fat_readdir\<close>
  visit the 13 character slots in order, and store a character (advancing \<open>idx\<close>) only if it
  is non-zero ASCII and \<open>idx\<close> is below 127.  The sequence number 0 would make \<open>idx\<close> negative
  and the C code write before \<open>lfn_buffer\<close>; here such a store leaves the buffer as it is.
\<close>

definition lfn_slots :: "nat list" where
  "lfn_slots = [1, 3, 5, 7, 9, 14, 16, 18, 20, 22, 24, 28, 30]"

definition lfn_store :: "sector \<Rightarrow> nat \<Rightarrow> int \<times> u8 list \<Rightarrow> nat \<Rightarrow> int \<times> u8 list" where
  "lfn_store buf off st slot =
     (case st of
        (idx, lfn_buffer) \<Rightarrow>
          if idx < 127 then
            (let c = READ16 buf (off + slot)
             in if c \<noteq> 0 \<and> c < 128
                then (idx + 1, if idx < 0 then lfn_buffer else lfn_buffer[nat idx := ucast c])
                else (idx, lfn_buffer))
          else (idx, lfn_buffer))"

definition lfn_collect :: "sector \<Rightarrow> nat \<Rightarrow> u8 list \<Rightarrow> u8 list" where
  "lfn_collect buf off lfn_buffer =
     (let seq = buf off AND 0x1F;
          idx = (int (unat seq) - 1) * 13;
          lfn_buffer1 = (if buf off AND 0x40 \<noteq> 0 then replicate 128 0 else lfn_buffer)
      in snd (foldl (lfn_store buf off) (idx, lfn_buffer1) lfn_slots))"

text \<open>The block of \<open>libresd_fat_readdir\<close> that fills \<open>info\<close> from a short entry.\<close>

definition readdir_info ::
  "libresd_dir_t \<Rightarrow> nat \<Rightarrow> u8 list \<Rightarrow> bool \<Rightarrow> libresd_fileinfo_t" where
  "readdir_info dir off lfn_buffer has_lfn =
     (let buf = dir_buffer dir
      in \<lparr>info_name =
             (if has_lfn \<and> lfn_buffer ! 0 \<noteq> 0
              then takeWhile (\<lambda>c. c \<noteq> 0) (take 127 lfn_buffer)
              else fat_name_to_str (map (\<lambda>i. buf (off + i)) [0..<11])),
           info_size = READ32 buf (off + 28),
           info_attr = buf (off + 11),
           created = fat_datetime (READ16 buf (off + 16)) (READ16 buf (off + 14)),
           modified = fat_datetime (READ16 buf (off + 24)) (READ16 buf (off + 22)),
           accessed = zero_datetime,
           info_first_cluster =
             push_bit 16 (ucast (READ16 buf (off + 20))) OR ucast (READ16 buf (off + 26)),
           info_dir_sector = current_sector dir,
           info_dir_offset = entry_offset dir - 32\<rparr>)"

text \<open>Reading the current sector of a directory handle into its buffer.\<close>

definition dir_load ::
  "libresd_fat_t \<Rightarrow> libresd_dir_t
     \<Rightarrow> (libresd_err_t \<times> libresd_fat_t \<times> libresd_dir_t) + (libresd_fat_t \<times> libresd_dir_t)" where
  "dir_load fat dir =
     (case libresd_sd_read_sector (sd fat) (current_sector dir) (dir_buffer dir) of
        (err, sd1, buf) \<Rightarrow>
          if err \<noteq> LIBRESD_OK then Inl (LIBRESD_ERR_SPI, fat\<lparr>sd := sd1\<rparr>, dir)
          else Inr (fat\<lparr>sd := sd1\<rparr>, dir\<lparr>dir_buffer := buf\<rparr>))"

text \<open>
  The head of the loop of \<open>libresd_fat_readdir\<close>: past the end of the sector the handle
  moves to the next sector of the fixed root, or of the cluster, or to the next cluster.
  \<open>Inl\<close> is a return from the function.
\<close>

definition readdir_next_sector ::
  "libresd_fat_t \<Rightarrow> libresd_dir_t
     \<Rightarrow> (libresd_err_t \<times> libresd_fat_t \<times> libresd_dir_t) + (libresd_fat_t \<times> libresd_dir_t)" where
  "readdir_next_sector fat dir =
     (if entry_offset dir \<ge> 512 then
        (let dir1 = dir\<lparr>entry_offset := 0\<rparr>
         in if dir_first_cluster dir1 = 0 then
              (let max_sector = root_start_sector fat
                     + of_nat ((unat (root_entry_count fat) * 32 + 511) div 512);
                   dir2 = dir1\<lparr>current_sector := current_sector dir1 + 1\<rparr>
               in if current_sector dir2 \<ge> max_sector then Inl (LIBRESD_ERR_EOF, fat, dir2)
                  else dir_load fat dir2)
            else
              (let sector_in_cluster = current_sector dir1
                     - libresd_fat_cluster_to_sector fat (dir_current_cluster dir1) + 1
               in if sector_in_cluster \<ge> ucast (sectors_per_cluster fat) then
                    (case libresd_fat_next_cluster fat (dir_current_cluster dir1) of
                       (next, fat1) \<Rightarrow>
                         if next = 0 then Inl (LIBRESD_ERR_EOF, fat1, dir1)
                         else dir_load fat1
                                (dir1\<lparr>dir_current_cluster := next,
                                      current_sector := libresd_fat_cluster_to_sector fat1 next\<rparr>))
                  else dir_load fat (dir1\<lparr>current_sector := current_sector dir1 + 1\<rparr>)))
      else Inr (fat, dir))"

text \<open>
  The loop of \<open>libresd_fat_readdir\<close>, with its locals \<open>lfn_buffer\<close> and \<open>has_lfn\<close>.  A
  directory whose cluster chain is cyclic and holds no short entry is read forever.  The
  last component of the result is what was stored through \<open>info\<close>, if anything.
\<close>

partial_function (option) readdir_loop ::
  "libresd_fat_t \<Rightarrow> libresd_dir_t \<Rightarrow> u8 list \<Rightarrow> bool
     \<Rightarrow> (libresd_err_t \<times> libresd_fat_t \<times> libresd_dir_t \<times> libresd_fileinfo_t option) option" where
  "readdir_loop fat dir lfn_buffer has_lfn =
     (case readdir_next_sector fat dir of
        Inl (err, fat1, dir1) \<Rightarrow> Some (err, fat1, dir1, None)
      | Inr (fat1, dir1) \<Rightarrow>
          (let off = unat (entry_offset dir1);
               buf = dir_buffer dir1;
               dir2 = dir1\<lparr>entry_offset := entry_offset dir1 + 32\<rparr>
           in if buf off = DIRENT_END then Some (LIBRESD_ERR_EOF, fat1, dir2, None)
              else if buf off = DIRENT_FREE then readdir_loop fat1 dir2 lfn_buffer False
              else if buf (off + 11) AND LIBRESD_ATTR_LFN = LIBRESD_ATTR_LFN then
                readdir_loop fat1 dir2 (lfn_collect buf off lfn_buffer)
                  (has_lfn \<or> buf off AND 0x40 \<noteq> 0)
              else if buf (off + 11) AND LIBRESD_ATTR_VOLUME_ID \<noteq> 0 then
                readdir_loop fat1 dir2 lfn_buffer False
              else
                Some (LIBRESD_OK, fat1, dir2,
                      Some (readdir_info dir2 off lfn_buffer has_lfn))))"

definition libresd_fat_readdir ::
  "libresd_fat_t \<Rightarrow> libresd_dir_t
     \<Rightarrow> (libresd_err_t \<times> libresd_fat_t \<times> libresd_dir_t \<times> libresd_fileinfo_t option) option" where
  "libresd_fat_readdir fat dir =
     (if \<not> dir_is_open dir then Some (LIBRESD_ERR_INVALID_HANDLE, fat, dir, None)
      else readdir_loop fat dir (replicate 128 0) False)"

text \<open>
  The directory handle that \<open>fat_resolve_path\<close> and \<open>libresd_fat_create_file\<close> set up by
  hand for the directory starting at \<open>cluster\<close> (0 is the fixed root).
\<close>

definition dir_at :: "libresd_fat_t \<Rightarrow> u32 \<Rightarrow> libresd_dir_t" where
  "dir_at fat cluster =
     \<lparr>dir_is_open = True, dir_first_cluster = cluster, dir_current_cluster = cluster,
      current_sector = (if cluster = 0 then root_start_sector fat
                        else libresd_fat_cluster_to_sector fat cluster),
      entry_offset = 0, dir_buffer = (\<lambda>_. 0)\<rparr>"

text \<open>
  The search loop of \<open>fat_resolve_path\<close>: entries are read until one has the name of the
  component, ignoring case, or \<open>libresd_fat_readdir\<close> returns something other than Ok.
\<close>

partial_function (option) resolve_search ::
  "libresd_fat_t \<Rightarrow> libresd_dir_t \<Rightarrow> cstring
     \<Rightarrow> (libresd_fat_t \<times> libresd_fileinfo_t option) option" where
  "resolve_search fat dir component =
     Option.bind (libresd_fat_readdir fat dir)
       (\<lambda>(err, fat1, dir1, info).
          if err \<noteq> LIBRESD_OK then Some (fat1, None)
          else
            (case info of
               None \<Rightarrow> Some (fat1, None)
             | Some entry \<Rightarrow>
                 if strcasecmp_eq (info_name entry) component then Some (fat1, Some entry)
                 else resolve_search fat1 dir1 component))"

text \<open>
  The out-parameters of \<open>fat_resolve_path\<close>; \<open>None\<close> is a parameter the function has not
  stored to, which the caller's variable then keeps its previous (often indeterminate)
  contents for.
\<close>

record resolve_out =
  out_cluster :: "u32 option"
  out_dir_sector :: "u32 option"
  out_dir_offset :: "u16 option"
  out_info :: "libresd_fileinfo_t option"

definition no_out :: resolve_out where
  "no_out = \<lparr>out_cluster = None, out_dir_sector = None, out_dir_offset = None,
             out_info = None\<rparr>"

definition root_of :: "libresd_fat_t \<Rightarrow> u32" where
  "root_of fat = (if fs_type fat = LIBRESD_FS_FAT32 then root_cluster fat else 0)"

text \<open>
  The component loop of \<open>fat_resolve_path\<close> on the rest \<open>p\<close> of the path.  A component is
  at most 127 bytes; what follows a longer one is taken as the next component.
\<close>

partial_function (option) resolve_loop ::
  "libresd_fat_t \<Rightarrow> cstring \<Rightarrow> u32 \<Rightarrow> resolve_out
     \<Rightarrow> (libresd_err_t \<times> libresd_fat_t \<times> resolve_out) option" where
  "resolve_loop fat p cur_cluster outs =
     (if p = [] then Some (LIBRESD_OK, fat, outs)
      else
        (let component = takeWhile (\<lambda>c. c \<noteq> 0x2F) (take 127 p);
             p1 = dropWhile (\<lambda>c. c = 0x2F) (drop (length component) p)
         in if component = [0x2E] then resolve_loop fat p1 cur_cluster outs
            else if component = [0x2E, 0x2E] then resolve_loop fat p1 (root_of fat) outs
            else
              (case dir_load fat (dir_at fat cur_cluster) of
                 Inl (err, fat1, dir1) \<Rightarrow> Some (LIBRESD_ERR_SPI, fat1, outs)
               | Inr (fat1, dir1) \<Rightarrow>
                   Option.bind (resolve_search fat1 dir1 component)
                     (\<lambda>(fat2, found).
                        case found of
                          None \<Rightarrow> Some (LIBRESD_ERR_NOT_FOUND, fat2, outs)
                        | Some entry \<Rightarrow>
                            if p1 \<noteq> [] \<and> info_attr entry AND LIBRESD_ATTR_DIRECTORY = 0
                            then Some (LIBRESD_ERR_NOT_DIR, fat2, outs)
                            else
                              resolve_loop fat2 p1 (info_first_cluster entry)
                                (if p1 = [] then
                                   \<lparr>out_cluster = Some (info_first_cluster entry),
                                    out_dir_sector = Some (info_dir_sector entry),
                                    out_dir_offset = Some (info_dir_offset entry),
                                    out_info = Some entry\<rparr>
                                 else outs)))))"

definition fat_resolve_path ::
  "libresd_fat_t \<Rightarrow> cstring \<Rightarrow> (libresd_err_t \<times> libresd_fat_t \<times> resolve_out) option" where
  "fat_resolve_path fat path =
     (let cur_cluster = (if path \<noteq> [] \<and> hd path = 0x2F then root_of fat
                             else cwd_cluster fat);
          p = (if path \<noteq> [] \<and> hd path = 0x2F then tl path else path)
      in if p = [] then
           Some (LIBRESD_OK, fat,
                 no_out\<lparr>out_cluster := Some cur_cluster,
                        out_info := Some (zero_fileinfo\<lparr>info_attr := LIBRESD_ATTR_DIRECTORY,
                                            info_first_cluster := cur_cluster\<rparr>)\<rparr>)
         else resolve_loop fat p cur_cluster no_out)"

definition libresd_fat_exists :: "libresd_fat_t \<Rightarrow> cstring \<Rightarrow> (bool \<times> libresd_fat_t) option" where
  "libresd_fat_exists fat path =
     Option.bind (fat_resolve_path fat path) (\<lambda>(err, fat1, outs). Some (err = LIBRESD_OK, fat1))"


section \<open>Creating and removing entries (libresd\_file.c)\<close>

text \<open>
  Where a caller of \<open>fat_resolve_path\<close> goes on to read a variable that the resolver has
  not stored to, the C code works with an indeterminate value; the functions below have no
  result (\<open>None\<close>) in that case, as when a loop does not terminate.
\<close>

text \<open>
  The split of \<open>libresd_fat_create_file\<close> at the last slash into the parent path and the
  file name (at most 127 bytes).
\<close>

definition split_path :: "cstring \<Rightarrow> cstring \<times> cstring" where
  "split_path path =
     (case last_index 0x2F path of
        Some parent_len \<Rightarrow>
          (if parent_len = 0 then [0x2F] else take parent_len path,
           take 127 (drop (parent_len + 1) path))
      | None \<Rightarrow> ([], take 127 path))"

text \<open>
  The head of the free-slot loop of \<open>libresd_fat_create_file\<close>: past the end of a sector
  of the fixed root the entry count decides on RootFull; a directory in clusters is extended
  by a zeroed cluster when its chain ends.  \<open>None\<close>: the allocator does not return.
\<close>

definition create_next_sector ::
  "libresd_fat_t \<Rightarrow> libresd_dir_t \<Rightarrow> u32 \<Rightarrow> u32
     \<Rightarrow> ((libresd_err_t \<times> libresd_fat_t \<times> libresd_dir_t) + (libresd_fat_t \<times> libresd_dir_t)) option"
  where
  "create_next_sector fat dir parent_cluster entry_count =
     (if entry_offset dir \<ge> 512 then
        (let dir1 = dir\<lparr>entry_offset := 0\<rparr>
         in if parent_cluster = 0 then
              (let dir2 = dir1\<lparr>current_sector := current_sector dir1 + 1\<rparr>
               in if entry_count \<ge> ucast (root_entry_count fat)
                  then Some (Inl (LIBRESD_ERR_ROOT_FULL, fat, dir2))
                  else Some (dir_load fat dir2))
            else
              (let sector_in_cluster = current_sector dir1
                     - libresd_fat_cluster_to_sector fat (dir_current_cluster dir1) + 1
               in if sector_in_cluster \<ge> ucast (sectors_per_cluster fat) then
                    (case libresd_fat_next_cluster fat (dir_current_cluster dir1) of
                       (next0, fat1) \<Rightarrow>
                         if next0 = 0 then
                           (case libresd_fat_alloc_cluster fat1 (dir_current_cluster dir1) of
                              None \<Rightarrow> None
                            | Some (next, fat2) \<Rightarrow>
                                if next = 0 then Some (Inl (LIBRESD_ERR_FULL, fat2, dir1))
                                else
                                  (let sd1 = write_sectors_unchecked (sd fat2)
                                               (libresd_fat_cluster_to_sector fat2 next)
                                               (\<lambda>_. 0) (unat (sectors_per_cluster fat2));
                                       fat3 = fat2\<lparr>sd := sd1\<rparr>
                                   in Some (dir_load fat3
                                        (dir1\<lparr>dir_current_cluster := next,
                                              current_sector :=
                                                libresd_fat_cluster_to_sector fat3 next\<rparr>))))
                         else
                           Some (dir_load fat1
                             (dir1\<lparr>dir_current_cluster := next0,
                                   current_sector := libresd_fat_cluster_to_sector fat1 next0\<rparr>)))
                  else Some (dir_load fat (dir1\<lparr>current_sector := current_sector dir1 + 1\<rparr>))))
      else Some (Inr (fat, dir)))"

partial_function (option) create_scan ::
  "libresd_fat_t \<Rightarrow> libresd_dir_t \<Rightarrow> u32 \<Rightarrow> u32
     \<Rightarrow> ((libresd_err_t \<times> libresd_fat_t \<times> libresd_dir_t) + (libresd_fat_t \<times> libresd_dir_t)) option"
  where
  "create_scan fat dir parent_cluster entry_count =
     Option.bind (create_next_sector fat dir parent_cluster entry_count)
       (\<lambda>r. case r of
          Inl ret \<Rightarrow> Some (Inl ret)
        | Inr (fat1, dir1) \<Rightarrow>
            (let first = dir_buffer dir1 (unat (entry_offset dir1))
             in if first = DIRENT_FREE \<or> first = DIRENT_END then Some (Inr (fat1, dir1))
                else create_scan fat1 (dir1\<lparr>entry_offset := entry_offset dir1 + 32\<rparr>)
                       parent_cluster (entry_count + 1)))"

text \<open>
  The new 32-byte entry written over the slot at \<open>off\<close>: zeroed, then name, attribute with
  Archive, and the creation, modification and access stamps from the clock.
\<close>

definition put_bytes :: "sector \<Rightarrow> nat \<Rightarrow> u8 list \<Rightarrow> sector" where
  "put_bytes buf off bs = (\<lambda>i. if off \<le> i \<and> i < off + length bs then bs ! (i - off) else buf i)"

definition create_entry ::
  "sector \<Rightarrow> nat \<Rightarrow> u8 list \<Rightarrow> u8 \<Rightarrow> libresd_datetime_t \<Rightarrow> sector" where
  "create_entry buf off fat_name attr dt =
     (let b0 = put_bytes buf off (replicate 32 0);
          b1 = put_bytes b0 off fat_name;
          b2 = b1(off + 11 := attr OR LIBRESD_ATTR_ARCHIVE);
          date = ucast (LIBRESD_FAT_DATE (year dt) (month dt) (day dt)) :: u32;
          time = ucast (LIBRESD_FAT_TIME (hour dt) (minute dt) (second dt)) :: u32;
          b3 = WRITE16 b2 (off + 16) date;
          b4 = WRITE16 b3 (off + 14) time;
          b5 = WRITE16 b4 (off + 24) date;
          b6 = WRITE16 b5 (off + 22) time
      in WRITE16 b6 (off + 18) date)"

text \<open>
  \<open>libresd_fat_create_file\<close>; \<open>dt\<close> is what \<open>libresd_hal_get_datetime\<close> delivers.  The
  result carries the two out-parameters when the function has stored to them.
\<close>

definition libresd_fat_create_file ::
  "libresd_fat_t \<Rightarrow> cstring \<Rightarrow> u8 \<Rightarrow> libresd_datetime_t
     \<Rightarrow> (libresd_err_t \<times> libresd_fat_t \<times> (u32 \<times> u16) option) option" where
  "libresd_fat_create_file fat path attr dt =
     (case split_path path of
        (parent_path, filename) \<Rightarrow>
          (case str_to_fat_name filename of
             None \<Rightarrow> Some (LIBRESD_ERR_INVALID_NAME, fat, None)
           | Some fat_name \<Rightarrow>
               Option.bind
                 (if parent_path \<noteq> [] then
                    Option.bind (fat_resolve_path fat parent_path)
                      (\<lambda>(err, fat1, outs).
                         if err \<noteq> LIBRESD_OK then Some (Inl (err, fat1))
                         else
                           (case (out_info outs, out_cluster outs) of
                              (Some parent_info, Some parent_cluster) \<Rightarrow>
                                if info_attr parent_info AND LIBRESD_ATTR_DIRECTORY = 0
                                then Some (Inl (LIBRESD_ERR_NOT_DIR, fat1))
                                else Some (Inr (fat1, parent_cluster))
                            | _ \<Rightarrow> None))
                  else Some (Inr (fat, cwd_cluster fat)))
                 (\<lambda>r. case r of
                    Inl (err, fat1) \<Rightarrow> Some (err, fat1, None)
                  | Inr (fat1, parent_cluster) \<Rightarrow>
                      (case dir_load fat1 (dir_at fat1 parent_cluster) of
                         Inl (err, fat2, dir) \<Rightarrow> Some (LIBRESD_ERR_SPI, fat2, None)
                       | Inr (fat2, dir) \<Rightarrow>
                           Option.bind (create_scan fat2 dir parent_cluster 0)
                             (\<lambda>s. case s of
                                Inl (err, fat3, dir1) \<Rightarrow> Some (err, fat3, None)
                              | Inr (fat3, dir1) \<Rightarrow>
                                  (let buf = create_entry (dir_buffer dir1)
                                               (unat (entry_offset dir1)) fat_name attr dt
                                   in case libresd_sd_write_sector (sd fat3)
                                             (current_sector dir1) buf of
                                        (err, sd1) \<Rightarrow>
                                          if err \<noteq> LIBRESD_OK
                                          then Some (err, fat3\<lparr>sd := sd1\<rparr>, None)
                                          else Some (LIBRESD_OK, fat3\<lparr>sd := sd1\<rparr>,
                                                     Some (current_sector dir1,
                                                           entry_offset dir1))))))))"


text \<open>
  The first sector that \<open>libresd_fat_mkdir\<close> writes to the new cluster: zeroes, the entry
  \<open>.\<close> with the new cluster, and the entry \<open>..\<close>, whose cluster fields the code sets to 0.
\<close>

definition mkdir_sector :: "u32 \<Rightarrow> libresd_datetime_t \<Rightarrow> sector" where
  "mkdir_sector cluster dt =
     (let date = ucast (LIBRESD_FAT_DATE (year dt) (month dt) (day dt)) :: u32;
          time = ucast (LIBRESD_FAT_TIME (hour dt) (minute dt) (second dt)) :: u32;
          b0 = (\<lambda>_. 0) :: sector;
          b1 = put_bytes b0 0 (replicate 11 0x20);
          b2 = b1(0 := 0x2E);
          b3 = b2(11 := LIBRESD_ATTR_DIRECTORY);
          b4 = WRITE16 b3 20 (drop_bit 16 cluster AND 0xFFFF);
          b5 = WRITE16 b4 26 (cluster AND 0xFFFF);
          b6 = WRITE16 b5 16 date;
          b7 = WRITE16 b6 14 time;
          b8 = WRITE16 b7 24 date;
          b9 = WRITE16 b8 22 time;
          c1 = put_bytes b9 32 (replicate 11 0x20);
          c2 = c1(32 := 0x2E, 33 := 0x2E);
          c3 = c2(32 + 11 := LIBRESD_ATTR_DIRECTORY);
          c4 = WRITE16 c3 (32 + 20) 0;
          c5 = WRITE16 c4 (32 + 26) 0;
          c6 = WRITE16 c5 (32 + 16) date;
          c7 = WRITE16 c6 (32 + 14) time;
          c8 = WRITE16 c7 (32 + 24) date
      in WRITE16 c8 (32 + 22) time)"

text \<open>
  The final loop of \<open>libresd_fat_mkdir\<close> over the sectors of the cluster, from sector
  number \<open>i\<close> on (\<open>n\<close> sectors remain): the first sector gets the buffer, the others zeroes.
\<close>

fun mkdir_write_cluster ::
  "libresd_sd_t \<Rightarrow> u32 \<Rightarrow> sector \<Rightarrow> u32 \<Rightarrow> nat \<Rightarrow> libresd_err_t \<times> libresd_sd_t" where
  "mkdir_write_cluster s sec buf i 0 = (LIBRESD_OK, s)"
| "mkdir_write_cluster s sec buf i (Suc n) =
     (case libresd_sd_write_sector s (sec + i) (if i = 0 then buf else (\<lambda>_. 0)) of
        (err, s1) \<Rightarrow>
          if err \<noteq> LIBRESD_OK then (LIBRESD_ERR_SPI, s1)
          else mkdir_write_cluster s1 sec buf (i + 1) n)"

text \<open>The two places where \<open>libresd_fat_mkdir\<close> rewrites the entry it has created.\<close>

definition mkdir_undo :: "libresd_sd_t \<Rightarrow> u32 \<Rightarrow> u16 \<Rightarrow> libresd_sd_t" where
  "mkdir_undo s d_sector d_offset =
     (case libresd_sd_read_sector s d_sector (\<lambda>_. 0) of
        (err, s1, buf) \<Rightarrow>
          snd (libresd_sd_write_sector s1 d_sector (buf(unat d_offset := DIRENT_FREE))))"

definition mkdir_set_cluster ::
  "libresd_sd_t \<Rightarrow> u32 \<Rightarrow> u16 \<Rightarrow> u32 \<Rightarrow> libresd_err_t \<times> libresd_sd_t" where
  "mkdir_set_cluster s d_sector d_offset cluster =
     (case libresd_sd_read_sector s d_sector (\<lambda>_. 0) of
        (err, s1, buf) \<Rightarrow>
          if err \<noteq> LIBRESD_OK then (LIBRESD_ERR_SPI, s1)
          else
            (let b1 = WRITE16 buf (unat d_offset + 20) (drop_bit 16 cluster AND 0xFFFF);
                 b2 = WRITE16 b1 (unat d_offset + 26) (cluster AND 0xFFFF)
             in case libresd_sd_write_sector s1 d_sector b2 of
                  (err1, s2) \<Rightarrow>
                    if err1 \<noteq> LIBRESD_OK then (LIBRESD_ERR_SPI, s2) else (LIBRESD_OK, s2)))"

definition libresd_fat_mkdir ::
  "libresd_fat_t \<Rightarrow> cstring \<Rightarrow> libresd_datetime_t \<Rightarrow> (libresd_err_t \<times> libresd_fat_t) option"
  where
  "libresd_fat_mkdir fat path dt =
     (if \<not> mounted fat then Some (LIBRESD_ERR_NOT_MOUNTED, fat)
      else
        Option.bind (libresd_fat_exists fat path)
          (\<lambda>(ex, fat1).
             if ex then Some (LIBRESD_ERR_EXISTS, fat1)
             else
               Option.bind (libresd_fat_create_file fat1 path LIBRESD_ATTR_DIRECTORY dt)
                 (\<lambda>(err, fat2, slot).
                    if err \<noteq> LIBRESD_OK then Some (err, fat2)
                    else
                      (case slot of
                         None \<Rightarrow> None
                       | Some (d_sector, d_offset) \<Rightarrow>
                           Option.bind (libresd_fat_alloc_cluster fat2 0)
                             (\<lambda>(cluster, fat3).
                                if cluster = 0 then
                                  Some (LIBRESD_ERR_FULL,
                                        fat3\<lparr>sd := mkdir_undo (sd fat3) d_sector d_offset\<rparr>)
                                else
                                  (case mkdir_set_cluster (sd fat3) d_sector d_offset
                                          cluster of
                                     (err1, sd1) \<Rightarrow>
                                       if err1 \<noteq> LIBRESD_OK
                                       then Some (err1, fat3\<lparr>sd := sd1\<rparr>)
                                       else
                                         (case mkdir_write_cluster sd1
                                                 (libresd_fat_cluster_to_sector fat3 cluster)
                                                 (mkdir_sector cluster dt) 0
                                                 (unat (sectors_per_cluster fat3)) of
                                            (err2, sd2) \<Rightarrow>
                                              Some (err2, fat3\<lparr>sd := sd2\<rparr>))))))))"

section \<open>Well-behaved cards and concrete volumes\<close>

text \<open>
  A card that answers every command with R1 = 0, every read with the start token, accepts
  every block and releases busy in time; and the address a sector number is sent as.
\<close>

definition hal_works :: "sd_card \<Rightarrow> bool" where
  "hal_works c =
     (\<not> write_protect c
      \<and> (\<forall>f. r1_reply c f = 0)
      \<and> (\<forall>a. read_token c a = SD_TOKEN_SINGLE)
      \<and> (\<forall>a. data_response c a AND 0x1F = 0x05)
      \<and> (\<forall>a. write_ready c a))"

definition card_works :: "libresd_sd_t \<Rightarrow> bool" where
  "card_works s = (initialized s \<and> hal_works (hal s))"

definition sd_addr :: "libresd_sd_t \<Rightarrow> u32 \<Rightarrow> u32" where
  "sd_addr s sec = (if block_addr s then sec else sec * 512)"

definition good_sd :: "(u32 \<Rightarrow> sector) \<Rightarrow> libresd_sd_t" where
  "good_sd img =
     \<lparr>initialized = True, card_type = LIBRESD_CARD_SDHC, spi_speed = 4000000,
      capacity = 0, sector_count = 0, block_size = 512, block_addr = True,
      read_count = 0, write_count = 0, error_count = 0,
      hal = \<lparr>write_protect = False, r1_reply = (\<lambda>_. 0), read_token = (\<lambda>_. 0xFE),
              data_response = (\<lambda>_. 0x05), write_ready = (\<lambda>_. True), blocks = img\<rparr>\<rparr>"

definition bytes_at :: "(nat \<times> u8) list \<Rightarrow> sector" where
  "bytes_at al = (\<lambda>i. case map_of al i of None \<Rightarrow> 0 | Some b \<Rightarrow> b)"

text \<open>
  A boot sector without partition table: 512-byte sectors, one sector per cluster, one
  reserved sector, \<open>nf\<close> FAT copies of \<open>spf\<close> sectors, 16 root entries (one sector), and a
  32-bit total that leaves exactly \<open>n\<close> data sectors.  Every other sector of the card is
  zero.
\<close>

definition boot_sector :: "u8 \<Rightarrow> u16 \<Rightarrow> u32 \<Rightarrow> sector" where
  "boot_sector nf spf n =
     (let total = 1 + ucast nf * ucast spf + 1 + n :: u32
      in bytes_at
          [(11, 0x00), (12, 0x02), (13, 1), (14, 1), (15, 0), (16, nf), (17, 16), (18, 0),
           (19, 0), (20, 0), (22, ucast (spf AND 0xFF)), (23, ucast (drop_bit 8 spf)),
           (32, ucast (total AND 0xFF)), (33, ucast (drop_bit 8 total AND 0xFF)),
           (34, ucast (drop_bit 16 total AND 0xFF)), (35, ucast (drop_bit 24 total AND 0xFF)),
           (510, 0x55), (511, 0xAA)])"

definition disk_image :: "u8 \<Rightarrow> u16 \<Rightarrow> u32 \<Rightarrow> u32 \<Rightarrow> sector" where
  "disk_image nf spf n = (\<lambda>a. if a = 0 then boot_sector nf spf n else (\<lambda>_. 0))"

definition mounted_volume :: "(u32 \<Rightarrow> sector) \<Rightarrow> libresd_fat_t" where
  "mounted_volume img = snd (libresd_fat_mount (mount_init (good_sd img)) (good_sd img))"

text \<open>The volume structure that mounting such a card produces, written out.\<close>

definition plain_volume ::
  "(u32 \<Rightarrow> sector) \<Rightarrow> u8 \<Rightarrow> u16 \<Rightarrow> u32 \<Rightarrow> libresd_fs_type_t \<Rightarrow> libresd_fat_t" where
  "plain_volume img nf spf n t =
     (mount_init ((good_sd img)\<lparr>read_count := 1\<rparr>))
       \<lparr>mounted := True, fs_type := t, bytes_per_sector := 512, sectors_per_cluster := 1,
        reserved_sectors := 1, num_fats := nf, root_entry_count := 16,
        total_sectors := 1 + ucast nf * ucast spf + 1 + n, sectors_per_fat := ucast spf,
        fat_start_sector := 1, root_start_sector := 1 + ucast nf * ucast spf,
        data_start_sector :=
          (if t = LIBRESD_FS_FAT32 then 1 + ucast nf * ucast spf
           else 1 + ucast nf * ucast spf + 1),
        cluster_count := n, cluster_size := 512,
        volume_label := [0, 0, 0, 0, 0, 0, 0, 0, 0, 0, 0, 0], cwd_path := ''/''\<rparr>"

text \<open>A FAT12 volume of 1000 clusters, and a FAT16 volume with three FAT copies whose
  FAT buffer is dirty after one entry write.\<close>

definition vol12 :: libresd_fat_t where
  "vol12 = mounted_volume (disk_image 1 3 1000)"

definition vol16_3fats :: libresd_fat_t where
  "vol16_3fats = snd (libresd_fat_write_entry (mounted_volume (disk_image 3 20 5000)) 5 0xFFFF)"

text \<open>
  File handles as \<open>libresd_fat_open\<close> leaves them: an existing file of 10 bytes whose
  chain starts at cluster 2, opened with Read and Write; and a file just created with
  Write and Create, which has no cluster yet.
\<close>

definition file_rw10 :: libresd_file_t where
  "file_rw10 =
     \<lparr>is_open = True, mode = 0x03, first_cluster = 2, current_cluster = 2, file_size = 10,
      position = 0, cluster_offset = 0, dir_sector = 4, dir_offset = 0,
      buffer = (\<lambda>_. 0), buffer_sector = 0xFFFFFFFF, buffer_dirty = False\<rparr>"

definition file_new :: libresd_file_t where
  "file_new =
     \<lparr>is_open = True, mode = 0x0A, first_cluster = 0, current_cluster = 0, file_size = 0,
      position = 0, cluster_offset = 0, dir_sector = 4, dir_offset = 32,
      buffer = (\<lambda>_. 0), buffer_sector = 0xFFFFFFFF, buffer_dirty = False\<rparr>"

text \<open>
  A FAT12 volume of two clusters, both in use: the buffered FAT sector holds the media
  byte and end-of-chain marks in entries 0 to 3, and cluster 3 was the last one allocated.
\<close>

definition vol_full :: libresd_fat_t where
  "vol_full =
     (plain_volume (disk_image 1 1 2) 1 1 2 LIBRESD_FS_FAT12)
       \<lparr>fat_buffer := bytes_at [(0, 0xF8), (1, 0xFF), (2, 0xFF), (3, 0xFF), (4, 0xFF), (5, 0xFF)],
        fat_buffer_sector := 1, fat_buffer_dirty := True,
        last_alloc_cluster := 3, free_clusters := 0\<rparr>"

text \<open>A handle positioned at the end of its only cluster, cluster 3, which is full.\<close>

definition file_mid :: libresd_file_t where
  "file_mid =
     \<lparr>is_open = True, mode = 0x0A, first_cluster = 3, current_cluster = 3, file_size = 512,
      position = 512, cluster_offset = 512, dir_sector = 3, dir_offset = 32,
      buffer = (\<lambda>_. 0), buffer_sector = 0xFFFFFFFF, buffer_dirty = False\<rparr>"

text \<open>
  A FAT12 volume of two clusters that form one chain, 2 then 3, and a handle at the start of
  the 1024-byte file that occupies it.
\<close>

definition vol_chain :: libresd_fat_t where
  "vol_chain =
     (plain_volume (disk_image 1 1 2) 1 1 2 LIBRESD_FS_FAT12)
       \<lparr>fat_buffer := bytes_at [(0, 0xF8), (1, 0xFF), (2, 0xFF), (3, 0x03), (4, 0xF0), (5, 0xFF)],
        fat_buffer_sector := 1, fat_buffer_dirty := True,
        last_alloc_cluster := 3, free_clusters := 0\<rparr>"

definition file_two :: libresd_file_t where
  "file_two =
     \<lparr>is_open = True, mode = 0x03, first_cluster = 2, current_cluster = 2, file_size = 1024,
      position = 0, cluster_offset = 0, dir_sector = 3, dir_offset = 0,
      buffer = (\<lambda>_. 0), buffer_sector = 0xFFFFFFFF, buffer_dirty = False\<rparr>"

text \<open>
  A card whose FAT12 volume of two clusters is full: the FAT sector marks clusters 2 and 3
  as ends of chains.  \<open>vol_full_mounted\<close> is that volume as \<open>libresd_fat_mount\<close> leaves it.
\<close>

definition full_fat :: sector where
  "full_fat = bytes_at [(0, 0xF8), (1, 0xFF), (2, 0xFF), (3, 0xFF), (4, 0xFF), (5, 0xFF)]"

definition full_disk :: "u32 \<Rightarrow> sector" where
  "full_disk = (disk_image 1 1 2)(1 := full_fat)"

definition vol_full_mounted :: libresd_fat_t where
  "vol_full_mounted = mounted_volume full_disk"

subsection \<open>A volume with a directory tree\<close>

text \<open>
  Directory sectors are built from 32-byte entries: a short entry with name, attribute,
  first cluster and size, and a long-name entry with sequence byte, checksum and 13 UCS-2
  units.
\<close>

definition dirent :: "cstring \<Rightarrow> u8 \<Rightarrow> u32 \<Rightarrow> u32 \<Rightarrow> u8 list" where
  "dirent name attr cluster sz =
     name @ [attr] @ replicate 8 0
       @ [ucast (drop_bit 16 cluster AND 0xFF), ucast (drop_bit 24 cluster AND 0xFF)]
       @ replicate 4 0
       @ [ucast (cluster AND 0xFF), ucast (drop_bit 8 cluster AND 0xFF)]
       @ [ucast (sz AND 0xFF), ucast (drop_bit 8 sz AND 0xFF),
          ucast (drop_bit 16 sz AND 0xFF), ucast (drop_bit 24 sz AND 0xFF)]"

definition lfn_entry :: "u8 \<Rightarrow> u8 \<Rightarrow> u16 list \<Rightarrow> u8 list" where
  "lfn_entry seq checksum units =
     (let bs = concat (map (\<lambda>u. [ucast (u AND 0xFF), ucast (drop_bit 8 u)]) units)
      in seq # take 10 bs @ [0x0F, 0, checksum] @ take 12 (drop 10 bs) @ [0, 0] @ drop 22 bs)"

definition entries :: "u8 list list \<Rightarrow> sector" where
  "entries es = (\<lambda>i. if i < length (concat es) then concat es ! i else 0)"

text \<open>
  The card: a FAT12 volume of 1000 clusters (FAT at sector 1, root directory at sector 4,
  cluster \<open>c\<close> at sector \<open>c + 3\<close>).  The root holds the directory \<open>A\<close> (cluster 2) and the
  file \<open>annual-report-2024.txt\<close> (cluster 4, 3 bytes), whose short entry \<open>ANNUAL~1.TXT\<close> at
  offset 96 is preceded by two long-name entries at offsets 32 and 64.  \<open>A\<close> holds \<open>.\<close>,
  \<open>..\<close> and the directory \<open>B\<close> (cluster 3), which holds \<open>.\<close> and \<open>..\<close>.  The FAT marks
  clusters 2, 3 and 4 as ends of chains and every other cluster as free.
\<close>

definition tree_root :: sector where
  "tree_root =
     entries
       [dirent (cstr ''A          '') 0x10 2 0,
        lfn_entry 0x42 0xD8 (map of_char ''-2024.txt'' @ [0, 0xFFFF, 0xFFFF, 0xFFFF]),
        lfn_entry 0x01 0xD8 (map of_char ''annual-report''),
        dirent (cstr ''ANNUAL~1TXT'') 0x20 4 3]"

definition tree_dir_A :: sector where
  "tree_dir_A =
     entries
       [dirent (cstr ''.          '') 0x10 2 0,
        dirent (cstr ''..         '') 0x10 0 0,
        dirent (cstr ''B          '') 0x10 3 0]"

definition tree_dir_B :: sector where
  "tree_dir_B =
     entries
       [dirent (cstr ''.          '') 0x10 3 0,
        dirent (cstr ''..         '') 0x10 2 0]"

definition tree_fat :: sector where
  "tree_fat =
     bytes_at [(0, 0xF8), (1, 0xFF), (2, 0xFF), (3, 0xFF), (4, 0xFF), (5, 0xFF), (6, 0xFF),
               (7, 0x0F)]"

definition tree_disk :: "u32 \<Rightarrow> sector" where
  "tree_disk =
     (disk_image 1 3 1000)
       (1 := tree_fat, 4 := tree_root, 5 := tree_dir_A, 6 := tree_dir_B,
        7 := bytes_at [(0, 0x61), (1, 0x62), (2, 0x63)])"

definition vol_tree :: libresd_fat_t where
  "vol_tree = mounted_volume tree_disk"

text \<open>The clock reading used when a directory is made: 2 November 2026, 12:30:10.\<close>

definition clock :: libresd_datetime_t where
  "clock = \<lparr>year = 2026, month = 11, day = 2, hour = 12, minute = 30, second = 10\<rparr>"

text \<open>
  The two adjustments \<open>libresd_fat_seek\<close> makes to the handle and the target before its
  walk: the target is limited to the file size unless the file is open for writing, and a
  target below the position, or 0, rewinds the handle to its first cluster.
\<close>

definition seek_clamp :: "libresd_file_t \<Rightarrow> u32 \<Rightarrow> u32" where
  "seek_clamp file new_pos =
     (if mode file AND LIBRESD_WRITE = 0 \<and> new_pos > file_size file
      then file_size file else new_pos)"

definition seek_rewind :: "libresd_file_t \<Rightarrow> u32 \<Rightarrow> libresd_file_t" where
  "seek_rewind file new_pos =
     (if new_pos < position file \<or> new_pos = 0
      then file\<lparr>current_cluster := first_cluster file, cluster_offset := 0, position := 0\<rparr>
      else file)"

text \<open>
  \<open>chain_covers fat c k\<close>: read through \<open>libresd_fat_next_cluster\<close>, one after the other,
  cluster \<open>c\<close> has at least \<open>k\<close> successors, each a data cluster (2 or more).
  \<open>crossings fat file new_pos\<close> is the number of cluster ends that lie strictly before
  \<open>new_pos\<close>, counted from the handle's cluster offset.
\<close>

fun chain_covers :: "libresd_fat_t \<Rightarrow> u32 \<Rightarrow> nat \<Rightarrow> bool" where
  "chain_covers fat c 0 = True"
| "chain_covers fat c (Suc k) =
     (case libresd_fat_next_cluster fat c of (next, fat1) \<Rightarrow> 2 \<le> next \<and> chain_covers fat1 next k)"

definition crossings :: "libresd_fat_t \<Rightarrow> libresd_file_t \<Rightarrow> u32 \<Rightarrow> nat" where
  "crossings fat file new_pos =
     (unat (cluster_offset file) + unat (new_pos - position file) - 1) div unat (cluster_size fat)"

text \<open>
  What the cluster walk of \<open>libresd_fat_seek\<close> guarantees when it has run from \<open>fl\<close> towards
  \<open>np\<close>: the position has not passed \<open>np\<close>, the handle's size, mode and first cluster are
  untouched, and the walk stopped either at \<open>np\<close>, or on a handle without cluster, or on a
  cluster whose FAT entry gives no successor.
\<close>

definition walk_ok ::
  "libresd_fat_t \<Rightarrow> libresd_file_t \<Rightarrow> u32 \<Rightarrow> libresd_fat_t \<Rightarrow> libresd_file_t \<Rightarrow> bool" where
  "walk_ok fat fl np fat' fl' =
     (position fl' \<le> np \<and> cluster_size fat' = cluster_size fat
      \<and> file_size fl' = file_size fl \<and> mode fl' = mode fl \<and> is_open fl' = is_open fl
      \<and> first_cluster fl' = first_cluster fl
      \<and> (position fl' = np \<or> current_cluster fl' < 2
          \<or> fst (libresd_fat_next_cluster fat' (current_cluster fl')) = 0))"

section \<open>The polynomial definition of CRC-7\<close>

text \<open>
  A polynomial over GF(2) is a natural number whose bit \<open>i\<close> is the coefficient of \<open>x^i\<close>.
  \<open>gf2_rem k a\<close> is the remainder of \<open>a\<close> (of degree below \<open>k + 7\<close>) modulo
  \<open>x^7 + x^3 + 1\<close>, by long division from the leading coefficient down.  The CRC-7 of a
  message is the remainder of the message polynomial times \<open>x^7\<close>, with initial value 0.
\<close>

definition crc7_poly :: nat where
  "crc7_poly = 2 ^ 7 + 2 ^ 3 + 1"

fun gf2_rem :: "nat \<Rightarrow> nat \<Rightarrow> nat" where
  "gf2_rem 0 a = a"
| "gf2_rem (Suc k) a = gf2_rem k (if bit a (k + 7) then a XOR push_bit k crc7_poly else a)"

definition msg_poly :: "u8 list \<Rightarrow> nat" where
  "msg_poly ds = foldl (\<lambda>m d. 256 * m + unat d) 0 ds"

definition crc7_spec :: "u8 list \<Rightarrow> nat" where
  "crc7_spec ds = gf2_rem (8 * length ds) (push_bit 7 (msg_poly ds))"

definition gf2_step :: "nat \<Rightarrow> bool \<Rightarrow> nat" where
  "gf2_step r b = gf2_rem 1 (2 * r XOR (if b then 128 else 0))"

section \<open>CRC-7: the shift register computes the polynomial remainder\<close>

lemma gf2_rem_xor: "gf2_rem k (a XOR c) = gf2_rem k a XOR gf2_rem k c"
proof (induction k arbitrary: a c)
  case 0
  show ?case by simp
next
  case (Suc k)
  have "(if bit (a XOR c) (k + 7) then (a XOR c) XOR push_bit k crc7_poly else a XOR c)
      = (if bit a (k + 7) then a XOR push_bit k crc7_poly else a)
        XOR (if bit c (k + 7) then c XOR push_bit k crc7_poly else c)"
    by (auto simp add: bit_xor_iff xor.assoc xor.left_commute xor.commute)
  then show ?case by (simp add: Suc.IH)
qed

lemma nat_bit_above: "(a::nat) < 2 ^ n \<Longrightarrow> n \<le> m \<Longrightarrow> \<not> bit a m"
proof -
  assume "a < 2 ^ n" and "n \<le> m"
  then have "a < 2 ^ m"
    by (meson less_le_trans one_le_numeral power_increasing)
  then show ?thesis by (simp add: bit_iff_odd)
qed

lemma dbl_xor: "2 * (a::nat) XOR 2 * c = 2 * (a XOR c)"
  by (rule bit_eqI) (auto simp add: bit_xor_iff bit_double_iff)

lemma gf2_rem_small: "a < 2 ^ (k + 7) \<Longrightarrow> gf2_rem (k + j) a = gf2_rem k a"
proof (induction j)
  case 0
  show ?case by simp
next
  case (Suc j)
  have "\<not> bit a (k + j + 7)" using Suc.prems by (intro nat_bit_above[of a "k + 7"]) auto
  then show ?case using Suc by simp
qed

lemma gf2_rem_double: "gf2_rem (Suc k) (2 * a) = gf2_rem 1 (2 * gf2_rem k a)"
proof (induction k arbitrary: a)
  case 0
  show ?case by simp
next
  case (Suc k)
  have b: "bit (2 * a) (Suc k + 7) = bit a (k + 7)"
    by (simp add: bit_double_iff add.commute)
  have x: "2 * a XOR push_bit (Suc k) crc7_poly = 2 * (a XOR push_bit k crc7_poly)"
  proof -
    have "push_bit (Suc k) crc7_poly = 2 * push_bit k crc7_poly"
      by (simp add: push_bit_eq_mult)
    then show ?thesis by (simp only: dbl_xor)
  qed
  show ?case
    apply (subst gf2_rem.simps(2))
    apply (subst b)
    apply (cases "bit a (k + 7)")
    using Suc.IH x by simp_all
qed


lemma gf2_rem_bound: "a < 2 ^ (k + 7) \<Longrightarrow> gf2_rem k a < 128"
proof (induction k arbitrary: a)
  case 0
  then show ?case by simp
next
  case (Suc k)
  let ?a' = "if bit a (k + 7) then a XOR push_bit k crc7_poly else a"
  have "take_bit (k + 7) ?a' = ?a'"
  proof (rule bit_eqI)
    fix n
    show "bit (take_bit (k + 7) ?a') n = bit ?a' n"
    proof (cases "n < k + 7")
      case True
      then show ?thesis by (simp add: bit_take_bit_iff)
    next
      case False
      then have n: "k + 7 \<le> n" by simp
      show ?thesis
      proof (cases "n = k + 7")
        case True
        moreover have "bit (137::nat) 7" by (simp add: bit_iff_odd)
        ultimately show ?thesis
          by (simp add: bit_take_bit_iff bit_xor_iff bit_push_bit_iff crc7_poly_def)
      next
        case False
        with n have "k + 8 \<le> n" by simp
        moreover have "a < 2 ^ (k + 8)" using Suc.prems by (simp add: add.commute)
        ultimately have "\<not> bit a n" by (rule nat_bit_above[of a "k + 8" n, rotated])
        moreover have "\<not> bit (push_bit k crc7_poly) n"
          using \<open>k + 8 \<le> n\<close> nat_bit_above[of crc7_poly 8 "n - k"]
          by (simp add: bit_push_bit_iff crc7_poly_def)
        ultimately show ?thesis using n by (simp add: bit_take_bit_iff bit_xor_iff)
      qed
    qed
  qed
  then have "?a' < 2 ^ (k + 7)"
    using take_bit_nat_less_exp [of "k + 7" ?a'] by simp
  then have "gf2_rem k ?a' < 128" by (rule Suc.IH)
  then show ?case by simp
qed


lemma nat_cases8:
  obtains "n = 0" | "n = 1" | "n = 2" | "n = 3" | "n = 4" | "n = 5" | "n = 6" | "n = (7::nat)" | "8 \<le> n"
  by arith

lemma and_80: "(w::u8) AND 0x80 = (if bit w 7 then 0x80 else 0)"
proof (rule bit_word_eqI)
  fix n
  assume "n < LENGTH(8)"
  then show "bit (w AND 0x80) n = bit (if bit w 7 then 0x80 else 0 :: u8) n"
    by (cases n rule: nat_cases8) (simp_all add: bit_and_iff)
qed

lemma bit_dbl_word: "bit (w * 2 :: u8) n = (0 < n \<and> n < 8 \<and> bit w (n - 1))"
  using bit_push_bit_iff [of 1 w n] by (auto simp add: push_bit_eq_mult bit_imp_le_length)

lemma bit_dbl_7: "bit (crc * 2 :: u8) 7 = bit crc 6"
  by (simp add: bit_dbl_word)

lemma sd_crc7_bit_eq:
  "sd_crc7_bit (crc, d) =
     (if bit d 7 \<noteq> bit crc 6 then push_bit 1 crc XOR 9 else push_bit 1 crc, push_bit 1 d)"
  by (simp add: sd_crc7_bit_def Let_def and_80 bit_dbl_word)

lemma sd_crc7_bit_step:
  "take_bit 7 (unat (fst (sd_crc7_bit (crc, d)))) = gf2_step (take_bit 7 (unat crc)) (bit d 7)"
proof -
  let ?r = "take_bit 7 (unat crc)"
  let ?x = "2 * ?r XOR (if bit d 7 then 128 else 0)"
  have r6: "bit ?r 6 = bit crc 6" by (simp add: bit_take_bit_iff bit_unsigned_iff)
  have x7: "bit ?x 7 = (bit d 7 \<noteq> bit crc 6)"
  proof -
    have "bit (128::nat) 7" by (simp add: bit_iff_odd)
    then show ?thesis using r6 by (simp add: bit_xor_iff bit_double_iff)
  qed
  have x8: "\<not> bit ?x n" if "8 \<le> n" for n
    using that nat_bit_above [of 128 8 n]
    by (auto simp add: bit_xor_iff bit_double_iff bit_take_bit_iff)
  show ?thesis
  proof (cases "bit d 7 \<noteq> bit crc 6")
    case True
    have "take_bit 7 (unat (push_bit 1 crc XOR 9)) = ?x XOR 137"
    proof (rule bit_eqI)
      fix n
      show "bit (take_bit 7 (unat (push_bit 1 crc XOR 9))) n = bit (?x XOR 137) n"
        apply (cases n rule: nat_cases8)
        using True x7 x8 [of n] nat_bit_above [of 137 8 n]
        by (simp_all add: bit_take_bit_iff bit_unsigned_iff bit_xor_iff bit_dbl_word bit_double_iff bit_Suc_0_iff)
    qed
    then show ?thesis using True x7
      by (simp add: sd_crc7_bit_eq gf2_step_def crc7_poly_def)
  next
    case False
    have "take_bit 7 (unat (push_bit 1 crc)) = ?x"
    proof (rule bit_eqI)
      fix n
      show "bit (take_bit 7 (unat (push_bit 1 crc))) n = bit ?x n"
        apply (cases n rule: nat_cases8)
        using False x7 x8 [of n]
        by (simp_all add: bit_take_bit_iff bit_unsigned_iff bit_xor_iff bit_dbl_word bit_double_iff bit_Suc_0_iff)
    qed
    then show ?thesis using False x7
      by (simp add: sd_crc7_bit_eq gf2_step_def crc7_poly_def)
  qed
qed


lemma gf2_step_rem:
  "gf2_step (gf2_rem n t) b = gf2_rem (Suc n) (2 * t XOR (if b then 128 else 0))"
proof -
  let ?c = "if b then 128 else 0 :: nat"
  have c: "gf2_rem (Suc n) ?c = gf2_rem 1 ?c"
    using gf2_rem_small [of ?c 1 n] by simp
  have "gf2_rem (Suc n) (2 * t XOR ?c) = gf2_rem (Suc n) (2 * t) XOR gf2_rem (Suc n) ?c"
    by (rule gf2_rem_xor)
  also have "\<dots> = gf2_rem 1 (2 * gf2_rem n t) XOR gf2_rem 1 ?c"
    by (simp only: gf2_rem_double c)
  also have "\<dots> = gf2_rem 1 (2 * gf2_rem n t XOR ?c)"
    by (rule gf2_rem_xor [symmetric])
  finally show ?thesis by (simp add: gf2_step_def)
qed

lemma shift_in_bit: "128 * (2 * m + of_bool b) = (2 * (128 * m) XOR (if b then 128 else 0) :: nat)"
proof (cases b)
  case False
  then show ?thesis by simp
next
  case True
  have "bit (128::nat) n = (n = 7)" for n
    using bit_exp_iff [of 7 n, where ?'a = nat] by simp
  moreover have "\<not> bit (256 * m) 7"
    using bit_push_bit_iff [of 8 m 7] by (simp add: push_bit_eq_mult mult.commute)
  ultimately have "(256 * m) AND (128::nat) = 0"
    by (intro bit_eqI) (auto simp add: bit_and_iff)
  then have "256 * m + 128 = (256 * m) XOR (128::nat)"
    by (simp add: disjunctive_add_eq_xor)
  then show ?thesis using True by simp
qed

lemma gf2_bits:
  "foldl gf2_step (gf2_rem n (128 * m)) bs =
     gf2_rem (n + length bs) (128 * foldl (\<lambda>m b. 2 * m + of_bool b) m bs)"
proof (induction bs arbitrary: n m)
  case Nil
  show ?case by simp
next
  case (Cons b bs)
  have "gf2_step (gf2_rem n (128 * m)) b = gf2_rem (Suc n) (128 * (2 * m + of_bool b))"
    by (simp only: gf2_step_rem shift_in_bit)
  then show ?case using Cons.IH [of "Suc n" "2 * m + of_bool b"] by simp
qed

lemma sd_crc7_bit_pow:
  "j \<le> 8 \<Longrightarrow> (sd_crc7_bit ^^ j) (crc, d) = (c, e) \<Longrightarrow>
     e = push_bit j d \<and>
     take_bit 7 (unat c) = foldl gf2_step (take_bit 7 (unat crc)) (map (\<lambda>i. bit d (7 - i)) [0..<j])"
proof (induction j arbitrary: c e)
  case 0
  then show ?case by simp
next
  case (Suc j)
  obtain c0 e0 where p: "(sd_crc7_bit ^^ j) (crc, d) = (c0, e0)" by (cases "(sd_crc7_bit ^^ j) (crc, d)")
  with Suc have ih: "e0 = push_bit j d"
    "take_bit 7 (unat c0) = foldl gf2_step (take_bit 7 (unat crc)) (map (\<lambda>i. bit d (7 - i)) [0..<j])"
    by simp_all
  have s: "sd_crc7_bit (c0, e0) = (c, e)" using Suc.prems p by simp
  have b: "bit e0 7 = bit d (7 - j)"
    using Suc.prems(1) by (simp add: ih(1) bit_push_bit_iff)
  have "take_bit 7 (unat c) = gf2_step (take_bit 7 (unat c0)) (bit e0 7)"
    using sd_crc7_bit_step [of c0 e0] s by simp
  then have "take_bit 7 (unat c) =
      gf2_step (foldl gf2_step (take_bit 7 (unat crc)) (map (\<lambda>i. bit d (7 - i)) [0..<j])) (bit d (7 - j))"
    by (simp only: ih(2) b)
  moreover have "e = push_bit (Suc j) d"
    using s by (auto simp add: sd_crc7_bit_eq ih(1) push_bit_eq_mult mult.assoc mult.commute)
  ultimately show ?case by simp
qed

lemma byte_bits:
  "foldl (\<lambda>m b. 2 * m + of_bool b) m (map (\<lambda>i. bit d (7 - i)) [0..<8]) = 256 * m + unat (d::u8)"
proof -
  have "unat d = horner_sum of_bool 2 (map (bit (unat d)) [0..<8])"
    by (simp add: horner_sum_bit_eq_take_bit take_bit_nat_eq_self unsigned_less [of d, where ?'a = nat, simplified])
  also have "\<dots> = horner_sum of_bool 2 (map (bit d) [0..<8])"
    by (intro arg_cong [where f = "horner_sum of_bool 2"]) (simp add: bit_unsigned_iff)
  finally have u: "unat d = horner_sum of_bool 2 (map (bit d) [0..<8])" .
  have l: "[0..<8] = [0, 1, 2, 3, 4, 5, 6, 7::nat]" by (simp add: upt_rec)
  show ?thesis unfolding u l by simp
qed

lemma sd_crc7_byte_spec:
  assumes "take_bit 7 (unat crc) = gf2_rem n (128 * m)"
  shows "take_bit 7 (unat (sd_crc7_byte crc d)) = gf2_rem (n + 8) (128 * (256 * m + unat d))"
proof -
  obtain c e where p: "(sd_crc7_bit ^^ 8) (crc, d) = (c, e)" by (cases "(sd_crc7_bit ^^ 8) (crc, d)")
  from sd_crc7_bit_pow [OF _ p]
  have "take_bit 7 (unat c) = foldl gf2_step (gf2_rem n (128 * m)) (map (\<lambda>i. bit d (7 - i)) [0..<8])"
    using assms by simp
  also have "\<dots> = gf2_rem (n + 8) (128 * (256 * m + unat d))"
    by (simp only: gf2_bits byte_bits) simp
  finally show ?thesis using p by (simp add: sd_crc7_byte_def)
qed

lemma crc7_fold_spec:
  assumes "take_bit 7 (unat crc) = gf2_rem n (128 * m)"
  shows "take_bit 7 (unat (foldl sd_crc7_byte crc ds)) =
     gf2_rem (n + 8 * length ds) (128 * foldl (\<lambda>m d. 256 * m + unat d) m ds)"
  using assms
proof (induction ds arbitrary: crc n m)
  case Nil
  then show ?case by simp
next
  case (Cons d ds)
  from Cons.IH [OF sd_crc7_byte_spec [OF Cons.prems, of d]]
  show ?case by (simp add: add.assoc [symmetric] add.commute)
qed

lemma foldl_crc7_spec: "take_bit 7 (unat (foldl sd_crc7_byte 0 ds)) = crc7_spec ds"
  using crc7_fold_spec [of 0 0 0 ds] by (simp add: crc7_spec_def msg_poly_def push_bit_eq_mult mult.commute)

lemma msg_poly_fold_bound:
  "m < 2 ^ n \<Longrightarrow> foldl (\<lambda>m d. 256 * m + unat (d::u8)) m ds < 2 ^ (n + 8 * length ds)"
proof (induction ds arbitrary: m n)
  case Nil
  then show ?case by simp
next
  case (Cons d ds)
  have "unat d < 256" using unsigned_less [of d, where ?'a = nat] by simp
  with Cons.prems have "256 * m + unat d < 2 ^ (n + 8)"
    by (simp add: power_add)
  from Cons.IH [OF this] show ?case by (simp add: add.assoc)
qed

lemma crc7_spec_bound: "crc7_spec ds < 128"
proof -
  have "msg_poly ds < 2 ^ (8 * length ds)"
    using msg_poly_fold_bound [of 0 0 ds] by (simp add: msg_poly_def)
  then have "push_bit 7 (msg_poly ds) < 2 ^ (8 * length ds + 7)"
    by (simp add: push_bit_eq_mult power_add)
  then show ?thesis unfolding crc7_spec_def by (rule gf2_rem_bound)
qed

lemma odd_unat_u8: "odd (unat (w::u8)) = odd w"
  using bit_unsigned_iff [of w 0, where ?'a = nat] by (simp add: bit_0)

lemma sd_crc7_spec: "sd_crc7 ds = of_nat (2 * crc7_spec ds + 1)"
proof -
  let ?c = "foldl sd_crc7_byte 0 ds"
  have "push_bit 1 ?c OR 1 = (word_of_nat (2 * take_bit 7 (unat ?c) + 1) :: u8)"
  proof (rule bit_word_eqI)
    fix n
    assume "n < LENGTH(8)"
    then show "bit (push_bit 1 ?c OR 1) n = bit (word_of_nat (2 * take_bit 7 (unat ?c) + 1) :: u8) n"
      by (cases n rule: nat_cases8)
        (simp_all add: bit_or_iff bit_dbl_word bit_of_nat_iff bit_take_bit_iff bit_unsigned_iff
          bit_double_iff bit_Suc_0_iff bit_1_iff even_bit_succ_iff bit_0 even_or_iff odd_unat_u8)
  qed
  then show ?thesis by (simp add: sd_crc7_def foldl_crc7_spec)
qed


text \<open>
  C9.  For every command number and every 32-bit argument the frame has six bytes; the
  trailer byte is twice the CRC-7 (remainder modulo \<open>x^7 + x^3 + 1\<close>, initial value 0) of
  the first five bytes plus one, so its high seven bits are that CRC-7 and its low bit is 1;
  the frame of CMD0 with argument 0 ends in \<open>0x95\<close>.
\<close>

theorem C9_cmd_frame_trailer:
  "length (cmd_frame cmd arg) = 6
   \<and> crc7_spec (take 5 (cmd_frame cmd arg)) < 128
   \<and> cmd_frame cmd arg ! 5 = word_of_nat (2 * crc7_spec (take 5 (cmd_frame cmd arg)) + 1)
   \<and> drop_bit 1 (cmd_frame cmd arg ! 5) = word_of_nat (crc7_spec (take 5 (cmd_frame cmd arg)))
   \<and> bit (cmd_frame cmd arg ! 5) 0
   \<and> cmd_frame 0 0 ! 5 = 0x95"
proof -
  let ?f5 = "take 5 (cmd_frame cmd arg)"
  let ?c = "crc7_spec ?f5"
  have len: "length (cmd_frame cmd arg) = 6"
    by (simp add: cmd_frame_def Let_def)
  have bound: "?c < 128" by (rule crc7_spec_bound)
  have tr: "cmd_frame cmd arg ! 5 = word_of_nat (2 * ?c + 1)"
    by (simp add: cmd_frame_def Let_def sd_crc7_spec)
  define w :: u8 where "w = word_of_nat (2 * ?c + 1)"
  have hi: "drop_bit 1 w = word_of_nat ?c"
  proof -
    have "unat w = (2 * ?c + 1) mod 2 ^ LENGTH(8)"
      unfolding w_def by (rule unat_of_nat)
    also have "\<dots> = 2 * ?c + 1" using bound by simp
    finally have u: "unat w = 2 * ?c + 1" .
    have "unat (drop_bit 1 w) = drop_bit 1 (unat w)" by (rule unat_drop_bit_eq)
    also have "\<dots> = ?c" unfolding u by (simp add: drop_bit_eq_div)
    finally have "word_of_nat (unat (drop_bit 1 w)) = (word_of_nat ?c :: u8)" by simp
    then show ?thesis by simp
  qed
  have lo: "bit w 0"
    unfolding w_def by (simp add: bit_0)
  have cmd0: "cmd_frame 0 0 ! 5 = 0x95"
    by code_simp
  show ?thesis using len bound tr hi lo cmd0 unfolding w_def by (simp only: simp_thms)
qed

section \<open>Evaluating the concrete volumes\<close>

lemma trim_label_stop: "l ! i \<noteq> 0x20 \<Longrightarrow> trim_label l i = l"
  by (cases i) simp_all

lemmas mount_eval_defs = libresd_fat_mount_def mount_parse_bpb_def mount_layout_def
  good_sd_def libresd_sd_read_sector_def libresd_sd_cmd_def mount_boot_sector_def
  disk_image_def boot_sector_def bytes_at_def READ16_def READ32_def Let_def
  SD_TOKEN_SINGLE_def mount_init_def upt_rec trim_label_stop

lemmas fat_eval_defs = libresd_fat_write_entry_def libresd_fat_read_entry_def
  write_entry_load_def read_entry_load_def libresd_sd_read_sector_def
  libresd_sd_write_sector_def libresd_sd_cmd_def libresd_fat_sync_def
  libresd_fat_unmount_def Let_def SD_TOKEN_SINGLE_def

lemma mount_vol12:
  "libresd_fat_mount (mount_init (good_sd (disk_image 1 3 1000))) (good_sd (disk_image 1 3 1000))
     = (LIBRESD_OK, plain_volume (disk_image 1 3 1000) 1 3 1000 LIBRESD_FS_FAT12)"
  by (simp add: mount_eval_defs plain_volume_def)

lemma mount_3fats:
  "libresd_fat_mount (mount_init (good_sd (disk_image 3 20 5000))) (good_sd (disk_image 3 20 5000))
     = (LIBRESD_OK, plain_volume (disk_image 3 20 5000) 3 20 5000 LIBRESD_FS_FAT16)"
  by (simp add: mount_eval_defs plain_volume_def)

lemma plain_volume_fields:
  "mounted (plain_volume img nf spf n t)" "fs_type (plain_volume img nf spf n t) = t"
  "cluster_count (plain_volume img nf spf n t) = n"
  "cluster_size (plain_volume img nf spf n t) = 512"
  "sectors_per_cluster (plain_volume img nf spf n t) = 1"
  "fat_start_sector (plain_volume img nf spf n t) = 1"
  "fat_buffer_sector (plain_volume img nf spf n t) = 0xFFFFFFFF"
  "\<not> fat_buffer_dirty (plain_volume img nf spf n t)"
  "fat_buffer (plain_volume img nf spf n t) = (\<lambda>_. 0)"
  "num_fats (plain_volume img nf spf n t) = nf"
  "sectors_per_fat (plain_volume img nf spf n t) = ucast spf"
  "root_entry_count (plain_volume img nf spf n t) = 16"
  "root_start_sector (plain_volume img nf spf n t) = 1 + ucast nf * ucast spf"
  "data_start_sector (plain_volume img nf spf n t) =
     (if t = LIBRESD_FS_FAT32 then 1 + ucast nf * ucast spf else 1 + ucast nf * ucast spf + 1)"
  "root_cluster (plain_volume img nf spf n t) = 0" "cwd_cluster (plain_volume img nf spf n t) = 0"
  "last_alloc_cluster (plain_volume img nf spf n t) = 0"
  "free_clusters (plain_volume img nf spf n t) = 0xFFFFFFFF"
  "initialized (sd (plain_volume img nf spf n t))" "block_addr (sd (plain_volume img nf spf n t))"
  "hal (sd (plain_volume img nf spf n t)) =
     \<lparr>write_protect = False, r1_reply = (\<lambda>_. 0), read_token = (\<lambda>_. 0xFE),
      data_response = (\<lambda>_. 0x05), write_ready = (\<lambda>_. True),
      blocks = img\<rparr>"
  by (simp_all add: plain_volume_def mount_init_def good_sd_def)

lemma vol12_eq: "vol12 = plain_volume (disk_image 1 3 1000) 1 3 1000 LIBRESD_FS_FAT12"
  by (simp add: vol12_def mounted_volume_def mount_vol12)

lemma vol16_3fats_eq:
  "vol16_3fats = snd (libresd_fat_write_entry (plain_volume (disk_image 3 20 5000) 3 20 5000 LIBRESD_FS_FAT16) 5 0xFFFF)"
  by (simp add: vol16_3fats_def mounted_volume_def mount_3fats)

section \<open>Sector transfers on a well-behaved card\<close>

lemma hal_works_blocks [simp]: "hal_works (c\<lparr>blocks := b\<rparr>) = hal_works c"
  by (simp add: hal_works_def)

lemma write_sector_works:
  "initialized s \<Longrightarrow> hal_works (hal s) \<Longrightarrow>
   libresd_sd_write_sector s sec buf =
     (LIBRESD_OK, s\<lparr>write_count := write_count s + 1,
                     hal := (hal s)\<lparr>blocks := (blocks (hal s))(sd_addr s sec := buf)\<rparr>\<rparr>)"
  by (simp add: libresd_sd_write_sector_def libresd_sd_cmd_def hal_works_def sd_addr_def Let_def)

lemma read_sector_works:
  "initialized s \<Longrightarrow> hal_works (hal s) \<Longrightarrow>
   libresd_sd_read_sector s sec buf =
     (LIBRESD_OK, s\<lparr>read_count := read_count s + 1\<rparr>, blocks (hal s) (sd_addr s sec))"
  by (simp add: libresd_sd_read_sector_def libresd_sd_cmd_def hal_works_def sd_addr_def Let_def)

lemma sd_addr_upd [simp]:
  "sd_addr (s\<lparr>write_count := w\<rparr>) = sd_addr s"
  "sd_addr (s\<lparr>read_count := r\<rparr>) = sd_addr s"
  "sd_addr (s\<lparr>error_count := e\<rparr>) = sd_addr s"
  "sd_addr (s\<lparr>hal := c\<rparr>) = sd_addr s"
  by (simp_all add: sd_addr_def fun_eq_iff)

section \<open>Reading: the position stays inside the file\<close>

lemma read_load_sector_keeps:
  "read_load_sector fat file sec = (r, fat1, file1) \<Longrightarrow>
     position file1 = position file \<and> file_size file1 = file_size file
     \<and> cluster_offset file1 = cluster_offset file \<and> current_cluster file1 = current_cluster file
     \<and> cluster_size fat1 = cluster_size fat"
  by (auto simp add: read_load_sector_def split: if_splits prod.splits)

lemma read_copy_fields:
  "read_copy file o_s n = (file2, chunk) \<Longrightarrow>
     position file2 = position file + n \<and> file_size file2 = file_size file
     \<and> length chunk = unat n"
  by (auto simp add: read_copy_def)

lemma unat_add_nowrap:
  "unat (a::u32) + unat (b::u32) \<le> unat (c::u32) \<Longrightarrow> unat (a + b) = unat a + unat b"
proof -
  assume "unat a + unat b \<le> unat c"
  moreover have "unat c < 2 ^ 32" using unsigned_less [of c, where ?'a = nat] by simp
  ultimately show ?thesis by (simp add: unat_word_ariths)
qed

lemma read_loop_position:
  "read_loop fat fl sz tot dst = (r, fat', fl', tot', dst') \<Longrightarrow>
   unat (position fl) + unat sz \<le> unat (file_size fl) \<Longrightarrow>
   position fl' \<le> file_size fl' \<and> file_size fl' = file_size fl"
proof (induction "unat sz" arbitrary: fat fl sz tot dst rule: less_induct)
  case less
  note run = less.prems(1) and inv = less.prems(2)
  show ?case
  proof (cases "0 < sz \<and> \<not> current_cluster fl < 2")
    case False
    then consider "\<not> 0 < sz" | "0 < sz" "current_cluster fl < 2" by blast
    then show ?thesis
    proof cases
      case 1
      with run inv show ?thesis
        by (subst (asm) read_loop.simps) (simp add: word_le_nat_alt)
    next
      case 2
      with run inv show ?thesis
        by (subst (asm) read_loop.simps) (simp add: word_le_nat_alt)
    qed
  next
    case True
    then have pos: "0 < sz" and cc: "\<not> current_cluster fl < 2" by simp_all
    obtain r1 fat1 file1 where ld: "read_load_sector fat fl
                   (libresd_fat_cluster_to_sector fat (current_cluster fl)
                      + cluster_offset fl div 512) = (r1, fat1, file1)"
      by (metis prod_cases3)
    from read_load_sector_keeps [OF ld]
    have k: "position file1 = position fl" "file_size file1 = file_size fl" by simp_all
    show ?thesis
    proof (cases r1)
      case (Some err)
      with pos cc ld run inv k show ?thesis
        by (subst (asm) read_loop.simps) (simp add: word_le_nat_alt)
    next
      case None
      let ?n = "sector_chunk (cluster_offset fl mod 512) sz"
      obtain file2 chunk where cp: "read_copy file1 (cluster_offset fl mod 512) ?n = (file2, chunk)"
        by fastforce
      from read_copy_fields [OF cp] k
      have k2: "position file2 = position fl + ?n" "file_size file2 = file_size fl" by simp_all
      from sector_chunk_bounds [OF pos, of "cluster_offset fl"]
      have nb: "0 < unat ?n" "unat ?n \<le> unat sz" by simp_all
      have nowrap: "unat (position fl + ?n) = unat (position fl) + unat ?n"
        using inv nb by (intro unat_add_nowrap [of _ _ "file_size fl"]) simp
      have rest: "unat (position file2) + unat (sz - ?n) \<le> unat (file_size file2)"
        using inv nb nowrap by (simp add: k2 unat_sub word_le_nat_alt)
      have here: "position file2 \<le> file_size file2"
        using inv nb nowrap by (simp add: k2 word_le_nat_alt)
      have smaller: "unat (sz - ?n) < unat sz"
        using pos by (rule sector_chunk_less)
      show ?thesis
      proof (cases "cluster_offset file2 \<ge> cluster_size fat1")
        case True
        note bd = True
        obtain nx fat2 where nc: "libresd_fat_next_cluster fat1 (current_cluster file2) = (nx, fat2)"
          by fastforce
        show ?thesis
        proof (cases "nx = 0")
          case True
          with pos cc ld None cp bd nc run here k2 show ?thesis
            by (subst (asm) read_loop.simps) simp
        next
          case False
          from run pos cc ld None cp bd nc False
          have "read_loop fat2 (file2\<lparr>current_cluster := nx, cluster_offset := 0\<rparr>)
                  (sz - ?n) (tot + ?n) (dst @ chunk) = (r, fat', fl', tot', dst')"
            by (subst (asm) read_loop.simps) simp
          note ih = less.hyps [OF smaller this]
          have ih': "position fl' \<le> file_size fl' \<and> file_size fl' =
                      file_size (file2\<lparr>current_cluster := nx, cluster_offset := 0\<rparr>)"
            by (rule ih) (use rest in simp)
          from ih' have a: "position fl' \<le> file_size fl'" by (rule conjunct1)
          from ih' have "file_size fl' = file_size (file2\<lparr>current_cluster := nx, cluster_offset := 0\<rparr>)"
            by (rule conjunct2)
          then have b: "file_size fl' = file_size fl" by (simp add: k2)
          show ?thesis by (rule conjI [OF a b])
        qed
      next
        case False
        from run pos cc ld None cp False
        have "read_loop fat1 file2 (sz - ?n) (tot + ?n) (dst @ chunk) = (r, fat', fl', tot', dst')"
          by (subst (asm) read_loop.simps) simp
        note ih = less.hyps [OF smaller this]
        have ih': "position fl' \<le> file_size fl' \<and> file_size fl' = file_size file2"
          by (rule ih) (use rest in simp)
        from ih' have a: "position fl' \<le> file_size fl'" by (rule conjunct1)
        from ih' have "file_size fl' = file_size file2" by (rule conjunct2)
        then have b: "file_size fl' = file_size fl" by (simp add: k2)
        show ?thesis by (rule conjI [OF a b])
      qed
    qed
  qed
qed

section \<open>Writing: the size follows the position, and Full is never returned\<close>

lemma write_first_cluster_keeps:
  "write_first_cluster fat fl = Some (b, fat1, fl1) \<Longrightarrow>
     position fl1 = position fl \<and> file_size fl1 = file_size fl"
  by (auto simp add: write_first_cluster_def Let_def split: if_splits option.splits prod.splits)

lemma write_next_cluster_keeps:
  "write_next_cluster fat fl = Some (b, fat1, fl1) \<Longrightarrow>
     position fl1 = position fl \<and> file_size fl1 = file_size fl"
  by (auto simp add: write_next_cluster_def Let_def split: if_splits option.splits prod.splits)

lemma write_load_sector_keeps:
  "write_load_sector fat fl sec off sz = (r, fat1, fl1) \<Longrightarrow>
     position fl1 = position fl \<and> file_size fl1 = file_size fl"
  by (auto simp add: write_load_sector_def Let_def split: if_splits option.splits prod.splits)

lemma write_copy_size:
  "position (write_copy fl src off n) \<le> file_size (write_copy fl src off n)
   \<and> file_size fl \<le> file_size (write_copy fl src off n)"
  by (auto simp add: write_copy_def Let_def word_le_nat_alt word_less_nat_alt)

lemma sd_errors_not_full:
  "fst (libresd_sd_write_sector s sec buf) \<noteq> LIBRESD_ERR_FULL"
  "fst (libresd_sd_read_sector s sec buf) \<noteq> LIBRESD_ERR_FULL"
  by (simp_all add: libresd_sd_write_sector_def libresd_sd_read_sector_def Let_def)

lemma write_load_sector_not_full:
  "write_load_sector fat fl sec off sz = (Some err, fat1, fl1) \<Longrightarrow> err \<noteq> LIBRESD_ERR_FULL"
  using sd_errors_not_full(1) [of "sd fat" "buffer_sector fl" "buffer fl"]
    sd_errors_not_full(2) [of "snd (libresd_sd_write_sector (sd fat) (buffer_sector fl) (buffer fl))" sec "buffer fl"]
    sd_errors_not_full(2) [of "sd fat" sec "buffer fl"]
  by (auto simp add: write_load_sector_def split: if_splits prod.splits)

lemma write_loop_inv:
  "write_loop fat fl src sz tot = Some (r, fat', fl', tot') \<Longrightarrow>
   (r \<noteq> Some LIBRESD_ERR_FULL)
   \<and> ((tot' = tot \<and> position fl' = position fl \<and> file_size fl' = file_size fl)
       \<or> (position fl' \<le> file_size fl' \<and> file_size fl \<le> file_size fl'))"
proof (induction "unat sz" arbitrary: fat fl src sz tot rule: less_induct)
  case less
  note run = less.prems(1)
  show ?case
  proof (cases "0 < sz")
    case False
    with run show ?thesis by (subst (asm) write_loop.simps) auto
  next
    case True
    note pos = True
    from run pos obtain b1 fat1 fl1 where w1: "write_first_cluster fat fl = Some (b1, fat1, fl1)"
      by (subst (asm) write_loop.simps) (auto split: option.splits)
    note k1 = write_first_cluster_keeps [OF w1]
    show ?thesis
    proof (cases b1)
      case True
      with run pos w1 k1 show ?thesis by (subst (asm) write_loop.simps) auto
    next
      case False
      note nb1 = False
      from run pos w1 nb1 obtain b2 fat2 fl2 where w2: "write_next_cluster fat1 fl1 = Some (b2, fat2, fl2)"
        by (subst (asm) write_loop.simps) (auto split: option.splits)
      note k2 = write_next_cluster_keeps [OF w2]
      show ?thesis
      proof (cases b2)
        case True
        with run pos w1 nb1 w2 k1 k2 show ?thesis by (subst (asm) write_loop.simps) auto
      next
        case False
        note nb2 = False
        let ?off = "cluster_offset fl2 mod 512"
        let ?n = "sector_chunk ?off sz"
        obtain r3 fat3 fl3 where w3: "write_load_sector fat2 fl2
                          (libresd_fat_cluster_to_sector fat2 (current_cluster fl2)
                             + cluster_offset fl2 div 512) ?off sz = (r3, fat3, fl3)"
          by (metis prod_cases3)
        note k3 = write_load_sector_keeps [OF w3]
        show ?thesis
        proof (cases r3)
          case (Some err)
          with write_load_sector_not_full [of fat2 fl2 _ ?off sz err fat3 fl3] w3
          have "err \<noteq> LIBRESD_ERR_FULL" by simp
          with Some run pos w1 nb1 w2 nb2 w3 k1 k2 k3 show ?thesis
            by (subst (asm) write_loop.simps) auto
        next
          case None
          from run pos w1 nb1 w2 nb2 w3 None
          have rec: "write_loop fat3 (write_copy fl3 src ?off ?n)
                       (\<lambda>i. src (i + unat ?n)) (sz - ?n) (tot + ?n) = Some (r, fat', fl', tot')"
            by (subst (asm) write_loop.simps) simp
          have smaller: "unat (sz - ?n) < unat sz" using pos by (rule sector_chunk_less)
          from less.hyps [OF smaller rec] write_copy_size [of fl3 src ?off ?n] k1 k2 k3
          show ?thesis by auto
        qed
      qed
    qed
  qed
qed

section \<open>Evaluating file operations on the concrete volumes\<close>

lemmas file_eval_defs = libresd_fat_read_def libresd_fat_write_def libresd_fat_seek_def
  seek_target_def libresd_fat_tell_def read_load_sector_def read_copy_def sector_chunk_def
  write_first_cluster_def write_next_cluster_def write_load_sector_def write_copy_def
  libresd_fat_cluster_to_sector_def libresd_fat_next_cluster_def libresd_fat_is_eoc_def
  LIBRESD_READ_def LIBRESD_WRITE_def LIBRESD_APPEND_def
  FAT12_EOC_def FAT16_EOC_def FAT32_EOC_def FAT_FREE_def

lemmas vol12_eval = vol12_eq plain_volume_fields Let_def fat_eval_defs upt_rec disk_image_def

lemma seek100:
  "libresd_fat_seek vol12 file_rw10 100 LIBRESD_SEEK_SET
     = Some (LIBRESD_OK, vol12, file_rw10\<lparr>position := 100, cluster_offset := 100\<rparr>)"
  by (simp add: file_eval_defs seek_walk.simps file_rw10_def vol12_eval)

lemma seek_back:
  "libresd_fat_seek vol12 (file_rw10\<lparr>position := 100, cluster_offset := 100\<rparr>) 0 LIBRESD_SEEK_SET
     = Some (LIBRESD_OK, vol12, file_rw10)"
  by (simp add: file_eval_defs seek_walk.simps file_rw10_def vol12_eval)

lemma vol_full_fields:
  "fs_type vol_full = LIBRESD_FS_FAT12" "cluster_count vol_full = 2"
  "cluster_size vol_full = 512" "fat_start_sector vol_full = 1"
  "fat_buffer_sector vol_full = 1" "last_alloc_cluster vol_full = 3"
  "fat_buffer vol_full =
     bytes_at [(0, 0xF8), (1, 0xFF), (2, 0xFF), (3, 0xFF), (4, 0xFF), (5, 0xFF)]"
  by (simp_all add: vol_full_def plain_volume_fields)

lemma alloc_scan_full:
  "alloc_scan vol_full 3 3 = Some (None, vol_full)"
  by (simp add: alloc_scan.simps vol_full_fields fat_eval_defs bytes_at_def FAT_FREE_def)

lemma alloc_full:
  "libresd_fat_alloc_cluster vol_full c = Some (0, vol_full)"
  by (simp add: libresd_fat_alloc_cluster_def alloc_eoc_def vol_full_fields alloc_scan_full)


lemma next_cluster_full_3:
  "libresd_fat_next_cluster vol_full 3 = (0, vol_full)"
  by (simp add: libresd_fat_next_cluster_def libresd_fat_is_eoc_def FAT12_EOC_def
      vol_full_fields fat_eval_defs bytes_at_def)

section \<open>Seeking: the cluster walk\<close>

text \<open>
  Reading a FAT entry does not change the geometry of the volume, and reading the same
  entry again from the resulting state gives the same value.  The walk of \<open>libresd_fat_seek\<close>
  always returns: each round either moves into the current cluster's remainder or uses up
  at least one byte of the distance to the target.
\<close>

lemma read_entry_load_keeps:
  "read_entry_load fat sec = (ok, fat1) \<Longrightarrow>
     cluster_size fat1 = cluster_size fat \<and> fs_type fat1 = fs_type fat
     \<and> fat_start_sector fat1 = fat_start_sector fat"
  by (auto simp add: read_entry_load_def split: if_splits prod.splits)

lemma read_entry_keeps:
  "libresd_fat_read_entry fat c = (v, fat1) \<Longrightarrow>
     cluster_size fat1 = cluster_size fat \<and> fs_type fat1 = fs_type fat
     \<and> fat_start_sector fat1 = fat_start_sector fat"
  apply (cases "fs_type fat")
  apply (auto simp add: libresd_fat_read_entry_def Let_def split: if_splits prod.splits dest!: read_entry_load_keeps)
  done

lemma next_cluster_keeps:
  "libresd_fat_next_cluster fat c = (v, fat1) \<Longrightarrow>
     cluster_size fat1 = cluster_size fat \<and> fs_type fat1 = fs_type fat"
  by (auto simp add: libresd_fat_next_cluster_def split: if_splits prod.splits dest!: read_entry_keeps)


lemma read_sector_card:
  "libresd_sd_read_sector s sec buf = (e, s1, b) \<Longrightarrow>
     initialized s1 = initialized s \<and> block_addr s1 = block_addr s \<and> hal s1 = hal s"
  by (auto simp add: libresd_sd_read_sector_def Let_def split: if_splits)

lemma read_sector_same_card:
  "initialized s1 = initialized s \<Longrightarrow> block_addr s1 = block_addr s \<Longrightarrow> hal s1 = hal s \<Longrightarrow>
     fst (libresd_sd_read_sector s1 sec buf') = fst (libresd_sd_read_sector s sec buf)
     \<and> (fst (libresd_sd_read_sector s sec buf) = LIBRESD_OK \<longrightarrow>
          snd (snd (libresd_sd_read_sector s1 sec buf'))
            = snd (snd (libresd_sd_read_sector s sec buf)))"
  by (simp add: libresd_sd_read_sector_def Let_def)

lemma read_sector_again:
  "libresd_sd_read_sector s sec buf = (e, s1, b) \<Longrightarrow>
     fst (libresd_sd_read_sector s1 sec buf') = e
     \<and> (e = LIBRESD_OK \<longrightarrow> snd (snd (libresd_sd_read_sector s1 sec buf')) = b)"
  using read_sector_card [of s sec buf e s1 b]
    read_sector_same_card [of s1 s sec buf' buf]
  by simp

lemma read_entry_load_again:
  "read_entry_load fat sec = (ok, fat1) \<Longrightarrow>
     (ok \<longrightarrow> read_entry_load fat1 sec = (True, fat1))
     \<and> (\<not> ok \<longrightarrow> fst (read_entry_load fat1 sec) = False)"
proof (cases "fat_buffer_sector fat \<noteq> sec")
  case False
  assume "read_entry_load fat sec = (ok, fat1)"
  with False show ?thesis by (simp add: read_entry_load_def)
next
  case True
  assume a: "read_entry_load fat sec = (ok, fat1)"
  obtain e s1 b where r: "libresd_sd_read_sector (sd fat) sec (fat_buffer fat) = (e, s1, b)"
    by (metis prod_cases3)
  from read_sector_again [OF r, of "fat_buffer fat"]
  have again: "fst (libresd_sd_read_sector s1 sec (fat_buffer fat)) = e" by simp
  show ?thesis
  proof (cases "e = LIBRESD_OK")
    case True
    with a r \<open>fat_buffer_sector fat \<noteq> sec\<close> show ?thesis
      by (auto simp add: read_entry_load_def)
  next
    case False
    with a r \<open>fat_buffer_sector fat \<noteq> sec\<close> again show ?thesis
      by (auto simp add: read_entry_load_def split: prod.splits)
  qed
qed

lemma read_entry_load_hit:
  "read_entry_load fat sec = (True, fat1) \<Longrightarrow> fat_buffer_sector fat1 = sec"
  by (auto simp add: read_entry_load_def split: if_splits prod.splits)

lemma read_entry_again:
  "libresd_fat_read_entry fat c = (v, fat1) \<Longrightarrow> fst (libresd_fat_read_entry fat1 c) = v"
proof -
  assume a: "libresd_fat_read_entry fat c = (v, fat1)"
  show ?thesis
  proof (cases "fs_type fat")
    case LIBRESD_FS_NONE
    with a show ?thesis by (auto simp add: libresd_fat_read_entry_def)
  next
    case LIBRESD_FS_EXFAT
    with a show ?thesis by (auto simp add: libresd_fat_read_entry_def)
  next
    case LIBRESD_FS_FAT16
    let ?sec = "fat_start_sector fat + (c * 2 div 512)"
    obtain ok fatL where l: "read_entry_load fat ?sec = (ok, fatL)" by fastforce
    note k = read_entry_load_keeps [OF l] and ag = read_entry_load_again [OF l]
    from a l LIBRESD_FS_FAT16 k ag show ?thesis
      by (cases ok) (auto simp add: libresd_fat_read_entry_def Let_def split: prod.splits)
  next
    case LIBRESD_FS_FAT32
    let ?sec = "fat_start_sector fat + (c * 4 div 512)"
    obtain ok fatL where l: "read_entry_load fat ?sec = (ok, fatL)" by fastforce
    note k = read_entry_load_keeps [OF l] and ag = read_entry_load_again [OF l]
    from a l LIBRESD_FS_FAT32 k ag show ?thesis
      by (cases ok) (auto simp add: libresd_fat_read_entry_def Let_def split: prod.splits)
  next
    case LIBRESD_FS_FAT12
    let ?sec = "fat_start_sector fat + ((c + c div 2) div 512)"
    obtain ok fatL where l: "read_entry_load fat ?sec = (ok, fatL)" by fastforce
    note k = read_entry_load_keeps [OF l] and ag = read_entry_load_again [OF l]
    show ?thesis
    proof (cases ok)
      case False
      with a l LIBRESD_FS_FAT12 k ag show ?thesis
        by (auto simp add: libresd_fat_read_entry_def Let_def split: prod.splits)
    next
      case True
      note ok = True
      show ?thesis
      proof (cases "unat ((c + c div 2) mod 512) = 511")
        case False
        with ok a l LIBRESD_FS_FAT12 k ag show ?thesis
          by (auto simp add: libresd_fat_read_entry_def Let_def split: prod.splits)
      next
        case True
        obtain e s2 tmp where r: "libresd_sd_read_sector (sd fatL) (?sec + 1) (\<lambda>_. 0) = (e, s2, tmp)"
          by (metis prod_cases3)
        have l2: "read_entry_load (fatL\<lparr>sd := s2\<rparr>) ?sec = (True, fatL\<lparr>sd := s2\<rparr>)"
          using read_entry_load_hit [of fat ?sec fatL] l ok by (simp add: read_entry_load_def)
        from read_sector_again [OF r, of "\<lambda>_. 0"]
        have r2: "fst (libresd_sd_read_sector s2 (?sec + 1) (\<lambda>_. 0)) = e"
          "e = LIBRESD_OK \<longrightarrow> snd (snd (libresd_sd_read_sector s2 (?sec + 1) (\<lambda>_. 0))) = tmp"
          by simp_all
        from a l ok True r LIBRESD_FS_FAT12 have f1: "fat1 = fatL\<lparr>sd := s2\<rparr>"
          by (auto simp add: libresd_fat_read_entry_def Let_def split: if_splits)
        show ?thesis
          unfolding f1 using a l ok True r LIBRESD_FS_FAT12 k l2 r2
          by (auto simp add: libresd_fat_read_entry_def Let_def split: prod.splits if_splits)
      qed
    qed
  qed
qed

lemma next_cluster_again:
  "libresd_fat_next_cluster fat c = (v, fat1) \<Longrightarrow> fst (libresd_fat_next_cluster fat1 c) = v"
proof -
  assume a: "libresd_fat_next_cluster fat c = (v, fat1)"
  obtain x fatx where r: "libresd_fat_read_entry fat c = (x, fatx)" by fastforce
  obtain y faty where r2: "libresd_fat_read_entry fatx c = (y, faty)" by fastforce
  from read_entry_again [OF r] r2 have "y = x" by simp
  moreover note read_entry_keeps [OF r] read_entry_keeps [OF r2]
  ultimately show ?thesis using a r r2
    by (auto simp add: libresd_fat_next_cluster_def libresd_fat_is_eoc_def split: if_splits)
qed

lemma seek_walk_result:
  "cluster_size fat \<noteq> 0 \<Longrightarrow> position fl \<le> np \<Longrightarrow>
   \<exists>fat' fl'. seek_walk fat fl np = Some (fat', fl') \<and> walk_ok fat fl np fat' fl'"
proof (induction "2 * (unat np - unat (position fl)) + (if cluster_offset fl = 0 then 0 else 1 :: nat)"
    arbitrary: fat fl rule: less_induct)
  case less
  note cs = less.prems(1) and le = less.prems(2)
  show ?case
  proof (cases "position fl < np \<and> current_cluster fl \<ge> 2")
    case False
    then have "seek_walk fat fl np = Some (fat, fl)"
      by (subst seek_walk.simps) (rule if_not_P)
    moreover from False le have "position fl = np \<or> current_cluster fl < 2"
      by (auto simp add: word_le_nat_alt word_less_nat_alt word_unat_eq_iff)
    ultimately show ?thesis using le by (auto simp add: walk_ok_def)
  next
    case True
    then have lt: "position fl < np" and cc: "current_cluster fl \<ge> 2" by simp_all
    let ?rem = "cluster_size fat - cluster_offset fl"
    let ?adv = "np - position fl"
    have advn: "unat ?adv = unat np - unat (position fl)"
      using le by (simp add: unat_sub)
    have dpos: "0 < unat np - unat (position fl)"
      using lt by (simp add: word_less_nat_alt)
    show ?thesis
    proof (cases "?adv \<ge> ?rem")
      case False
      let ?f2 = "fl\<lparr>position := np, cluster_offset := cluster_offset fl + ?adv\<rparr>"
      have step: "seek_walk fat fl np = seek_walk fat ?f2 np"
        using True False by (subst seek_walk.simps) (simp add: Let_def)
      have "\<not> (position ?f2 < np \<and> current_cluster ?f2 \<ge> 2)" by simp
      then have "seek_walk fat ?f2 np = Some (fat, ?f2)"
        by (subst seek_walk.simps) (rule if_not_P)
      with step show ?thesis by (simp add: walk_ok_def)
    next
      case True
      note far = True
      obtain nx fat1 where nc: "libresd_fat_next_cluster fat (current_cluster fl) = (nx, fat1)"
        by fastforce
      note k = next_cluster_keeps [OF nc]
      have remle: "unat ?rem \<le> unat np - unat (position fl)"
        using far advn by (simp add: word_le_nat_alt)
      have nowrap: "unat (position fl + ?rem) = unat (position fl) + unat ?rem"
        using remle le by (intro unat_add_nowrap [of _ _ np]) (simp add: word_le_nat_alt)
      have newle: "position fl + ?rem \<le> np"
        using nowrap remle le by (simp add: word_le_nat_alt)
      show ?thesis
      proof (cases "nx = 0")
        case True
        let ?f1 = "fl\<lparr>position := position fl + ?rem, cluster_offset := 0\<rparr>"
        have "seek_walk fat fl np = Some (fat1, ?f1)"
          using lt cc far nc True by (subst seek_walk.simps) (simp add: Let_def)
        moreover have "fst (libresd_fat_next_cluster fat1 (current_cluster fl)) = 0"
          using next_cluster_again [OF nc] True by simp
        ultimately show ?thesis using newle k by (simp add: walk_ok_def)
      next
        case False
        let ?f1 = "fl\<lparr>current_cluster := nx, position := position fl + ?rem, cluster_offset := 0\<rparr>"
        have step: "seek_walk fat fl np = seek_walk fat1 ?f1 np"
          using lt cc far nc False by (subst seek_walk.simps) (simp add: Let_def)
        have "cluster_offset fl \<noteq> 0 \<or> 0 < unat ?rem"
        proof (cases "cluster_offset fl = 0")
          case True
          with cs have "?rem \<noteq> 0" by simp
          then show ?thesis by (simp add: unat_gt_0)
        qed simp
        then have dec: "2 * (unat np - unat (position ?f1)) + (if cluster_offset ?f1 = 0 then 0 else 1 :: nat)
            < 2 * (unat np - unat (position fl)) + (if cluster_offset fl = 0 then 0 else 1)"
          using nowrap remle dpos by auto
        have cs1: "cluster_size fat1 \<noteq> 0" using cs k by simp
        have le1: "position ?f1 \<le> np" using newle by simp
        from less.hyps [OF dec cs1 le1] obtain fat' fl'
          where r: "seek_walk fat1 ?f1 np = Some (fat', fl')" and w: "walk_ok fat1 ?f1 np fat' fl'"
          by blast
        from w k have "walk_ok fat fl np fat' fl'" by (simp add: walk_ok_def)
        with r step show ?thesis by simp
      qed
    qed
  qed
qed


lemma seek_walk_there:
  "position fl = np \<Longrightarrow> seek_walk fat fl np = Some (fat, fl)"
  by (subst seek_walk.simps) simp

lemma seek_as_walk:
  "is_open fl \<Longrightarrow> 0 \<le> sint n \<Longrightarrow>
     libresd_fat_seek fat fl n LIBRESD_SEEK_SET
       = (case seek_walk fat (seek_rewind fl (seek_clamp fl n)) (seek_clamp fl n) of
            None \<Rightarrow> None
          | Some (fat1, file2) \<Rightarrow> Some (LIBRESD_OK, fat1, file2))"
  by (simp add: libresd_fat_seek_def seek_target_def Let_def seek_clamp_def seek_rewind_def
      not_less)

lemma seek_walk_stays:
  "current_cluster fl < 2 \<Longrightarrow> seek_walk fat fl np = Some (fat, fl)"
proof -
  assume "current_cluster fl < 2"
  then have "\<not> (position fl < np \<and> current_cluster fl \<ge> 2)"
    by (simp add: not_le)
  then show ?thesis
    by (subst seek_walk.simps) (rule if_not_P)
qed

lemma div_cross:
  fixes c :: nat
  assumes "0 < c" "a \<le> c" "c - a < d"
  shows "(a + d - 1) div c = Suc ((d - (c - a) - 1) div c)"
proof -
  have "a + d - 1 = c + (d - (c - a) - 1)" using assms by simp
  moreover have "(c + (d - (c - a) - 1)) div c = Suc ((d - (c - a) - 1) div c)"
    using assms(1) by (simp add: div_add_self1)
  ultimately show ?thesis by simp
qed

lemma seek_walk_exact:
  "cluster_size fat \<noteq> 0 \<Longrightarrow> position fl < np \<Longrightarrow> 2 \<le> current_cluster fl \<Longrightarrow>
   cluster_offset fl \<le> cluster_size fat \<Longrightarrow>
   \<exists>fat' fl'. seek_walk fat fl np = Some (fat', fl')
     \<and> ((position fl' = np) = chain_covers fat (current_cluster fl) (crossings fat fl np))"
proof (induction "2 * (unat np - unat (position fl)) + (if cluster_offset fl = 0 then 0 else 1 :: nat)"
    arbitrary: fat fl rule: less_induct)
  case less
  note cs = less.prems(1) and lt = less.prems(2) and cc = less.prems(3) and ol = less.prems(4)
  let ?rem = "cluster_size fat - cluster_offset fl"
  let ?adv = "np - position fl"
  have le: "position fl \<le> np" using lt by simp
  have advn: "unat ?adv = unat np - unat (position fl)"
    using le by (simp add: unat_sub)
  have remn: "unat ?rem = unat (cluster_size fat) - unat (cluster_offset fl)"
    using ol by (simp add: unat_sub)
  have dpos: "0 < unat np - unat (position fl)"
    using lt by (simp add: word_less_nat_alt)
  have cpos: "0 < unat (cluster_size fat)"
    using cs by (simp add: unat_gt_0)
  have oln: "unat (cluster_offset fl) \<le> unat (cluster_size fat)"
    using ol by (simp add: word_le_nat_alt)
  show ?case
  proof (cases "?adv \<ge> ?rem")
    case False
    let ?f2 = "fl\<lparr>position := np, cluster_offset := cluster_offset fl + ?adv\<rparr>"
    have step: "seek_walk fat fl np = seek_walk fat ?f2 np"
      using lt cc False by (subst seek_walk.simps) (simp add: Let_def)
    have "\<not> (position ?f2 < np \<and> current_cluster ?f2 \<ge> 2)" by simp
    then have "seek_walk fat ?f2 np = Some (fat, ?f2)"
      by (subst seek_walk.simps) (rule if_not_P)
    moreover have "unat ?adv < unat ?rem"
      using False by (simp add: word_le_nat_alt)
    then have "crossings fat fl np = 0"
      using advn remn dpos by (simp add: crossings_def)
    ultimately show ?thesis using step by simp
  next
    case True
    note far = True
    obtain nx fat1 where nc: "libresd_fat_next_cluster fat (current_cluster fl) = (nx, fat1)"
      by fastforce
    note k = next_cluster_keeps [OF nc]
    have remle: "unat ?rem \<le> unat np - unat (position fl)"
      using far advn by (simp add: word_le_nat_alt)
    have nowrap: "unat (position fl + ?rem) = unat (position fl) + unat ?rem"
      using remle le by (intro unat_add_nowrap [of _ _ np]) (simp add: word_le_nat_alt)
    let ?f0 = "fl\<lparr>position := position fl + ?rem, cluster_offset := 0\<rparr>"
    let ?f1 = "fl\<lparr>current_cluster := nx, position := position fl + ?rem, cluster_offset := 0\<rparr>"
    have walk: "seek_walk fat fl np
        = (if nx = 0 then Some (fat1, ?f0) else seek_walk fat1 ?f1 np)"
      using lt cc far nc by (subst seek_walk.simps) (simp add: Let_def)
    show ?thesis
    proof (cases "unat ?rem = unat np - unat (position fl)")
      case True
      then have at: "position fl + ?rem = np"
        using nowrap le by (simp add: word_unat_eq_iff word_le_nat_alt)
      have "crossings fat fl np = 0"
        using True advn remn oln cpos by (simp add: crossings_def)
      moreover have "seek_walk fat1 ?f1 np = Some (fat1, ?f1)"
        using at by (intro seek_walk_there) simp
      ultimately show ?thesis using walk at by simp
    next
      case False
      then have more: "unat ?rem < unat np - unat (position fl)" using remle by simp
      have before: "position fl + ?rem < np"
        using nowrap more by (simp add: word_less_nat_alt)
      have adv1: "unat (np - (position fl + ?rem)) = unat np - unat (position fl) - unat ?rem"
        using before nowrap by (simp add: unat_sub word_le_nat_alt word_less_nat_alt)
      have cr: "crossings fat fl np = Suc (crossings fat1 ?f1 np)"
        using div_cross [OF cpos oln, of "unat np - unat (position fl)"] more remn advn adv1 k
        by (simp add: crossings_def)
      show ?thesis
      proof (cases "2 \<le> nx")
        case False
        then have nlt: "nx < 2" by (simp add: not_le)
        have "seek_walk fat1 ?f1 np = Some (fat1, ?f1)"
          using nlt by (intro seek_walk_stays) simp
        moreover have "position fl + ?rem \<noteq> np" using before by simp
        ultimately show ?thesis using walk cr nc False by simp
      next
        case True
        then have nz: "nx \<noteq> 0" by auto
        have "cluster_offset fl \<noteq> 0 \<or> 0 < unat ?rem"
        proof (cases "cluster_offset fl = 0")
          case True
          with cs have "?rem \<noteq> 0" by simp
          then show ?thesis by (simp add: unat_gt_0)
        qed simp
        then have dec: "2 * (unat np - unat (position ?f1)) + (if cluster_offset ?f1 = 0 then 0 else 1 :: nat)
            < 2 * (unat np - unat (position fl)) + (if cluster_offset fl = 0 then 0 else 1)"
          using nowrap remle dpos by auto
        have cs1: "cluster_size fat1 \<noteq> 0" using cs k by simp
        have lt1: "position ?f1 < np" using before by simp
        have cc1: "2 \<le> current_cluster ?f1" using True by simp
        have ol1: "cluster_offset ?f1 \<le> cluster_size fat1" by simp
        from less.hyps [OF dec cs1 lt1 cc1 ol1] obtain fat' fl'
          where r: "seek_walk fat1 ?f1 np = Some (fat', fl')"
            and e: "(position fl' = np) = chain_covers fat1 nx (crossings fat1 ?f1 np)"
          by auto
        show ?thesis using walk nz r e cr nc True by simp
      qed
    qed
  qed
qed

lemma vol_chain_fields:
  "fs_type vol_chain = LIBRESD_FS_FAT12" "cluster_count vol_chain = 2"
  "cluster_size vol_chain = 512" "fat_start_sector vol_chain = 1"
  "fat_buffer_sector vol_chain = 1"
  "fat_buffer vol_chain =
     bytes_at [(0, 0xF8), (1, 0xFF), (2, 0xFF), (3, 0x03), (4, 0xF0), (5, 0xFF)]"
  by (simp_all add: vol_chain_def plain_volume_fields)

lemma vol_chain_next:
  "libresd_fat_next_cluster vol_chain 2 = (3, vol_chain)"
  "libresd_fat_next_cluster vol_chain 3 = (0, vol_chain)"
  by (simp_all add: libresd_fat_next_cluster_def libresd_fat_is_eoc_def FAT12_EOC_def
      vol_chain_fields fat_eval_defs bytes_at_def)

section \<open>The allocator on a full volume\<close>

text \<open>
  On the full volume as mounted the scan of \<open>libresd_fat_alloc_cluster\<close> starts at
  \<open>last_alloc_cluster = 0\<close>.  It wraps from cluster 3 to cluster 2 and so never comes back
  to 0, the only value at which it gives up; every entry it reads is in use.
\<close>

lemma mount_full:
  "libresd_fat_mount (mount_init (good_sd full_disk)) (good_sd full_disk)
     = (LIBRESD_OK, plain_volume full_disk 1 1 2 LIBRESD_FS_FAT12)"
  by (simp add: mount_eval_defs plain_volume_def full_disk_def)

lemma vol_full_mounted_eq:
  "vol_full_mounted = plain_volume full_disk 1 1 2 LIBRESD_FS_FAT12"
  by (simp add: vol_full_mounted_def mounted_volume_def mount_full)

lemma read_entry_full:
  assumes "fs_type fat = LIBRESD_FS_FAT12" "fat_start_sector fat = 1"
    "fat_buffer_sector fat = 1" "fat_buffer fat = full_fat"
  shows "libresd_fat_read_entry fat 2 = (0xFFF, fat)" "libresd_fat_read_entry fat 3 = (0xFFF, fat)"
  using assms by (simp_all add: fat_eval_defs full_fat_def bytes_at_def Let_def)

lemma alloc_scan_cycle:
  assumes a: "alloc_scan fat start c = Some y"
  shows "\<not> (fs_type fat = LIBRESD_FS_FAT12 \<and> cluster_count fat = 2 \<and> fat_start_sector fat = 1
           \<and> fat_buffer_sector fat = 1 \<and> fat_buffer fat = full_fat
           \<and> start = 0 \<and> (c = 1 \<or> c = 2 \<or> c = 3))"
proof (rule alloc_scan.raw_induct
    [where P = "\<lambda>fat start c y.
       \<not> (fs_type fat = LIBRESD_FS_FAT12 \<and> cluster_count fat = 2 \<and> fat_start_sector fat = 1
           \<and> fat_buffer_sector fat = 1 \<and> fat_buffer fat = full_fat
           \<and> start = 0 \<and> (c = 1 \<or> c = 2 \<or> c = 3))", OF _ a])
  fix scan :: "libresd_fat_t \<Rightarrow> u32 \<Rightarrow> u32 \<Rightarrow> (u32 option \<times> libresd_fat_t) option"
    and fat start c y
  assume ih: "\<And>fat start c y. scan fat start c = Some y \<Longrightarrow>
       \<not> (fs_type fat = LIBRESD_FS_FAT12 \<and> cluster_count fat = 2 \<and> fat_start_sector fat = 1
           \<and> fat_buffer_sector fat = 1 \<and> fat_buffer fat = full_fat
           \<and> start = 0 \<and> (c = 1 \<or> c = 2 \<or> c = 3))"
    and body: "(let cluster1 = c + 1;
          cluster2 = if cluster_count fat + 2 \<le> cluster1 then 2 else cluster1
      in if cluster2 = start then Some (None, fat)
         else case libresd_fat_read_entry fat cluster2 of
              (v, fat1) \<Rightarrow>
                if v \<noteq> FAT_FREE then scan fat1 start cluster2
                else Some (Some cluster2, fat1)) = Some y"
  show "\<not> (fs_type fat = LIBRESD_FS_FAT12 \<and> cluster_count fat = 2 \<and> fat_start_sector fat = 1
           \<and> fat_buffer_sector fat = 1 \<and> fat_buffer fat = full_fat
           \<and> start = 0 \<and> (c = 1 \<or> c = 2 \<or> c = 3))"
  proof
    assume s: "fs_type fat = LIBRESD_FS_FAT12 \<and> cluster_count fat = 2 \<and> fat_start_sector fat = 1
           \<and> fat_buffer_sector fat = 1 \<and> fat_buffer fat = full_fat
           \<and> start = 0 \<and> (c = 1 \<or> c = 2 \<or> c = 3)"
    then have r: "libresd_fat_read_entry fat 2 = (0xFFF, fat)"
        "libresd_fat_read_entry fat 3 = (0xFFF, fat)"
      using read_entry_full [of fat] by simp_all
    from s have "c = 1 \<or> c = 2 \<or> c = 3" by simp
    then have "scan fat 0 2 = Some y \<or> scan fat 0 3 = Some y"
      using body s r by (auto simp add: Let_def FAT_FREE_def)
    then show False
    proof
      assume "scan fat 0 2 = Some y"
      from ih [OF this] s show False by simp
    next
      assume "scan fat 0 3 = Some y"
      from ih [OF this] s show False by simp
    qed
  qed
qed

lemma vol_full_mounted_fields:
  "fs_type vol_full_mounted = LIBRESD_FS_FAT12" "cluster_count vol_full_mounted = 2"
  "last_alloc_cluster vol_full_mounted = 0" "mounted vol_full_mounted"
  by (simp_all add: vol_full_mounted_eq plain_volume_fields)

lemma read_entry_full_1:
  "fst (libresd_fat_read_entry vol_full_mounted 1) = 0xFFF"
  "fs_type (snd (libresd_fat_read_entry vol_full_mounted 1)) = LIBRESD_FS_FAT12
   \<and> cluster_count (snd (libresd_fat_read_entry vol_full_mounted 1)) = 2
   \<and> fat_start_sector (snd (libresd_fat_read_entry vol_full_mounted 1)) = 1
   \<and> fat_buffer_sector (snd (libresd_fat_read_entry vol_full_mounted 1)) = 1
   \<and> fat_buffer (snd (libresd_fat_read_entry vol_full_mounted 1)) = full_fat"
  by (simp_all add: vol_full_mounted_eq fat_eval_defs plain_volume_fields full_disk_def
      full_fat_def bytes_at_def Let_def)

lemma alloc_scan_hangs:
  "alloc_scan vol_full_mounted 0 0 = None"
proof (cases "alloc_scan vol_full_mounted 0 0")
  case (Some y)
  let ?f1 = "snd (libresd_fat_read_entry vol_full_mounted 1)"
  have "alloc_scan vol_full_mounted 0 0 = alloc_scan ?f1 0 1"
    using read_entry_full_1(1)
    by (subst alloc_scan.simps)
      (simp add: Let_def FAT_FREE_def vol_full_mounted_fields split_beta word_le_nat_alt)
  with Some have "alloc_scan ?f1 0 1 = Some y" by simp
  from alloc_scan_cycle [OF this] read_entry_full_1(2) show ?thesis by simp
qed simp

lemma write_hangs:
  "libresd_fat_write vol_full_mounted file_new (\<lambda>_. 0x5A) 100 = None"
proof -
  have "libresd_fat_alloc_cluster vol_full_mounted 0 = None"
    by (simp add: libresd_fat_alloc_cluster_def alloc_eoc_def vol_full_mounted_fields
        alloc_scan_hangs)
  then have "write_first_cluster vol_full_mounted file_new = None"
    by (simp add: write_first_cluster_def file_new_def)
  then have "write_loop vol_full_mounted file_new (\<lambda>_. 0x5A) 100 0 = None"
    by (subst write_loop.simps) simp
  then show ?thesis
    by (simp add: libresd_fat_write_def file_new_def LIBRESD_WRITE_def)
qed


text \<open>
  When the allocator does return 0 on the first pass of the loop of \<open>libresd_fat_write\<close>,
  for a handle without cluster or for one at the end of the last cluster of its chain, the
  function returns Ok with \<open>bytes_written\<close> 0, which is less than the size asked for; and
  it never returns Full.
\<close>

lemma write_full_first_pass:
  assumes op: "is_open fl"
    and wr: "mode fl AND LIBRESD_WRITE \<noteq> 0 \<or> mode fl AND LIBRESD_APPEND \<noteq> 0"
    and sz: "0 < sz"
  shows "current_cluster fl < 2 \<Longrightarrow> libresd_fat_alloc_cluster fat 0 = Some (0, fatF) \<Longrightarrow>
           libresd_fat_write fat fl src sz = Some (LIBRESD_OK, Some 0, fatF, fl)"
    and "2 \<le> current_cluster fl \<Longrightarrow> cluster_size fat \<le> cluster_offset fl \<Longrightarrow>
         libresd_fat_next_cluster fat (current_cluster fl) = (0, fat1) \<Longrightarrow>
         libresd_fat_alloc_cluster fat1 (current_cluster fl) = Some (0, fatF) \<Longrightarrow>
           libresd_fat_write fat fl src sz = Some (LIBRESD_OK, Some 0, fatF, fl)"
proof -
  assume "current_cluster fl < 2" "libresd_fat_alloc_cluster fat 0 = Some (0, fatF)"
  then have "write_loop fat fl src sz 0 = Some (None, fatF, fl, 0)"
    using sz by (subst write_loop.simps) (simp add: write_first_cluster_def)
  then show "libresd_fat_write fat fl src sz = Some (LIBRESD_OK, Some 0, fatF, fl)"
    using op wr by (auto simp add: libresd_fat_write_def)
next
  assume a: "2 \<le> current_cluster fl" "cluster_size fat \<le> cluster_offset fl"
    "libresd_fat_next_cluster fat (current_cluster fl) = (0, fat1)"
    "libresd_fat_alloc_cluster fat1 (current_cluster fl) = Some (0, fatF)"
  then have "\<not> current_cluster fl < 2" by (simp add: word_le_nat_alt word_less_nat_alt)
  with a have "write_loop fat fl src sz 0 = Some (None, fatF, fl, 0)"
    using sz by (subst write_loop.simps) (simp add: write_first_cluster_def write_next_cluster_def)
  then show "libresd_fat_write fat fl src sz = Some (LIBRESD_OK, Some 0, fatF, fl)"
    using op wr by (auto simp add: libresd_fat_write_def)
qed

lemma write_never_full:
  assumes w: "libresd_fat_write fat fl src sz = Some (e, bw, fat', fl')"
  shows "e \<noteq> LIBRESD_ERR_FULL"
proof (cases "write_loop fat fl src sz 0")
  case None
  with w show ?thesis by (auto simp add: libresd_fat_write_def split: if_splits)
next
  case (Some res)
  obtain r fat2 fl2 tot2 where res: "res = (r, fat2, fl2, tot2)" by (metis prod_cases4)
  from write_loop_inv [OF Some [unfolded res]] have "r \<noteq> Some LIBRESD_ERR_FULL" by simp
  with w Some res show ?thesis
    by (cases r) (auto simp add: libresd_fat_write_def split: if_splits)
qed

lemma write_full_example:
  "libresd_fat_write vol_full file_new (\<lambda>_. 0x5A) 100
     = Some (LIBRESD_OK, Some 0, vol_full, file_new)"
  by (rule write_full_first_pass(1) [where fat = vol_full])
    (simp_all add: file_new_def LIBRESD_WRITE_def alloc_full)

section \<open>Evaluating the directory tree\<close>

text \<open>
  The volume with the directory tree mounts to the plain FAT12 layout; its directory
  sectors are written out byte by byte, so that scanning them is a matter of looking up
  list elements.
\<close>

lemma mount_tree:
  "libresd_fat_mount (mount_init (good_sd tree_disk)) (good_sd tree_disk)
     = (LIBRESD_OK, plain_volume tree_disk 1 3 1000 LIBRESD_FS_FAT12)"
  by (simp add: mount_eval_defs plain_volume_def tree_disk_def)

lemma vol_tree_eq: "vol_tree = plain_volume tree_disk 1 3 1000 LIBRESD_FS_FAT12"
  by (simp add: vol_tree_def mounted_volume_def mount_tree)

lemma replicate_8_4:
  "replicate 8 x = [x, x, x, x, x, x, x, x]" "replicate 4 x = [x, x, x, x]"
  by (simp_all add: numeral_eq_Suc)

lemma tree_root_bytes:
  "tree_root i = (if i < 128 then
     [65, 32, 32, 32, 32, 32, 32, 32, 32, 32, 32, 16, 0, 0, 0, 0, 0, 0, 0, 0, 0, 0, 0, 0, 0, 0, 2, 0, 0, 0, 0, 0,
      66, 45, 0, 50, 0, 48, 0, 50, 0, 52, 0, 15, 0, 216, 46, 0, 116, 0, 120, 0, 116, 0, 0, 0, 255, 255, 0, 0, 255, 255, 255, 255,
      1, 97, 0, 110, 0, 110, 0, 117, 0, 97, 0, 15, 0, 216, 108, 0, 45, 0, 114, 0, 101, 0, 112, 0, 111, 0, 0, 0, 114, 0, 116, 0,
      65, 78, 78, 85, 65, 76, 126, 49, 84, 88, 84, 32, 0, 0, 0, 0, 0, 0, 0, 0, 0, 0, 0, 0, 0, 0, 4, 0, 3, 0, 0, 0] ! i
     else 0)"
  by (simp add: tree_root_def entries_def dirent_def lfn_entry_def cstr_def replicate_8_4)

lemma tree_dir_A_bytes:
  "tree_dir_A i = (if i < 96 then
     [46, 32, 32, 32, 32, 32, 32, 32, 32, 32, 32, 16, 0, 0, 0, 0, 0, 0, 0, 0, 0, 0, 0, 0, 0, 0, 2, 0, 0, 0, 0, 0,
      46, 46, 32, 32, 32, 32, 32, 32, 32, 32, 32, 16, 0, 0, 0, 0, 0, 0, 0, 0, 0, 0, 0, 0, 0, 0, 0, 0, 0, 0, 0, 0,
      66, 32, 32, 32, 32, 32, 32, 32, 32, 32, 32, 16, 0, 0, 0, 0, 0, 0, 0, 0, 0, 0, 0, 0, 0, 0, 3, 0, 0, 0, 0, 0] ! i
     else 0)"
  by (simp add: tree_dir_A_def entries_def dirent_def cstr_def replicate_8_4)

lemma tree_dir_B_bytes:
  "tree_dir_B i = (if i < 64 then
     [46, 32, 32, 32, 32, 32, 32, 32, 32, 32, 32, 16, 0, 0, 0, 0, 0, 0, 0, 0, 0, 0, 0, 0, 0, 0, 3, 0, 0, 0, 0, 0,
      46, 46, 32, 32, 32, 32, 32, 32, 32, 32, 32, 16, 0, 0, 0, 0, 0, 0, 0, 0, 0, 0, 0, 0, 0, 0, 2, 0, 0, 0, 0, 0] ! i
     else 0)"
  by (simp add: tree_dir_B_def entries_def dirent_def cstr_def replicate_8_4)

lemma replicate_128:
  "replicate 128 x =
     [x, x, x, x, x, x, x, x, x, x, x, x, x, x, x, x, x, x, x, x, x, x, x, x, x, x, x, x, x, x, x, x,
      x, x, x, x, x, x, x, x, x, x, x, x, x, x, x, x, x, x, x, x, x, x, x, x, x, x, x, x, x, x, x, x,
      x, x, x, x, x, x, x, x, x, x, x, x, x, x, x, x, x, x, x, x, x, x, x, x, x, x, x, x, x, x, x, x,
      x, x, x, x, x, x, x, x, x, x, x, x, x, x, x, x, x, x, x, x, x, x, x, x, x, x, x, x, x, x, x, x]"
  by (simp add: numeral_eq_Suc)

lemmas readdir_eval = libresd_fat_readdir_def readdir_loop.simps readdir_next_sector_def
  readdir_info_def fat_name_to_str_def tolower_c_def DIRENT_END_def DIRENT_FREE_def
  DIRENT_KANJI_def LIBRESD_ATTR_LFN_def LIBRESD_ATTR_VOLUME_ID_def READ16_def READ32_def
  Let_def upt_rec lfn_collect_def lfn_store_def lfn_slots_def

text \<open>
  \<open>libresd_fat_readdir\<close> on the root sector: the directory \<open>a\<close>; then, across the two
  long-name entries, the file under its long name; then the end of the directory.
\<close>

lemma readdir_root_0:
  "libresd_fat_readdir fat
     \<lparr>dir_is_open = True, dir_first_cluster = c, dir_current_cluster = c', current_sector = s,
      entry_offset = 0, dir_buffer = tree_root\<rparr>
   = Some (LIBRESD_OK, fat,
       \<lparr>dir_is_open = True, dir_first_cluster = c, dir_current_cluster = c', current_sector = s,
        entry_offset = 32, dir_buffer = tree_root\<rparr>,
       Some \<lparr>info_name = [0x61], info_size = 0, info_attr = 0x10,
             created = fat_datetime 0 0, modified = fat_datetime 0 0, accessed = zero_datetime,
             info_first_cluster = 2, info_dir_sector = s, info_dir_offset = 0\<rparr>)"
  by (simp add: readdir_eval tree_root_bytes)

lemma readdir_root_32:
  "libresd_fat_readdir fat
     \<lparr>dir_is_open = True, dir_first_cluster = c, dir_current_cluster = c', current_sector = s,
      entry_offset = 32, dir_buffer = tree_root\<rparr>
   = Some (LIBRESD_OK, fat,
       \<lparr>dir_is_open = True, dir_first_cluster = c, dir_current_cluster = c', current_sector = s,
        entry_offset = 128, dir_buffer = tree_root\<rparr>,
       Some \<lparr>info_name = cstr ''annual-report-2024.txt'', info_size = 3, info_attr = 0x20,
             created = fat_datetime 0 0, modified = fat_datetime 0 0, accessed = zero_datetime,
             info_first_cluster = 4, info_dir_sector = s, info_dir_offset = 96\<rparr>)"
  by (simp add: readdir_eval tree_root_bytes cstr_def replicate_128)

lemma readdir_root_128:
  "libresd_fat_readdir fat
     \<lparr>dir_is_open = True, dir_first_cluster = c, dir_current_cluster = c', current_sector = s,
      entry_offset = 128, dir_buffer = tree_root\<rparr>
   = Some (LIBRESD_ERR_EOF, fat,
       \<lparr>dir_is_open = True, dir_first_cluster = c, dir_current_cluster = c', current_sector = s,
        entry_offset = 160, dir_buffer = tree_root\<rparr>, None)"
  by (simp add: readdir_eval tree_root_bytes)

lemmas resolve_eval = fat_resolve_path_def resolve_loop.simps resolve_search.simps
  dir_load_def dir_at_def root_of_def strcasecmp_eq_def no_out_def cstr_def
  LIBRESD_ATTR_DIRECTORY_def libresd_fat_cluster_to_sector_def

lemmas tree_eval = vol_tree_eq plain_volume_fields tree_disk_def tree_root_bytes
  tree_dir_A_bytes tree_dir_B_bytes libresd_sd_read_sector_def libresd_sd_cmd_def
  SD_TOKEN_SINGLE_def replicate_128


lemmas mkdir_eval = libresd_fat_mkdir_def libresd_fat_exists_def libresd_fat_create_file_def
  split_path_def last_index_def str_to_fat_name_def toupper_c_def create_scan.simps
  create_next_sector_def create_entry_def put_bytes_def libresd_fat_alloc_cluster_def
  alloc_eoc_def alloc_scan.simps mkdir_set_cluster_def mkdir_undo_def
  LIBRESD_ATTR_ARCHIVE_def LIBRESD_FAT_DATE_def LIBRESD_FAT_TIME_def clock_def WRITE16_def
  FAT_FREE_def fat_eval_defs tree_fat_def bytes_at_def

section \<open>What unlink and mkdir write\<close>


lemma write_sector_ok:
  "libresd_sd_write_sector s sec b = (LIBRESD_OK, s1) \<Longrightarrow>
     blocks (hal s1) = (blocks (hal s))(sd_addr s sec := b) \<and> block_addr s1 = block_addr s"
  by (simp add: libresd_sd_write_sector_def sd_addr_def Let_def split: if_splits) auto

lemma sd_addr_same:
  "block_addr s1 = block_addr s \<Longrightarrow> sd_addr s1 = sd_addr s"
  by (simp add: sd_addr_def fun_eq_iff)

lemma times_512_inj:
  fixes x y :: u32
  assumes "unat x < 2 ^ 23" "unat y < 2 ^ 23" "x * 512 = y * 512"
  shows "x = y"
proof -
  have "unat (x * 512) = unat x * 512" "unat (y * 512) = unat y * 512"
    using assms(1,2) by (simp_all add: unat_word_ariths)
  with assms(3) have "unat x * 512 = unat y * 512" by simp
  then show ?thesis by (simp add: word_unat_eq_iff)
qed

lemma sd_addr_inj:
  assumes "unat x < 2 ^ 23" "unat y < 2 ^ 23" "sd_addr s (sec + x) = sd_addr s (sec + y)"
  shows "x = y"
proof (cases "block_addr s")
  case True
  with assms(3) show ?thesis by (simp add: sd_addr_def)
next
  case False
  with assms(3) have "(sec + x) * 512 = (sec + y) * 512" by (simp add: sd_addr_def)
  then have "x * 512 = y * 512" by (simp add: distrib_right)
  with assms(1,2) show ?thesis by (rule times_512_inj)
qed

lemma unat_step:
  fixes i :: u32
  assumes "unat i + 1 + j \<le> 256"
  shows "unat (i + 1 + of_nat j) = unat i + 1 + j"
proof -
  have "unat (of_nat j :: u32) = j" using assms by (simp add: unat_of_nat)
  moreover have "unat (i + 1) = unat i + 1" using assms by (simp add: unat_word_ariths)
  ultimately show ?thesis using assms by (simp add: unat_word_ariths)
qed

lemma mkdir_write_cluster_blocks:
  "mkdir_write_cluster s sec buf i n = (LIBRESD_OK, s') \<Longrightarrow> unat i + n \<le> 256 \<Longrightarrow>
     block_addr s' = block_addr s
     \<and> (\<forall>j<n. blocks (hal s') (sd_addr s (sec + (i + of_nat j)))
                 = (if i + of_nat j = 0 then buf else (\<lambda>_. 0)))
     \<and> (\<forall>a. (\<forall>j<n. a \<noteq> sd_addr s (sec + (i + of_nat j)))
             \<longrightarrow> blocks (hal s') a = blocks (hal s) a)"
proof (induction n arbitrary: s i)
  case 0
  then show ?case by simp
next
  case (Suc n)
  let ?b = "if i = 0 then buf else (\<lambda>_. 0)"
  obtain err s1 where w: "libresd_sd_write_sector s (sec + i) ?b = (err, s1)"
    by fastforce
  from Suc.prems(1) w have e: "err = LIBRESD_OK"
    by (auto split: if_splits)
  from Suc.prems(1) w e have rec: "mkdir_write_cluster s1 sec buf (i + 1) n = (LIBRESD_OK, s')"
    by simp
  note wk = write_sector_ok [OF w [unfolded e]]
  have same: "sd_addr s1 = sd_addr s"
    using wk by (intro sd_addr_same) simp
  have ui: "unat (i + 1) = unat i + 1"
    using Suc.prems(2) by (simp add: unat_word_ariths)
  have bound: "unat (i + 1) + n \<le> 256"
    using Suc.prems(2) ui by simp
  note ih = Suc.IH [OF rec bound, unfolded same]
  have later: "sd_addr s (sec + i) \<noteq> sd_addr s (sec + (i + 1 + of_nat j))" if "j < n" for j
  proof
    assume eq: "sd_addr s (sec + i) = sd_addr s (sec + (i + 1 + of_nat j))"
    have u: "unat (i + 1 + of_nat j) = unat i + 1 + j"
      using that Suc.prems(2) by (intro unat_step) simp
    have "i = i + 1 + of_nat j"
      using eq u Suc.prems(2) that by (intro sd_addr_inj [of i _ s sec]) simp_all
    with u show False by simp
  qed
  have first: "blocks (hal s') (sd_addr s (sec + i)) = ?b"
  proof -
    have "blocks (hal s') (sd_addr s (sec + i)) = blocks (hal s1) (sd_addr s (sec + i))"
      using ih later by blast
    then show ?thesis using wk by simp
  qed
  have p1: "block_addr s' = block_addr s"
    using ih wk by simp
  have p2: "blocks (hal s') (sd_addr s (sec + (i + of_nat j)))
                 = (if i + of_nat j = 0 then buf else (\<lambda>_. 0))" if "j < Suc n" for j
  proof (cases j)
    case 0
    then show ?thesis using first by simp
  next
    case (Suc k)
    with that have "k < n" by simp
    have eq: "i + of_nat (Suc k) = i + 1 + of_nat k" by simp
    from \<open>k < n\<close> ih have "blocks (hal s') (sd_addr s (sec + (i + 1 + of_nat k)))
                 = (if i + 1 + of_nat k = 0 then buf else (\<lambda>_. 0))"
      by blast
    then show ?thesis unfolding Suc eq .
  qed
  have p3: "blocks (hal s') a = blocks (hal s) a"
    if "\<forall>j<Suc n. a \<noteq> sd_addr s (sec + (i + of_nat j))" for a
  proof -
    from that have a0: "a \<noteq> sd_addr s (sec + i)" by (drule_tac x = 0 in spec) simp
    have "a \<noteq> sd_addr s (sec + (i + 1 + of_nat k))" if "k < n" for k
    proof -
      from \<open>\<forall>j<Suc n. a \<noteq> sd_addr s (sec + (i + of_nat j))\<close> that
      have ne: "a \<noteq> sd_addr s (sec + (i + of_nat (Suc k)))" by (drule_tac x = "Suc k" in spec) simp
      have eq: "i + of_nat (Suc k) = i + 1 + of_nat k" by simp
      from ne show ?thesis unfolding eq .
    qed
    with ih have "blocks (hal s') a = blocks (hal s1) a" by blast
    then show ?thesis using wk a0 by simp
  qed
  show ?case using p1 p2 p3 by blast
qed

lemma alloc_last:
  "libresd_fat_alloc_cluster fat p = Some (c, fat3) \<Longrightarrow> c \<noteq> 0 \<Longrightarrow>
     last_alloc_cluster fat3 = c \<and> sectors_per_cluster fat3 = sectors_per_cluster fat3"
  by (auto simp add: libresd_fat_alloc_cluster_def split: option.splits prod.splits if_splits)

lemma mkdir_sector_dot:
  "map (mkdir_sector c dt) [0..<12]
     = [0x2E, 0x20, 0x20, 0x20, 0x20, 0x20, 0x20, 0x20, 0x20, 0x20, 0x20, 0x10]"
  "map (mkdir_sector c dt) [32..<44]
     = [0x2E, 0x2E, 0x20, 0x20, 0x20, 0x20, 0x20, 0x20, 0x20, 0x20, 0x20, 0x10]"
  "map (mkdir_sector c dt) [20, 21, 26, 27]
     = [ucast (drop_bit 16 c AND 0xFF), ucast (drop_bit 24 c AND 0xFF),
        ucast (c AND 0xFF), ucast (drop_bit 8 c AND 0xFF)]"
  "map (mkdir_sector c dt) [52, 53, 58, 59] = [0, 0, 0, 0]"
  "64 \<le> i \<Longrightarrow> mkdir_sector c dt i = 0"
  by (simp_all add: mkdir_sector_def WRITE16_def put_bytes_def Let_def upt_rec
      LIBRESD_ATTR_DIRECTORY_def and.assoc)

section \<open>The claims\<close>

text \<open>
  C1 (the code at the failing input).  On the mounted FAT12 volume of 1000 clusters the
  entry of cluster 341 starts at byte 511 of the first FAT sector.  Writing \<open>0xABC\<close> to it
  succeeds, but reading it back gives \<open>0x00C\<close>: only the low nibble, kept in byte 511, was
  stored.  After a sync the first byte of the next FAT sector on the card is still 0.
\<close>

theorem C1_fat12_straddling_write:
  "mounted vol12 \<and> fs_type vol12 = LIBRESD_FS_FAT12 \<and> cluster_count vol12 = 1000
   \<and> fst (libresd_fat_write_entry vol12 341 0xABC) = LIBRESD_OK
   \<and> fst (libresd_fat_read_entry (snd (libresd_fat_write_entry vol12 341 0xABC)) 341) = 0x00C
   \<and> fst (libresd_fat_sync (snd (libresd_fat_write_entry vol12 341 0xABC))) = LIBRESD_OK
   \<and> blocks (hal (sd (snd (libresd_fat_sync
        (snd (libresd_fat_write_entry vol12 341 0xABC)))))) 2 0 = 0"
  by (simp add: vol12_eq fat_eval_defs plain_volume_fields disk_image_def)

text \<open>
  C3 (counterexample).  On the FAT16 volume with three FAT copies of 20 sectors each, the
  dirty buffer holds FAT sector 1 with byte 10 equal to \<open>0xFF\<close>.  Sync and unmount both
  succeed and write the buffer to sector 1 + 20, but sector 1 + 2 * 20 of the card still
  holds 0 at byte 10: the second mirror is not written.
\<close>

theorem C3_third_fat_copy_not_written:
  "mounted vol16_3fats \<and> num_fats vol16_3fats = 3 \<and> sectors_per_fat vol16_3fats = 20
   \<and> fat_buffer_dirty vol16_3fats \<and> fat_buffer_sector vol16_3fats = 1
   \<and> fat_buffer vol16_3fats 10 = 0xFF
   \<and> fst (libresd_fat_sync vol16_3fats) = LIBRESD_OK
   \<and> blocks (hal (sd (snd (libresd_fat_sync vol16_3fats)))) (1 + 1 * 20) 10 = 0xFF
   \<and> blocks (hal (sd (snd (libresd_fat_sync vol16_3fats)))) (1 + 2 * 20) 10 = 0
   \<and> fst (libresd_fat_unmount vol16_3fats) = LIBRESD_OK
   \<and> blocks (hal (sd (snd (libresd_fat_unmount vol16_3fats)))) (1 + 1 * 20) 10 = 0xFF
   \<and> blocks (hal (sd (snd (libresd_fat_unmount vol16_3fats)))) (1 + 2 * 20) 10 = 0"
  by (simp add: vol16_3fats_eq fat_eval_defs plain_volume_fields disk_image_def WRITE16_def)

text \<open>
  C3 (amended).  For every mounted volume with a dirty FAT sector buffer on a well-behaved
  card, sync and unmount succeed and change exactly these blocks of the card: the
  buffer's own sector in the primary FAT and, when there is more than one FAT copy, the
  same offset in the first additional copy (\<open>fat_buffer_sector + sectors_per_fat\<close>).  Sync
  clears the dirty flag, unmount clears the mounted flag.
\<close>

theorem C3_sync_unmount_first_mirror_only:
  assumes "mounted fat" and "fat_buffer_dirty fat" and "fat_buffer_sector fat \<noteq> 0xFFFFFFFF"
    and "card_works (sd fat)"
  shows "fst (libresd_fat_sync fat) = LIBRESD_OK
    \<and> fst (libresd_fat_unmount fat) = LIBRESD_OK
    \<and> blocks (hal (sd (snd (libresd_fat_sync fat)))) =
        (if num_fats fat > 1
         then ((blocks (hal (sd fat)))
                 (sd_addr (sd fat) (fat_buffer_sector fat) := fat_buffer fat))
                 (sd_addr (sd fat) (fat_buffer_sector fat + sectors_per_fat fat)
                    := fat_buffer fat)
         else (blocks (hal (sd fat)))
                 (sd_addr (sd fat) (fat_buffer_sector fat) := fat_buffer fat))
    \<and> blocks (hal (sd (snd (libresd_fat_unmount fat)))) =
        blocks (hal (sd (snd (libresd_fat_sync fat))))
    \<and> \<not> fat_buffer_dirty (snd (libresd_fat_sync fat))
    \<and> \<not> mounted (snd (libresd_fat_unmount fat))"
  using assms
  by (simp add: libresd_fat_sync_def libresd_fat_unmount_def write_sector_works Let_def
      card_works_def)

lemma vol16_3fats_fields:
  "mounted vol16_3fats" "fat_buffer_dirty vol16_3fats" "fat_buffer_sector vol16_3fats = 1"
  "num_fats vol16_3fats = 3" "sectors_per_fat vol16_3fats = 20"
  "card_works (sd vol16_3fats)" "block_addr (sd vol16_3fats)"
  "blocks (hal (sd vol16_3fats)) = disk_image 3 20 5000"
  by (simp_all add: vol16_3fats_eq fat_eval_defs plain_volume_fields
      card_works_def hal_works_def)

theorem C3_sync_unmount_witness:
  "blocks (hal (sd (snd (libresd_fat_sync vol16_3fats)))) =
     (disk_image 3 20 5000)(1 := fat_buffer vol16_3fats, 21 := fat_buffer vol16_3fats)
   \<and> blocks (hal (sd (snd (libresd_fat_unmount vol16_3fats)))) =
     (disk_image 3 20 5000)(1 := fat_buffer vol16_3fats, 21 := fat_buffer vol16_3fats)
   \<and> fst (libresd_fat_sync vol16_3fats) = LIBRESD_OK
   \<and> fst (libresd_fat_unmount vol16_3fats) = LIBRESD_OK"
  using C3_sync_unmount_first_mirror_only [of vol16_3fats]
  by (simp add: vol16_3fats_fields sd_addr_def)

text \<open>
  C4.  Whenever mount succeeds, the volume is FAT12 exactly when its cluster count is below
  4085, FAT16 exactly when it is at least 4085 and below 65525, and FAT32 exactly when it
  is at least 65525.
\<close>

lemma mount_layout_fat_type:
  "fat = mount_layout partition_start buf fat1 \<Longrightarrow>
   mounted fat
    \<and> (fs_type fat = LIBRESD_FS_FAT12) = (cluster_count fat < 4085)
    \<and> (fs_type fat = LIBRESD_FS_FAT16)
        = (4085 \<le> cluster_count fat \<and> cluster_count fat < 65525)
    \<and> (fs_type fat = LIBRESD_FS_FAT32) = (65525 \<le> cluster_count fat)"
proof -
  assume f: "fat = mount_layout partition_start buf fat1"
  define count where
    "count = (total_sectors fat1
                - (partition_start + ucast (reserved_sectors fat1)
                   + (ucast (num_fats fat1) * sectors_per_fat fat1)
                   + ((ucast (root_entry_count fat1) * 32) + 511) div (512 :: u32))
                + partition_start) div ucast (sectors_per_cluster fat1)"
  consider "count < 4085" | "\<not> count < 4085" "count < 65525" | "\<not> count < 65525"
    by blast
  then show ?thesis
  proof cases
    case 1
    then have "\<not> 65525 \<le> count" "\<not> 4085 \<le> count"
      by (simp_all add: word_less_def word_le_def)
    with 1 show ?thesis
      unfolding f mount_layout_def Let_def count_def [symmetric] by simp
  next
    case 2
    then have "\<not> 65525 \<le> count" "4085 \<le> count"
      by (simp_all add: word_less_def word_le_def)
    with 2 show ?thesis
      unfolding f mount_layout_def Let_def count_def [symmetric] by simp
  next
    case 3
    then have "65525 \<le> count" "\<not> count < 4085"
      by (simp_all add: word_less_def word_le_def)
    with 3 show ?thesis
      unfolding f mount_layout_def Let_def count_def [symmetric] by simp
  qed
qed

theorem C4_mount_fat_type:
  assumes "libresd_fat_mount fat0 sd0 = (LIBRESD_OK, fat)"
  shows "mounted fat
    \<and> (fs_type fat = LIBRESD_FS_FAT12) = (cluster_count fat < 4085)
    \<and> (fs_type fat = LIBRESD_FS_FAT16)
        = (4085 \<le> cluster_count fat \<and> cluster_count fat < 65525)
    \<and> (fs_type fat = LIBRESD_FS_FAT32) = (65525 \<le> cluster_count fat)"
proof -
  from assms obtain partition_start buf fat1
    where "fat = mount_layout partition_start buf fat1"
    unfolding libresd_fat_mount_def
    by (auto simp add: Let_def split: if_splits prod.splits sum.splits)
  then show ?thesis by (rule mount_layout_fat_type)
qed

lemma mount_boundary_volumes:
  "libresd_fat_mount (mount_init (good_sd (disk_image 1 1 4084))) (good_sd (disk_image 1 1 4084))
     = (LIBRESD_OK, plain_volume (disk_image 1 1 4084) 1 1 4084 LIBRESD_FS_FAT12)"
  "libresd_fat_mount (mount_init (good_sd (disk_image 1 1 4085))) (good_sd (disk_image 1 1 4085))
     = (LIBRESD_OK, plain_volume (disk_image 1 1 4085) 1 1 4085 LIBRESD_FS_FAT16)"
  "libresd_fat_mount (mount_init (good_sd (disk_image 1 1 65524))) (good_sd (disk_image 1 1 65524))
     = (LIBRESD_OK, plain_volume (disk_image 1 1 65524) 1 1 65524 LIBRESD_FS_FAT16)"
  "libresd_fat_mount (mount_init (good_sd (disk_image 1 1 65525))) (good_sd (disk_image 1 1 65525))
     = (LIBRESD_OK, plain_volume (disk_image 1 1 65525) 1 1 65525 LIBRESD_FS_FAT32)"
  by (simp_all add: mount_eval_defs plain_volume_def)

theorem C4_mount_fat_type_witness:
  "fst (libresd_fat_mount (mount_init (good_sd (disk_image 1 1 4084)))
          (good_sd (disk_image 1 1 4084))) = LIBRESD_OK
   \<and> cluster_count (mounted_volume (disk_image 1 1 4084)) = 4084
   \<and> fs_type (mounted_volume (disk_image 1 1 4084)) = LIBRESD_FS_FAT12
   \<and> cluster_count (mounted_volume (disk_image 1 1 4085)) = 4085
   \<and> fs_type (mounted_volume (disk_image 1 1 4085)) = LIBRESD_FS_FAT16
   \<and> cluster_count (mounted_volume (disk_image 1 1 65524)) = 65524
   \<and> fs_type (mounted_volume (disk_image 1 1 65524)) = LIBRESD_FS_FAT16
   \<and> cluster_count (mounted_volume (disk_image 1 1 65525)) = 65525
   \<and> fs_type (mounted_volume (disk_image 1 1 65525)) = LIBRESD_FS_FAT32
   \<and> mounted (mounted_volume (disk_image 1 1 4085))"
  using C4_mount_fat_type [OF mount_boundary_volumes(1)]
    C4_mount_fat_type [OF mount_boundary_volumes(2)]
    C4_mount_fat_type [OF mount_boundary_volumes(3)]
    C4_mount_fat_type [OF mount_boundary_volumes(4)]
  by (simp add: mounted_volume_def mount_boundary_volumes plain_volume_fields)

text \<open>
  C7 (counterexample).  The 10-byte file is open for reading and writing on the FAT12
  volume.  Seeking to 100 succeeds and leaves the position at 100 (write mode is not
  clamped, and cluster 2 has room); a read there returns Eof with 0 bytes and the position
  still exceeds the file size.  After seeking back to 0, writing one byte succeeds and
  leaves the file size at 10, below the position 100 that the handle had reached.
\<close>

theorem C7_counterexample:
  "libresd_fat_seek vol12 file_rw10 100 LIBRESD_SEEK_SET
     = Some (LIBRESD_OK, vol12, file_rw10\<lparr>position := 100, cluster_offset := 100\<rparr>)
   \<and> libresd_fat_read vol12 (file_rw10\<lparr>position := 100, cluster_offset := 100\<rparr>) 5
     = (LIBRESD_ERR_EOF, Some 0, [], vol12, file_rw10\<lparr>position := 100, cluster_offset := 100\<rparr>)
   \<and> file_size (file_rw10\<lparr>position := 100, cluster_offset := 100\<rparr>)
       < position (file_rw10\<lparr>position := 100, cluster_offset := 100\<rparr>)
   \<and> libresd_fat_seek vol12 (file_rw10\<lparr>position := 100, cluster_offset := 100\<rparr>) 0
        LIBRESD_SEEK_SET = Some (LIBRESD_OK, vol12, file_rw10)
   \<and> fst (the (libresd_fat_write vol12 file_rw10 (\<lambda>_. 0x5A) 1)) = LIBRESD_OK
   \<and> fst (snd (the (libresd_fat_write vol12 file_rw10 (\<lambda>_. 0x5A) 1))) = Some 1
   \<and> file_size (snd (snd (snd (the (libresd_fat_write vol12 file_rw10 (\<lambda>_. 0x5A) 1))))) = 10"
  by (simp add: seek100 seek_back) (simp add: file_eval_defs file_rw10_def vol12_eval)

text \<open>
  C7 (amended).  For every open file:
  a read by a handle open for reading whose position is at most the file size, with
  position + size below \<open>2^32\<close>, leaves the position at most the file size and the size
  unchanged; whenever a write returns, the file size has not shrunk, and the position is
  at most the file size if that held before the write or if at least one byte was
  written; and a read by a handle open for reading that begins at or after the file size
  returns Eof with 0 bytes transferred and changes nothing.
\<close>

theorem C7_position_and_size:
  "(is_open fl \<and> mode fl AND LIBRESD_READ \<noteq> 0 \<and> position fl \<le> file_size fl
      \<and> unat (position fl) + unat sz < 2 ^ 32
     \<longrightarrow> position (snd (snd (snd (snd (libresd_fat_read fat fl sz)))))
           \<le> file_size (snd (snd (snd (snd (libresd_fat_read fat fl sz)))))
         \<and> file_size (snd (snd (snd (snd (libresd_fat_read fat fl sz))))) = file_size fl)
   \<and> (libresd_fat_write fat fl src sz = Some (e, bw, fat', fl')
     \<longrightarrow> file_size fl \<le> file_size fl'
         \<and> (position fl \<le> file_size fl \<or> (\<exists>n. bw = Some n \<and> 0 < n)
              \<longrightarrow> position fl' \<le> file_size fl'))
   \<and> (is_open fl \<and> mode fl AND LIBRESD_READ \<noteq> 0 \<and> file_size fl \<le> position fl
     \<longrightarrow> libresd_fat_read fat fl sz = (LIBRESD_ERR_EOF, Some 0, [], fat, fl))"
proof (intro conjI impI)
  assume a: "is_open fl \<and> mode fl AND LIBRESD_READ \<noteq> 0 \<and> position fl \<le> file_size fl
      \<and> unat (position fl) + unat sz < 2 ^ 32"
  let ?res = "snd (snd (snd (snd (libresd_fat_read fat fl sz))))"
  have both: "position ?res \<le> file_size ?res \<and> file_size ?res = file_size fl"
  proof (cases "file_size fl \<le> position fl")
    case True
    with a show ?thesis by (simp add: libresd_fat_read_def)
  next
    case False
    let ?sz = "if position fl + sz > file_size fl then file_size fl - position fl else sz"
    obtain r fat1 f1 tot1 dst1 where rl: "read_loop fat fl ?sz 0 [] = (r, fat1, f1, tot1, dst1)"
      by (metis prod_cases5)
    have pl: "unat (position fl + sz) = unat (position fl) + unat sz"
      using a by (simp add: unat_word_ariths)
    have "unat (position fl) + unat ?sz \<le> unat (file_size fl)"
      using a pl by (auto simp add: word_less_nat_alt word_le_nat_alt unat_sub)
    from read_loop_position [OF rl this]
    have "position f1 \<le> file_size f1 \<and> file_size f1 = file_size fl" .
    moreover have "?res = f1"
      using a False rl by (cases r) (simp_all add: libresd_fat_read_def)
    ultimately show ?thesis by auto
  qed
  from both show "position ?res \<le> file_size ?res" by (rule conjunct1)
  from both show "file_size ?res = file_size fl" by (rule conjunct2)
next
  assume w: "libresd_fat_write fat fl src sz = Some (e, bw, fat', fl')"
  have cases3: "(e \<noteq> LIBRESD_OK \<and> bw = None \<and> fl' = fl)
      \<or> (\<exists>r tot'. write_loop fat fl src sz 0 = Some (r, fat', fl', tot')
            \<and> (bw = None \<or> bw = Some tot'))"
    using w by (auto simp add: libresd_fat_write_def split: if_splits option.splits)
  {
    show "file_size fl \<le> file_size fl'"
      using cases3 write_loop_inv [of fat fl src sz 0 _ fat' fl'] by auto
  next
    assume "position fl \<le> file_size fl \<or> (\<exists>n. bw = Some n \<and> 0 < n)"
    then show "position fl' \<le> file_size fl'"
      using cases3 write_loop_inv [of fat fl src sz 0 _ fat' fl'] by auto
  }
next
  assume "is_open fl \<and> mode fl AND LIBRESD_READ \<noteq> 0 \<and> file_size fl \<le> position fl"
  then show "libresd_fat_read fat fl sz = (LIBRESD_ERR_EOF, Some 0, [], fat, fl)"
    by (simp add: libresd_fat_read_def)
qed


theorem C7_position_and_size_witness:
  "position (snd (snd (snd (snd (libresd_fat_read vol12 file_rw10 5))))) = 5
   \<and> file_size (snd (snd (snd (snd (libresd_fat_read vol12 file_rw10 5))))) = 10
   \<and> position (snd (snd (snd (snd (libresd_fat_read vol12 file_rw10 5)))))
        \<le> file_size (snd (snd (snd (snd (libresd_fat_read vol12 file_rw10 5)))))
   \<and> (\<exists>bw fat' fl'. libresd_fat_write vol12 file_rw10 (\<lambda>_. 0x5A) 5
                        = Some (LIBRESD_OK, bw, fat', fl')
          \<and> bw = Some 5 \<and> position fl' \<le> file_size fl' \<and> file_size file_rw10 \<le> file_size fl')
   \<and> libresd_fat_read vol12 (file_rw10\<lparr>position := 10, cluster_offset := 10\<rparr>) 5
        = (LIBRESD_ERR_EOF, Some 0, [], vol12, file_rw10\<lparr>position := 10, cluster_offset := 10\<rparr>)"
proof -
  define w where "w = the (libresd_fat_write vol12 file_rw10 (\<lambda>_. 0x5A) 5)"
  have W: "libresd_fat_write vol12 file_rw10 (\<lambda>_. 0x5A) 5
             = Some (LIBRESD_OK, Some 5, fst (snd (snd w)), snd (snd (snd w)))"
    unfolding w_def by (simp add: file_eval_defs file_rw10_def vol12_eval)
  have R: "position (snd (snd (snd (snd (libresd_fat_read vol12 file_rw10 5))))) = 5"
    by (simp add: file_eval_defs file_rw10_def vol12_eval)
  have pre1: "is_open file_rw10 \<and> mode file_rw10 AND LIBRESD_READ \<noteq> 0
      \<and> position file_rw10 \<le> file_size file_rw10
      \<and> unat (position file_rw10) + unat (5 :: u32) < 2 ^ 32"
    by (simp add: file_rw10_def LIBRESD_READ_def)
  have pre3: "is_open (file_rw10\<lparr>position := 10, cluster_offset := 10\<rparr>)
      \<and> mode (file_rw10\<lparr>position := 10, cluster_offset := 10\<rparr>) AND LIBRESD_READ \<noteq> 0
      \<and> file_size (file_rw10\<lparr>position := 10, cluster_offset := 10\<rparr>)
          \<le> position (file_rw10\<lparr>position := 10, cluster_offset := 10\<rparr>)"
    by (simp add: file_rw10_def LIBRESD_READ_def)
  have pre2: "position file_rw10 \<le> file_size file_rw10" by (simp add: file_rw10_def)
  from C7_position_and_size [of file_rw10 5 vol12 "\<lambda>_. 0x5A" LIBRESD_OK "Some 5"
      "fst (snd (snd w))" "snd (snd (snd w))"] pre1 W pre2
  have a: "position (snd (snd (snd (snd (libresd_fat_read vol12 file_rw10 5)))))
           \<le> file_size (snd (snd (snd (snd (libresd_fat_read vol12 file_rw10 5)))))"
    and b: "file_size (snd (snd (snd (snd (libresd_fat_read vol12 file_rw10 5)))))
           = file_size file_rw10"
    and c: "file_size file_rw10 \<le> file_size (snd (snd (snd w)))"
    and d: "position (snd (snd (snd w))) \<le> file_size (snd (snd (snd w)))"
    by blast+
  from C7_position_and_size [of "file_rw10\<lparr>position := 10, cluster_offset := 10\<rparr>" 5 vol12] pre3
  have e: "libresd_fat_read vol12 (file_rw10\<lparr>position := 10, cluster_offset := 10\<rparr>) 5
        = (LIBRESD_ERR_EOF, Some 0, [], vol12, file_rw10\<lparr>position := 10, cluster_offset := 10\<rparr>)"
    by blast
  have f: "file_size file_rw10 = 10" by (simp add: file_rw10_def)
  show ?thesis using R a b c d e W unfolding f by blast
qed

text \<open>
  C8 (the claim as stated fails).  A file just created with Write has no cluster: seeking
  to 5000 leaves the handle where it was, so \<open>tell\<close> gives 0.  A file whose chain is the
  single cluster 3 (512 bytes) stops at 512, the end of its chain.  In both cases the
  handle is open for writing and \<open>seek(0, Cur)\<close> changes nothing.
\<close>

theorem C8_counterexample:
  "libresd_fat_seek vol12 file_new 5000 LIBRESD_SEEK_SET = Some (LIBRESD_OK, vol12, file_new)
   \<and> libresd_fat_seek vol12 file_new 0 LIBRESD_SEEK_CUR = Some (LIBRESD_OK, vol12, file_new)
   \<and> is_open file_new \<and> mode file_new AND LIBRESD_WRITE \<noteq> 0
   \<and> libresd_fat_tell file_new = 0
   \<and> libresd_fat_seek vol_full (file_mid\<lparr>position := 0, cluster_offset := 0\<rparr>) 5000
         LIBRESD_SEEK_SET
       = Some (LIBRESD_OK, vol_full, file_mid\<lparr>position := 512, cluster_offset := 0\<rparr>)
   \<and> libresd_fat_seek vol_full (file_mid\<lparr>position := 512, cluster_offset := 0\<rparr>) 0
         LIBRESD_SEEK_CUR
       = Some (LIBRESD_OK, vol_full, file_mid\<lparr>position := 512, cluster_offset := 0\<rparr>)
   \<and> libresd_fat_tell (file_mid\<lparr>position := 512, cluster_offset := 0\<rparr>) = 512"
  by (simp add: libresd_fat_seek_def seek_target_def libresd_fat_tell_def seek_walk.simps
      file_new_def file_mid_def LIBRESD_WRITE_def next_cluster_full_3 vol_full_fields Let_def)

text \<open>
  C8 (amended).  For every open file, every non-negative \<open>n\<close> and every volume with a
  non-zero cluster size, \<open>seek(n, Set)\<close> and then \<open>seek(0, Cur)\<close> both return Ok and the
  second leaves \<open>tell\<close> unchanged.  Let the target be \<open>n\<close>, or the file size if the file is
  not open for writing and \<open>n\<close> exceeds it, and let the start be the handle, rewound to its
  first cluster and position 0 if the target is below its position or is 0.  Then \<open>tell\<close> is
  at most the target, and
  \<^item> if the start is at the target, \<open>tell\<close> is the target;
  \<^item> if the start has no cluster, \<open>tell\<close> is the position of the start;
  \<^item> if the start is below the target, on a cluster, with a cluster offset of at most the
    cluster size, then \<open>tell\<close> is the target exactly when the FAT gives that cluster as many
    successors as there are cluster ends strictly before the target; otherwise \<open>tell\<close> is
    below the target;
  \<^item> whenever \<open>tell\<close> is not the target, the handle has no cluster or rests on a cluster
    for which the FAT gives no successor.
\<close>

theorem C8_seek_set_then_cur:
  assumes op: "is_open fl" and nn: "0 \<le> sint n" and cs: "cluster_size fat \<noteq> 0"
  shows "\<exists>fat1 f1 fat2 f2.
      libresd_fat_seek fat fl n LIBRESD_SEEK_SET = Some (LIBRESD_OK, fat1, f1)
    \<and> libresd_fat_seek fat1 f1 0 LIBRESD_SEEK_CUR = Some (LIBRESD_OK, fat2, f2)
    \<and> libresd_fat_tell f2 = libresd_fat_tell f1
    \<and> libresd_fat_tell f1 \<le> seek_clamp fl n
    \<and> (position (seek_rewind fl (seek_clamp fl n)) = seek_clamp fl n
         \<longrightarrow> libresd_fat_tell f1 = seek_clamp fl n)
    \<and> (current_cluster (seek_rewind fl (seek_clamp fl n)) < 2
         \<longrightarrow> libresd_fat_tell f1 = position (seek_rewind fl (seek_clamp fl n)))
    \<and> (position (seek_rewind fl (seek_clamp fl n)) < seek_clamp fl n
         \<and> 2 \<le> current_cluster (seek_rewind fl (seek_clamp fl n))
         \<and> cluster_offset (seek_rewind fl (seek_clamp fl n)) \<le> cluster_size fat
         \<longrightarrow> (libresd_fat_tell f1 = seek_clamp fl n)
              = chain_covers fat (current_cluster (seek_rewind fl (seek_clamp fl n)))
                  (crossings fat (seek_rewind fl (seek_clamp fl n)) (seek_clamp fl n)))
    \<and> (libresd_fat_tell f1 = seek_clamp fl n \<or> current_cluster f1 < 2
        \<or> fst (libresd_fat_next_cluster fat1 (current_cluster f1)) = 0)"
proof -
  define target where "target = seek_clamp fl n"
  define start where "start = seek_rewind fl target"
  have le1: "position start \<le> target"
    by (simp add: start_def seek_rewind_def not_less)
  have keep1: "file_size start = file_size fl" "mode start = mode fl"
    "is_open start = is_open fl"
    by (simp_all add: start_def seek_rewind_def)
  obtain fat1 f1 where
    w: "seek_walk fat start target = Some (fat1, f1)" and ok: "walk_ok fat start target fat1 f1"
    using seek_walk_result [OF cs le1] by blast
  have s1: "libresd_fat_seek fat fl n LIBRESD_SEEK_SET = Some (LIBRESD_OK, fat1, f1)"
    using w by (simp add: seek_as_walk [OF op nn] target_def [symmetric] start_def [symmetric])
  have pos: "position f1 \<le> target" and fs: "file_size f1 = file_size fl"
    and md: "mode f1 = mode fl" and op1: "is_open f1"
    using ok op keep1 by (simp_all add: walk_ok_def)
  have stop: "position f1 = target \<or> current_cluster f1 < 2
      \<or> fst (libresd_fat_next_cluster fat1 (current_cluster f1)) = 0"
    using ok by (simp add: walk_ok_def)
  have noclamp: "\<not> (mode f1 AND LIBRESD_WRITE = 0 \<and> file_size f1 < position f1)"
  proof
    assume a: "mode f1 AND LIBRESD_WRITE = 0 \<and> file_size f1 < position f1"
    hence "target \<le> file_size fl"
      using md by (simp add: target_def seek_clamp_def not_less)
    with pos have "position f1 \<le> file_size fl"
      by (rule order_trans)
    thus False
      using a fs by (auto dest: leD)
  qed
  define f2 where
    "f2 = (if position f1 = 0
           then f1\<lparr>current_cluster := first_cluster f1, cluster_offset := 0, position := 0\<rparr>
           else f1)"
  have p2: "position f2 = position f1"
    by (simp add: f2_def)
  have nc: "(if mode f1 AND LIBRESD_WRITE = 0 \<and> file_size f1 < position f1
             then file_size f1 else position f1) = position f1"
    using noclamp by (rule if_not_P)
  have s2: "libresd_fat_seek fat1 f1 0 LIBRESD_SEEK_CUR = Some (LIBRESD_OK, fat1, f2)"
    using op1 seek_walk_there [OF p2, of fat1]
    by (simp add: libresd_fat_seek_def seek_target_def Let_def nc f2_def [symmetric])
  have at: "position start = target \<longrightarrow> position f1 = target"
    using w seek_walk_there [of start target fat] by auto
  have none: "current_cluster start < 2 \<longrightarrow> position f1 = position start"
    using w seek_walk_stays [of start fat target] by auto
  have exact: "position start < target \<and> 2 \<le> current_cluster start
       \<and> cluster_offset start \<le> cluster_size fat
     \<longrightarrow> (position f1 = target) = chain_covers fat (current_cluster start)
           (crossings fat start target)"
    using w seek_walk_exact [OF cs, of start target] by auto
  show ?thesis
    unfolding target_def [symmetric] start_def [symmetric]
    using s1 s2 p2 pos stop at none exact
    by (auto simp add: libresd_fat_tell_def)
qed

text \<open>
  The amended statement on the two-cluster file: a seek to 700 crosses one cluster end and
  arrives; a seek to 5000 would need nine and stops short.
\<close>

theorem C8_seek_set_then_cur_witness:
  "is_open file_two \<and> 0 \<le> sint (700 :: u32) \<and> 0 \<le> sint (5000 :: u32)
   \<and> cluster_size vol_chain \<noteq> 0
   \<and> (\<exists>fat1 f1 fat2 f2.
        libresd_fat_seek vol_chain file_two 700 LIBRESD_SEEK_SET = Some (LIBRESD_OK, fat1, f1)
      \<and> libresd_fat_seek fat1 f1 0 LIBRESD_SEEK_CUR = Some (LIBRESD_OK, fat2, f2)
      \<and> libresd_fat_tell f2 = 700 \<and> libresd_fat_tell f1 = 700)
   \<and> (\<exists>fat1 f1 fat2 f2.
        libresd_fat_seek vol_chain file_two 5000 LIBRESD_SEEK_SET = Some (LIBRESD_OK, fat1, f1)
      \<and> libresd_fat_seek fat1 f1 0 LIBRESD_SEEK_CUR = Some (LIBRESD_OK, fat2, f2)
      \<and> libresd_fat_tell f2 = libresd_fat_tell f1 \<and> libresd_fat_tell f1 < 5000)"
proof -
  have pre: "is_open file_two" "0 \<le> sint (700 :: u32)" "0 \<le> sint (5000 :: u32)"
    "cluster_size vol_chain \<noteq> 0"
    by (simp_all add: file_two_def vol_chain_fields)
  have c700: "seek_clamp file_two 700 = 700" and c5000: "seek_clamp file_two 5000 = 5000"
    by (simp_all add: seek_clamp_def file_two_def LIBRESD_WRITE_def)
  have r700: "seek_rewind file_two 700 = file_two"
    and r5000: "seek_rewind file_two 5000 = file_two"
    by (simp_all add: seek_rewind_def file_two_def)
  have k700: "crossings vol_chain file_two 700 = Suc 0"
    and k5000: "crossings vol_chain file_two 5000 = Suc (Suc 7)"
    by (simp_all add: crossings_def file_two_def vol_chain_fields)
  have cov: "chain_covers vol_chain 2 (Suc 0)" "\<not> chain_covers vol_chain 2 (Suc (Suc k))" for k
    by (simp_all add: vol_chain_next)
  have st: "position file_two < 700" "position file_two < 5000" "2 \<le> current_cluster file_two"
    "cluster_offset file_two \<le> cluster_size vol_chain"
    by (simp_all add: file_two_def vol_chain_fields)
  have cc: "current_cluster file_two = 2"
    by (simp add: file_two_def)
  from C8_seek_set_then_cur [OF pre(1) pre(2) pre(4)] obtain fat1 f1 fat2 f2 where
    s1: "libresd_fat_seek vol_chain file_two 700 LIBRESD_SEEK_SET = Some (LIBRESD_OK, fat1, f1)"
    and s2: "libresd_fat_seek fat1 f1 0 LIBRESD_SEEK_CUR = Some (LIBRESD_OK, fat2, f2)"
    and t2: "libresd_fat_tell f2 = libresd_fat_tell f1"
    and ex: "position (seek_rewind file_two (seek_clamp file_two 700)) < seek_clamp file_two 700
         \<and> 2 \<le> current_cluster (seek_rewind file_two (seek_clamp file_two 700))
         \<and> cluster_offset (seek_rewind file_two (seek_clamp file_two 700)) \<le> cluster_size vol_chain
         \<longrightarrow> (libresd_fat_tell f1 = seek_clamp file_two 700)
              = chain_covers vol_chain (current_cluster (seek_rewind file_two (seek_clamp file_two 700)))
                  (crossings vol_chain (seek_rewind file_two (seek_clamp file_two 700))
                     (seek_clamp file_two 700))"
    by blast
  from ex [unfolded c700 r700 k700 cc] st cov(1) have "libresd_fat_tell f1 = 700"
    by (simp del: chain_covers.simps add: cc)
  with s1 s2 t2
  have a: "\<exists>fat1 f1 fat2 f2.
        libresd_fat_seek vol_chain file_two 700 LIBRESD_SEEK_SET = Some (LIBRESD_OK, fat1, f1)
      \<and> libresd_fat_seek fat1 f1 0 LIBRESD_SEEK_CUR = Some (LIBRESD_OK, fat2, f2)
      \<and> libresd_fat_tell f2 = 700 \<and> libresd_fat_tell f1 = 700"
    by auto
  from C8_seek_set_then_cur [OF pre(1) pre(3) pre(4)] obtain fat1' f1' fat2' f2' where
    s1': "libresd_fat_seek vol_chain file_two 5000 LIBRESD_SEEK_SET = Some (LIBRESD_OK, fat1', f1')"
    and s2': "libresd_fat_seek fat1' f1' 0 LIBRESD_SEEK_CUR = Some (LIBRESD_OK, fat2', f2')"
    and t2': "libresd_fat_tell f2' = libresd_fat_tell f1'"
    and le': "libresd_fat_tell f1' \<le> seek_clamp file_two 5000"
    and ex': "position (seek_rewind file_two (seek_clamp file_two 5000)) < seek_clamp file_two 5000
         \<and> 2 \<le> current_cluster (seek_rewind file_two (seek_clamp file_two 5000))
         \<and> cluster_offset (seek_rewind file_two (seek_clamp file_two 5000)) \<le> cluster_size vol_chain
         \<longrightarrow> (libresd_fat_tell f1' = seek_clamp file_two 5000)
              = chain_covers vol_chain (current_cluster (seek_rewind file_two (seek_clamp file_two 5000)))
                  (crossings vol_chain (seek_rewind file_two (seek_clamp file_two 5000))
                     (seek_clamp file_two 5000))"
    by blast
  from ex' [unfolded c5000 r5000 k5000 cc] st cov(2) [of 7]
  have "libresd_fat_tell f1' \<noteq> 5000"
    by (simp del: chain_covers.simps add: cc)
  with le' [unfolded c5000] have "libresd_fat_tell f1' < 5000"
    by (simp add: less_le)
  with s1' s2' t2'
  have b: "\<exists>fat1 f1 fat2 f2.
        libresd_fat_seek vol_chain file_two 5000 LIBRESD_SEEK_SET = Some (LIBRESD_OK, fat1, f1)
      \<and> libresd_fat_seek fat1 f1 0 LIBRESD_SEEK_CUR = Some (LIBRESD_OK, fat2, f2)
      \<and> libresd_fat_tell f2 = libresd_fat_tell f1 \<and> libresd_fat_tell f1 < 5000"
    by auto
  show ?thesis using pre a b by blast
qed

text \<open>
  C10 (the code at the failing input).  The card holds a FAT12 volume of two clusters, both
  in use; \<open>libresd_fat_mount\<close> mounts it and leaves \<open>last_alloc_cluster\<close> at 0.  A file just
  created, open for writing, is written 100 bytes.  The first pass of the loop calls
  \<open>libresd_fat_alloc_cluster\<close>, whose scan never ends; so \<open>libresd_fat_write\<close> does not
  return at all, where the claim has it return Ok with \<open>bytes_written\<close> 0.  On the same
  full volume with \<open>last_alloc_cluster\<close> at 3, a value the scan does come back to, the
  same write returns Ok with \<open>bytes_written\<close> 0.
\<close>

theorem C10_write_never_returns_on_mounted_full_volume:
  "mounted vol_full_mounted \<and> fs_type vol_full_mounted = LIBRESD_FS_FAT12
   \<and> cluster_count vol_full_mounted = 2
   \<and> last_alloc_cluster vol_full_mounted = 0
   \<and> full_disk 1 = full_fat
   \<and> is_open file_new \<and> mode file_new AND LIBRESD_WRITE \<noteq> 0 \<and> current_cluster file_new = 0
   \<and> libresd_fat_alloc_cluster vol_full_mounted 0 = None
   \<and> libresd_fat_write vol_full_mounted file_new (\<lambda>_. 0x5A) 100 = None
   \<and> last_alloc_cluster vol_full = 3
   \<and> libresd_fat_write vol_full file_new (\<lambda>_. 0x5A) 100
        = Some (LIBRESD_OK, Some 0, vol_full, file_new)"
proof -
  have "libresd_fat_alloc_cluster vol_full_mounted 0 = None"
    by (simp add: libresd_fat_alloc_cluster_def alloc_eoc_def vol_full_mounted_fields
        alloc_scan_hangs)
  moreover have "full_disk 1 = full_fat"
    by (simp add: full_disk_def)
  moreover have "is_open file_new \<and> mode file_new AND LIBRESD_WRITE \<noteq> 0
      \<and> current_cluster file_new = 0"
    by (simp add: file_new_def LIBRESD_WRITE_def)
  ultimately show ?thesis
    by (simp add: vol_full_mounted_fields write_hangs write_full_example vol_full_fields)
qed






text \<open>
  C6 (the claim as stated fails).  \<open>/A\<close> is the directory in cluster 2.  Making \<open>/A/C\<close>
  returns Ok and allocates cluster 5 (sector 8); the new entry \<open>C\<close> in the sector of \<open>A\<close>
  points to cluster 5.  In sector 8 the entry \<open>.\<close> has cluster 5, and the cluster fields of
  the entry \<open>..\<close> (bytes 52, 53, 58, 59) are 0, not 2.
\<close>

theorem C6_counterexample:
  "map_option (\<lambda>(e, f, r). (e, out_cluster r)) (fat_resolve_path vol_tree (cstr ''/A''))
     = Some (LIBRESD_OK, Some 2)
   \<and> map_option (\<lambda>(e, f). (e, last_alloc_cluster f,
                   map (blocks (hal (sd f)) 8) [32, 33, 34, 43, 52, 53, 58, 59],
                   map (blocks (hal (sd f)) 8) [0, 1, 11, 20, 21, 26, 27],
                   map (blocks (hal (sd f)) 5) [96, 107, 122, 123]))
       (libresd_fat_mkdir vol_tree (cstr ''/A/C'') clock)
     = Some (LIBRESD_OK, 5, [0x2E, 0x2E, 0x20, 0x10, 0, 0, 0, 0],
             [0x2E, 0x20, 0x10, 0, 0, 5, 0], [0x43, 0x30, 5, 0])"
  by (simp add: mkdir_eval resolve_eval readdir_eval tree_eval mkdir_sector_def)

text \<open>
  C6 (amended).  Whenever \<open>libresd_fat_mkdir\<close> returns Ok, a cluster has been allocated
  (it is \<open>last_alloc_cluster\<close>, not 0), the first sector of that cluster holds the buffer
  of \<open>libresd_fat_mkdir\<close> and every further sector of the cluster holds zeroes.  The
  buffer is: at offset 0 the entry \<open>.\<close> with the Directory attribute and the new cluster
  in its cluster fields; at offset 32 the entry \<open>..\<close> with the Directory attribute and 0 in
  its cluster fields, whatever the parent directory is; zeroes from offset 64 on.
\<close>

theorem C6_mkdir_first_sector:
  assumes m: "libresd_fat_mkdir fat path dt = Some (LIBRESD_OK, fat')"
  shows "last_alloc_cluster fat' \<noteq> 0
    \<and> (\<forall>j < unat (sectors_per_cluster fat').
          blocks (hal (sd fat'))
            (sd_addr (sd fat')
               (libresd_fat_cluster_to_sector fat' (last_alloc_cluster fat') + of_nat j))
          = (if j = 0 then mkdir_sector (last_alloc_cluster fat') dt else (\<lambda>_. 0)))
    \<and> map (mkdir_sector (last_alloc_cluster fat') dt) [0..<12]
        = [0x2E, 0x20, 0x20, 0x20, 0x20, 0x20, 0x20, 0x20, 0x20, 0x20, 0x20, 0x10]
    \<and> map (mkdir_sector (last_alloc_cluster fat') dt) [20, 21, 26, 27]
        = [ucast (drop_bit 16 (last_alloc_cluster fat') AND 0xFF),
           ucast (drop_bit 24 (last_alloc_cluster fat') AND 0xFF),
           ucast (last_alloc_cluster fat' AND 0xFF),
           ucast (drop_bit 8 (last_alloc_cluster fat') AND 0xFF)]
    \<and> map (mkdir_sector (last_alloc_cluster fat') dt) [32..<44]
        = [0x2E, 0x2E, 0x20, 0x20, 0x20, 0x20, 0x20, 0x20, 0x20, 0x20, 0x20, 0x10]
    \<and> map (mkdir_sector (last_alloc_cluster fat') dt) [52, 53, 58, 59] = [0, 0, 0, 0]
    \<and> (\<forall>i\<ge>64. mkdir_sector (last_alloc_cluster fat') dt i = 0)"
proof -
  from m have mt: "mounted fat"
    by (auto simp add: libresd_fat_mkdir_def split: if_splits)
  from m mt obtain ex fat1 where x: "libresd_fat_exists fat path = Some (ex, fat1)"
    by (cases "libresd_fat_exists fat path") (auto simp add: libresd_fat_mkdir_def)
  from m mt x have nex: "\<not> ex"
    by (auto simp add: libresd_fat_mkdir_def split: if_splits)
  from m mt x nex obtain err fat2 slot where
    c: "libresd_fat_create_file fat1 path LIBRESD_ATTR_DIRECTORY dt = Some (err, fat2, slot)"
    by (cases "libresd_fat_create_file fat1 path LIBRESD_ATTR_DIRECTORY dt")
      (auto simp add: libresd_fat_mkdir_def)
  from m mt x nex c have eok: "err = LIBRESD_OK"
    by (auto simp add: libresd_fat_mkdir_def split: if_splits)
  from m mt x nex c eok obtain dsec doff where sl: "slot = Some (dsec, doff)"
    by (cases slot) (auto simp add: libresd_fat_mkdir_def)
  from m mt x nex c eok sl obtain cluster fat3 where
    al: "libresd_fat_alloc_cluster fat2 0 = Some (cluster, fat3)"
    by (cases "libresd_fat_alloc_cluster fat2 0") (auto simp add: libresd_fat_mkdir_def)
  from m mt x nex c eok sl al have cn: "cluster \<noteq> 0"
    by (auto simp add: libresd_fat_mkdir_def split: if_splits)
  obtain err1 sd1 where sc: "mkdir_set_cluster (sd fat3) dsec doff cluster = (err1, sd1)"
    by fastforce
  from m mt x nex c eok sl al cn sc have e1: "err1 = LIBRESD_OK"
    by (auto simp add: libresd_fat_mkdir_def split: if_splits prod.splits)
  obtain err2 sd2 where
    wc: "mkdir_write_cluster sd1 (libresd_fat_cluster_to_sector fat3 cluster)
           (mkdir_sector cluster dt) 0 (unat (sectors_per_cluster fat3)) = (err2, sd2)"
    by fastforce
  from m mt x nex c eok sl al cn sc e1 wc have e2: "err2 = LIBRESD_OK"
    and f': "fat' = fat3\<lparr>sd := sd2\<rparr>"
    by (auto simp add: libresd_fat_mkdir_def)
  have la: "last_alloc_cluster fat3 = cluster"
    using alloc_last [OF al cn] by simp
  have small: "unat (0 :: u32) + unat (sectors_per_cluster fat3) \<le> 256"
    using unsigned_less [of "sectors_per_cluster fat3", where ?'a = nat] by simp
  note lp = mkdir_write_cluster_blocks [OF wc [unfolded e2] small]
  have same: "sd_addr sd2 = sd_addr sd1"
    using lp by (intro sd_addr_same) simp
  have sectors: "blocks (hal (sd fat'))
            (sd_addr (sd fat')
               (libresd_fat_cluster_to_sector fat' (last_alloc_cluster fat') + of_nat j))
          = (if j = 0 then mkdir_sector (last_alloc_cluster fat') dt else (\<lambda>_. 0))"
    if "j < unat (sectors_per_cluster fat')" for j
  proof -
    from that have jl: "j < unat (sectors_per_cluster fat3)" by (simp add: f')
    then have j256: "j < 256"
      using unsigned_less [of "sectors_per_cluster fat3", where ?'a = nat] by simp
    then have z: "(of_nat j = (0 :: u32)) = (j = 0)"
      by (simp add: word_unat_eq_iff unat_of_nat)
    from lp jl have "blocks (hal sd2)
        (sd_addr sd1 (libresd_fat_cluster_to_sector fat3 cluster + (0 + of_nat j)))
          = (if (0 :: u32) + of_nat j = 0 then mkdir_sector cluster dt else (\<lambda>_. 0))"
      by blast
    moreover have "libresd_fat_cluster_to_sector fat' = libresd_fat_cluster_to_sector fat3"
      by (simp add: f' libresd_fat_cluster_to_sector_def fun_eq_iff)
    ultimately show ?thesis
      using z same la by (simp add: f')
  qed
  show ?thesis
    using cn la sectors mkdir_sector_dot [where c = "last_alloc_cluster fat'" and dt = dt]
    by (simp add: f')
qed

theorem C6_mkdir_first_sector_witness:
  "\<exists>fat'. libresd_fat_mkdir vol_tree (cstr ''/A/C'') clock = Some (LIBRESD_OK, fat')
    \<and> last_alloc_cluster fat' \<noteq> 0
    \<and> (\<forall>j < unat (sectors_per_cluster fat').
          blocks (hal (sd fat'))
            (sd_addr (sd fat')
               (libresd_fat_cluster_to_sector fat' (last_alloc_cluster fat') + of_nat j))
          = (if j = 0 then mkdir_sector (last_alloc_cluster fat') clock else (\<lambda>_. 0)))
    \<and> map (mkdir_sector (last_alloc_cluster fat') clock) [52, 53, 58, 59] = [0, 0, 0, 0]"
proof -
  have "map_option fst (libresd_fat_mkdir vol_tree (cstr ''/A/C'') clock) = Some LIBRESD_OK"
    by (simp add: mkdir_eval resolve_eval readdir_eval tree_eval)
  then obtain fat' where
    u: "libresd_fat_mkdir vol_tree (cstr ''/A/C'') clock = Some (LIBRESD_OK, fat')"
    by (cases "libresd_fat_mkdir vol_tree (cstr ''/A/C'') clock") auto
  from C6_mkdir_first_sector [OF u] u show ?thesis
    by (intro exI [of _ fat']) simp
qed

end
